(* ===== verification/Prelude.thy ===== *)
theory Prelude
  imports Main "HOL-Library.Multiset"
begin

text \<open>
  Shared vocabulary of the development. The scraper is asynchronous Python that raises
  exceptions and writes to a structured logger; every component model therefore returns an
  \<^emph>\<open>effect\<close>: an exception or a value, paired with the log events the call emitted
  before it returned or raised. \<open>eff_bind\<close> sequences two such calls the way Python does:
  an exception skips the rest, the log of the first call is kept either way.
  The theory also collects the generic list lemmas the component proofs share.
\<close>

named_theorems eff_simps "evaluation rules of the exception-and-log effect"
named_theorems pystr_simps "evaluation rules of the Python string built-ins"

type_synonym ('e, 'a, 'l) eff = "('e + 'a) \<times> 'l list"

definition eff_return :: "'a \<Rightarrow> ('e, 'a, 'l) eff" where
  "eff_return a = (Inr a, [])"

definition eff_raise :: "'e \<Rightarrow> ('e, 'a, 'l) eff" where
  "eff_raise e = (Inl e, [])"

definition eff_log :: "'l \<Rightarrow> ('e, 'a, 'l) eff \<Rightarrow> ('e, 'a, 'l) eff" where
  "eff_log x m = (fst m, x # snd m)"

definition eff_bind :: "('e, 'a, 'l) eff \<Rightarrow> ('a \<Rightarrow> ('e, 'b, 'l) eff) \<Rightarrow> ('e, 'b, 'l) eff" where
  "eff_bind m f =
     (case m of
        (Inl e, l) \<Rightarrow> (Inl e, l)
      | (Inr a, l) \<Rightarrow> (case f a of (r, l') \<Rightarrow> (r, l @ l')))"

lemma eff_bind_return [simp, eff_simps]: "eff_bind (eff_return a) f = f a"
  by (simp add: eff_bind_def eff_return_def split: prod.split)

lemma eff_bind_raise [simp, eff_simps]: "eff_bind (eff_raise e) f = eff_raise e"
  by (simp add: eff_bind_def eff_raise_def)

lemma eff_bind_Inl [simp, eff_simps]: "eff_bind (Inl e, l) f = (Inl e, l)"
  by (simp add: eff_bind_def)

lemma eff_bind_Inr [simp, eff_simps]: "eff_bind (Inr a, l) f = (fst (f a), l @ snd (f a))"
  by (simp add: eff_bind_def split: prod.split)

lemma eff_log_simp [simp, eff_simps]: "eff_log x (r, l) = (r, x # l)"
  by (simp add: eff_log_def)

lemma eff_bind_assoc:
  "eff_bind (eff_bind m f) g = eff_bind m (\<lambda>a. eff_bind (f a) g)"
  by (cases m) (auto simp: eff_bind_def split: sum.split prod.split)

lemma fst_eff_bind_Inr:
  "fst (eff_bind m f) = Inr b \<Longrightarrow> \<exists>a. fst m = Inr a \<and> fst (f a) = Inr b"
  by (cases m) (auto simp: eff_bind_def split: sum.splits prod.splits)

subsection \<open>Generic list facts\<close>

lemma dropWhile_all_append [simp]:
  "list_all P ws \<Longrightarrow> dropWhile P (ws @ s) = dropWhile P s"
  by (induction ws) auto

lemma dropWhile_eq_Nil_conv_list_all:
  "dropWhile P s = [] \<longleftrightarrow> list_all P s"
  by (induction s) auto

lemma takeWhile_dropWhile_split:
  "takeWhile P s @ dropWhile P s = s"
  by simp

lemma hd_dropWhile_not:
  "dropWhile P s = c # r \<Longrightarrow> \<not> P c"
  by (induction s) (auto split: if_splits)

lemma find_Some_first:
  "find P xs = Some x \<Longrightarrow> P x \<and> x \<in> set xs"
  by (induction xs) (auto split: if_splits)

lemma find_None_list_all:
  "find P xs = None \<longleftrightarrow> list_all (\<lambda>x. \<not> P x) xs"
  by (induction xs) auto

lemma sum_list_map_update:
  "i < length xs \<Longrightarrow> sum_list (map (f :: _ \<Rightarrow> _ :: comm_monoid_add) (xs[i := y])) + f (xs ! i)
     = sum_list (map f xs) + f y"
proof (induction xs arbitrary: i)
  case Nil
  then show ?case by simp
next
  case (Cons x xs)
  then show ?case by (cases i) (simp_all add: ac_simps)
qed

lemma list_all_update: "list_all P xs \<Longrightarrow> P y \<Longrightarrow> list_all P (xs[i := y])"
  by (induction xs arbitrary: i) (auto split: nat.split)

lemma set_update_keep: "x \<in> set xs \<Longrightarrow> xs ! i \<noteq> x \<Longrightarrow> x \<in> set (xs[i := y])"
  by (metis in_set_conv_nth length_list_update nth_list_update_neq)

lemma list_all_update_iff:
  "i < length xs \<Longrightarrow> P (xs ! i) \<Longrightarrow> P y \<Longrightarrow> list_all P (xs[i := y]) = list_all P xs"
  by (auto simp: list_all_length nth_list_update)

lemma mset_le_add_right: "(c0::'a multiset) \<subseteq># C \<Longrightarrow> c0 \<subseteq># C + M"
  by (erule subset_mset.order_trans [OF _ mset_subset_eq_add_left])

lemma mset_diff_add_right: "(c0::'a multiset) \<subseteq># C \<Longrightarrow> C + M - c0 = (C - c0) + M"
  by (rule subset_mset.diff_add_assoc2)

lemma mset_diff_split:
  assumes "(c0::'a multiset) + M \<subseteq># C"
  shows "C - c0 = (C - (c0 + M)) + M"
proof -
  have "C = (c0 + M) + (C - (c0 + M))" using assms by (rule subset_mset.add_diff_inverse [symmetric])
  then have "C - c0 = M + (C - (c0 + M))"
    by (metis add.assoc add_diff_cancel_left')
  then show ?thesis by (simp only: add.commute)
qed

lemma mem_sum_list_mset: "x \<in># sum_list Ms \<longleftrightarrow> (\<exists>M\<in>set Ms. x \<in># M)"
  by (induction Ms) auto

end
