(* ===== verification/Exceptions.thy ===== *)
theory Exceptions
  imports Prelude
begin

text \<open>
  The exception taxonomy of \<^verbatim>\<open>src/exceptions.py\<close>, one constructor per class, each
  carrying the message string it is raised with, together with the five library exceptions
  that reach the scraper's code: Python's \<^verbatim>\<open>ValueError\<close> (raised by \<^verbatim>\<open>int()\<close>),
  \<^verbatim>\<open>AttributeError\<close> and \<^verbatim>\<open>TypeError\<close> (raised by pymongo's
  \<^verbatim>\<open>insert_many\<close> on an empty list), and httpx's \<^verbatim>\<open>HTTPStatusError\<close> (raised by
  \<^verbatim>\<open>raise_for_status\<close>) and \<^verbatim>\<open>TransportError\<close> (connection failures, timeouts).
  The class hierarchy of the source is kept as predicates: \<open>is_value_error\<close> is
  \<^verbatim>\<open>isinstance(e, ValueError)\<close>, \<open>is_http_error\<close> is
  \<^verbatim>\<open>isinstance(e, httpx.HTTPError)\<close>. The log events of \<^verbatim>\<open>structlog\<close> that the
  core emits are the datatype \<open>log_event\<close>.
\<close>

datatype exc =
    NotFoundError string
  | MissingCriticalElementError string
  | FuckedUpMarkupError string
  | InvalidPagerTextError string
  | InvalidAvailabilityClassError string
  | MissingAvailabilityError string
  | MissingPriceError string
  | InvalidPriceError string
  | MissingTitleError string
  | ValueError string
  | AttributeError string
  | HTTPStatusError int string
  | HTTPTransportError string
  | TypeError string

text \<open>\<^verbatim>\<open>str(e)\<close>: the message the exception was raised with.\<close>

fun exc_message :: "exc \<Rightarrow> string" where
  "exc_message (NotFoundError m) = m"
| "exc_message (MissingCriticalElementError m) = m"
| "exc_message (FuckedUpMarkupError m) = m"
| "exc_message (InvalidPagerTextError m) = m"
| "exc_message (InvalidAvailabilityClassError m) = m"
| "exc_message (MissingAvailabilityError m) = m"
| "exc_message (MissingPriceError m) = m"
| "exc_message (InvalidPriceError m) = m"
| "exc_message (MissingTitleError m) = m"
| "exc_message (ValueError m) = m"
| "exc_message (AttributeError m) = m"
| "exc_message (HTTPStatusError st url) = url"
| "exc_message (HTTPTransportError m) = m"
| "exc_message (TypeError m) = m"

text \<open>The base classes of \<^verbatim>\<open>exceptions.py\<close>: six classes derive from \<^verbatim>\<open>ValueError\<close>.\<close>

fun is_value_error :: "exc \<Rightarrow> bool" where
  "is_value_error (InvalidPagerTextError _) = True"
| "is_value_error (InvalidAvailabilityClassError _) = True"
| "is_value_error (MissingAvailabilityError _) = True"
| "is_value_error (MissingPriceError _) = True"
| "is_value_error (InvalidPriceError _) = True"
| "is_value_error (MissingTitleError _) = True"
| "is_value_error (ValueError _) = True"
| "is_value_error _ = False"

text \<open>\<^verbatim>\<open>httpx.HTTPError\<close> is the common base of status and transport errors.\<close>

fun is_http_error :: "exc \<Rightarrow> bool" where
  "is_http_error (HTTPStatusError _ _) = True"
| "is_http_error (HTTPTransportError _) = True"
| "is_http_error _ = False"

fun is_fucked_up_markup :: "exc \<Rightarrow> bool" where
  "is_fucked_up_markup (FuckedUpMarkupError _) = True"
| "is_fucked_up_markup _ = False"

fun is_missing_critical :: "exc \<Rightarrow> bool" where
  "is_missing_critical (MissingCriticalElementError _) = True"
| "is_missing_critical _ = False"

datatype log_event =
    LogDebug string int
  | LogInfo string
  | LogInfoPage string int
  | LogError exc
  | LogCritical exc

type_synonym 'a py = "(exc, 'a, log_event) eff"

end
