(* ===== verification/Py_Builtins.thy ===== *)
theory Py_Builtins
  imports Exceptions
begin

text \<open>
  The Python built-ins whose exact behaviour the scraper's results and messages depend on,
  on strings of code points below 256 (Isabelle's \<open>char\<close>; the pound sign of the prices,
  U+00A3, is one of them):
  \<^item> \<open>py_isspace\<close> is \<^verbatim>\<open>str.isspace\<close>, which is also what \<^verbatim>\<open>\s\<close> of the \<^verbatim>\<open>re\<close>
    module matches in a \<^verbatim>\<open>str\<close> pattern; \<open>py_strip\<close> is \<^verbatim>\<open>str.strip()\<close>;
  \<^item> \<open>py_repr_str\<close> and \<open>py_repr_list\<close> are \<^verbatim>\<open>repr\<close> of a string and \<^verbatim>\<open>str\<close> of a
    list of strings (CPython's \<^verbatim>\<open>unicode_repr\<close>: quote choice and escapes);
  \<^item> \<open>py_int\<close> is \<^verbatim>\<open>int(s)\<close> in base 10 with its whitespace, sign, underscore and
    4300-digit rules (Python 3.11 and later), raising \<^verbatim>\<open>ValueError\<close> otherwise;
  \<^item> \<open>dec_str\<close> and \<open>py_str_int\<close> are the decimal formatting of an f-string.
  None of this is code of the repository; it is the library semantics the code is run on.
\<close>

definition py_isspace :: "char \<Rightarrow> bool" where
  "py_isspace c =
     (let n = (of_char c :: nat) in (9 \<le> n \<and> n \<le> 13) \<or> (28 \<le> n \<and> n \<le> 32) \<or> n = 133 \<or> n = 160)"

definition py_strip :: "string \<Rightarrow> string" where
  "py_strip s = rev (dropWhile py_isspace (rev (dropWhile py_isspace s)))"

definition is_digit :: "char \<Rightarrow> bool" where
  "is_digit c = (let n = (of_char c :: nat) in 48 \<le> n \<and> n \<le> 57)"

definition digit_val :: "char \<Rightarrow> nat" where
  "digit_val c = of_char c - 48"

definition decimal_value :: "string \<Rightarrow> nat" where
  "decimal_value s = foldl (\<lambda>acc c. 10 * acc + digit_val c) 0 s"

fun dec_str :: "nat \<Rightarrow> string" where
  "dec_str n = (if n < 10 then [char_of (48 + n)]
                else dec_str (n div 10) @ [char_of (48 + n mod 10)])"

declare dec_str.simps [simp del]

definition py_str_int :: "int \<Rightarrow> string" where
  "py_str_int i = (if i < 0 then CHR ''-'' # dec_str (nat (- i)) else dec_str (nat i))"

subsection \<open>\<^verbatim>\<open>repr\<close>\<close>

definition hex_digit :: "nat \<Rightarrow> char" where
  "hex_digit n = (if n < 10 then char_of (48 + n) else char_of (87 + n))"

definition py_repr_quote :: "string \<Rightarrow> char" where
  "py_repr_quote s = (if CHR 0x27 \<in> set s \<and> CHR 0x22 \<notin> set s then CHR 0x22 else CHR 0x27)"

definition py_repr_char :: "char \<Rightarrow> char \<Rightarrow> string" where
  "py_repr_char q c =
     (let n = (of_char c :: nat) in
      if c = q \<or> c = CHR 0x5C then [CHR 0x5C, c]
      else if c = CHR 0x09 then [CHR 0x5C, CHR ''t'']
      else if c = CHR 0x0A then [CHR 0x5C, CHR ''n'']
      else if c = CHR 0x0D then [CHR 0x5C, CHR ''r'']
      else if n < 32 \<or> n = 127 then [CHR 0x5C, CHR ''x'', hex_digit (n div 16), hex_digit (n mod 16)]
      else if n < 127 then [c]
      else if 161 \<le> n \<and> n \<noteq> 173 then [c]
      else [CHR 0x5C, CHR ''x'', hex_digit (n div 16), hex_digit (n mod 16)])"

definition py_repr_str :: "string \<Rightarrow> string" where
  "py_repr_str s = (let q = py_repr_quote s in q # concat (map (py_repr_char q) s) @ [q])"

definition py_join :: "string \<Rightarrow> string list \<Rightarrow> string" where
  "py_join sep xs = (case xs of [] \<Rightarrow> [] | x # ys \<Rightarrow> x @ concat (map (\<lambda>y. sep @ y) ys))"

definition py_repr_list :: "string list \<Rightarrow> string" where
  "py_repr_list xs = CHR ''['' # py_join '', '' (map py_repr_str xs) @ '']''"

subsection \<open>\<^verbatim>\<open>int()\<close>\<close>

text \<open>Digits with single underscores between them, the body CPython accepts in base 10.\<close>

fun digit_groups :: "string \<Rightarrow> bool" where
  "digit_groups [] = False"
| "digit_groups (c # r) =
     (is_digit c \<and>
      (case r of [] \<Rightarrow> True | d # r' \<Rightarrow> (if d = CHR ''_'' then digit_groups r' else digit_groups r)))"

definition int_max_str_digits :: nat where
  "int_max_str_digits = 4300"

definition py_int :: "string \<Rightarrow> exc + int" where
  "py_int s =
     (let t = py_strip s;
          (neg, b) = (case t of
                        [] \<Rightarrow> (False, [])
                      | c # r \<Rightarrow> (if c = CHR ''-'' then (True, r)
                                 else if c = CHR ''+'' then (False, r) else (False, t)));
          ds = filter (\<lambda>c. c \<noteq> CHR ''_'') b
      in if \<not> digit_groups b
         then Inl (ValueError (''invalid literal for int() with base 10: '' @ py_repr_str s))
         else if int_max_str_digits < length ds
         then Inl (ValueError (''Exceeds the limit (4300 digits) for integer string conversion: value has ''
                               @ dec_str (length ds) @ '' digits; use sys.set_int_max_str_digits() to increase the limit''))
         else Inr ((if neg then -1 else 1) * int (decimal_value ds)))"

subsection \<open>Lemmas on \<^verbatim>\<open>str.strip\<close>\<close>

lemma list_all_dropWhile_iff: "list_all P (dropWhile P s) \<longleftrightarrow> list_all P s"
  by (induction s) simp_all

lemma py_strip_self:
  "t = [] \<or> (\<not> py_isspace (hd t) \<and> \<not> py_isspace (last t)) \<Longrightarrow> py_strip t = t"
proof (cases t)
  case Nil
  then show ?thesis by (simp add: py_strip_def)
next
  case (Cons c r)
  assume h: "t = [] \<or> (\<not> py_isspace (hd t) \<and> \<not> py_isspace (last t))"
  with Cons have d1: "dropWhile py_isspace t = t" by (simp add: dropWhile_eq_self_iff)
  from h Cons have "\<not> py_isspace (last t)" by simp
  then have "dropWhile py_isspace (rev t) = rev t"
    by (simp only: dropWhile_eq_self_iff hd_rev) simp
  with d1 show ?thesis by (simp add: py_strip_def)
qed

lemma py_strip_prefix:
  "dropWhile py_isspace s = py_strip s @ rev (takeWhile py_isspace (rev (dropWhile py_isspace s)))"
proof -
  let ?D = "dropWhile py_isspace s"
  have "rev ?D = takeWhile py_isspace (rev ?D) @ dropWhile py_isspace (rev ?D)" by simp
  then have "?D = rev (dropWhile py_isspace (rev ?D)) @ rev (takeWhile py_isspace (rev ?D))"
    by (metis rev_append rev_rev_ident)
  then show ?thesis by (simp add: py_strip_def)
qed

lemma py_strip_hd: "py_strip s \<noteq> [] \<Longrightarrow> \<not> py_isspace (hd (py_strip s))"
proof -
  assume ne: "py_strip s \<noteq> []"
  let ?D = "dropWhile py_isspace s"
  have "hd ?D = hd (py_strip s)" using ne py_strip_prefix [of s] by (metis hd_append2)
  moreover have "?D \<noteq> []" using ne py_strip_prefix [of s] by (metis Nil_is_append_conv)
  ultimately show ?thesis using hd_dropWhile by metis
qed

lemma py_strip_last: "py_strip s \<noteq> [] \<Longrightarrow> \<not> py_isspace (last (py_strip s))"
proof -
  assume ne: "py_strip s \<noteq> []"
  let ?E = "dropWhile py_isspace (rev (dropWhile py_isspace s))"
  have "py_strip s = rev ?E" by (simp add: py_strip_def)
  with ne have "?E \<noteq> []" and "last (py_strip s) = hd ?E" by (auto simp: last_rev)
  then show ?thesis using hd_dropWhile by metis
qed

lemma py_strip_idem [simp, pystr_simps]: "py_strip (py_strip s) = py_strip s"
  using py_strip_hd py_strip_last py_strip_self by blast

lemma py_strip_Nil_iff [pystr_simps]: "py_strip s = [] \<longleftrightarrow> list_all py_isspace s"
proof -
  have "py_strip s = [] \<longleftrightarrow> list_all py_isspace (rev (dropWhile py_isspace s))"
    unfolding py_strip_def by (metis Nil_is_rev_conv dropWhile_eq_Nil_conv_list_all)
  also have "\<dots> \<longleftrightarrow> list_all py_isspace s"
    by (simp only: list_all_rev list_all_dropWhile_iff)
  finally show ?thesis .
qed

lemma py_strip_no_space [pystr_simps]:
  "list_all (\<lambda>c. \<not> py_isspace c) s \<Longrightarrow> py_strip s = s"
  by (rule py_strip_self) (auto simp: list_all_iff)

lemma py_strip_pad [pystr_simps]:
  assumes "list_all py_isspace ws" and "list_all py_isspace ws'"
  shows "py_strip (ws @ s @ ws') = py_strip s"
proof (cases "list_all py_isspace s")
  case True
  with assms have "py_strip (ws @ s @ ws') = []" and "py_strip s = []"
    by (simp_all only: py_strip_Nil_iff list_all_append)
  then show ?thesis by simp
next
  case False
  then obtain x where "x \<in> set s" "\<not> py_isspace x" by (auto simp: list_all_iff)
  then have "dropWhile py_isspace (s @ ws') = dropWhile py_isspace s @ ws'"
    by (rule dropWhile_append1)
  moreover from assms(2) have "list_all py_isspace (rev ws')" by simp
  ultimately show ?thesis using assms(1) by (simp add: py_strip_def)
qed

subsection \<open>Lemmas on decimal digits and \<^verbatim>\<open>int()\<close>\<close>

lemma is_digit_not_space: "is_digit c \<Longrightarrow> \<not> py_isspace c"
  by (simp add: is_digit_def py_isspace_def Let_def)

lemma is_digit_char_of: "(k::nat) < 10 \<Longrightarrow> is_digit (char_of (48 + k))"
  by (simp add: is_digit_def)

lemma digit_val_char_of: "(k::nat) < 10 \<Longrightarrow> digit_val (char_of (48 + k)) = k"
  by (simp add: digit_val_def)

lemma decimal_value_snoc: "decimal_value (xs @ [c]) = 10 * decimal_value xs + digit_val c"
  by (simp add: decimal_value_def)

lemma dec_str_digits: "dec_str n \<noteq> [] \<and> list_all is_digit (dec_str n)"
proof (induction n rule: dec_str.induct)
  case (1 n)
  then show ?case by (auto simp: dec_str.simps [of n] is_digit_char_of)
qed

lemma decimal_value_dec_str: "decimal_value (dec_str n) = n"
proof (induction n rule: dec_str.induct)
  case (1 n)
  show ?case
  proof (cases "n < 10")
    case True
    then show ?thesis by (subst dec_str.simps) (simp add: decimal_value_def digit_val_def)
  next
    case False
    with "1.IH" show ?thesis
      by (subst dec_str.simps) (simp add: decimal_value_snoc digit_val_char_of)
  qed
qed

lemma dec_str_inj: "dec_str m = dec_str n \<longleftrightarrow> m = n"
  by (metis decimal_value_dec_str)

lemma dec_str_hd_not_minus: "dec_str n = c # r \<Longrightarrow> c \<noteq> CHR ''-''"
  using dec_str_digits [of n] by (auto simp: is_digit_def)

lemma py_str_int_inj: "py_str_int i = py_str_int j \<longleftrightarrow> i = j"
proof
  assume eq: "py_str_int i = py_str_int j"
  have ne: "\<And>n. dec_str n \<noteq> []" using dec_str_digits by blast
  have mixed: "\<And>a b. CHR ''-'' # dec_str a \<noteq> dec_str b"
    by (metis dec_str_hd_not_minus ne list.exhaust)
  show "i = j"
  proof (cases "i < 0"; cases "j < 0")
    assume "i < 0" "j < 0"
    with eq show ?thesis by (simp add: py_str_int_def dec_str_inj)
  next
    assume "i < 0" "\<not> j < 0"
    with eq mixed show ?thesis by (simp add: py_str_int_def)
  next
    assume "\<not> i < 0" "j < 0"
    with eq mixed show ?thesis by (metis py_str_int_def)
  next
    assume "\<not> i < 0" "\<not> j < 0"
    with eq show ?thesis by (simp add: py_str_int_def dec_str_inj)
  qed
qed simp

lemma digit_groups_digits: "s \<noteq> [] \<Longrightarrow> list_all is_digit s \<Longrightarrow> digit_groups s"
proof (induction s)
  case Nil
  then show ?case by simp
next
  case (Cons c r)
  have "\<not> is_digit CHR ''_''" by (simp add: is_digit_def)
  with Cons show ?case by (cases r) auto
qed

lemma digit_groups_chars: "digit_groups s \<Longrightarrow> list_all (\<lambda>c. is_digit c \<or> c = CHR ''_'') s"
proof (induction s rule: digit_groups.induct)
  case 1
  then show ?case by simp
next
  case (2 c r)
  show ?case
  proof (cases r)
    case Nil
    with "2.prems" show ?thesis by simp
  next
    case (Cons d r')
    show ?thesis
    proof (cases "d = CHR ''_''")
      case True
      with "2.prems" Cons have "digit_groups r'" "is_digit c" by simp_all
      with "2.IH"(1) [OF Cons True] Cons True show ?thesis by simp
    next
      case False
      with "2.prems" Cons have "digit_groups r" "is_digit c" by simp_all
      with "2.IH"(2) [OF Cons False] show ?thesis by simp
    qed
  qed
qed

lemma py_int_body:
  assumes "list_all (\<lambda>c. \<not> py_isspace c) s" and "s \<noteq> []"
    and "hd s \<noteq> CHR ''-''" and "hd s \<noteq> CHR ''+''"
  shows "py_int s =
     (if \<not> digit_groups s
      then Inl (ValueError (''invalid literal for int() with base 10: '' @ py_repr_str s))
      else if int_max_str_digits < length (filter (\<lambda>c. c \<noteq> CHR ''_'') s)
      then Inl (ValueError (''Exceeds the limit (4300 digits) for integer string conversion: value has ''
                 @ dec_str (length (filter (\<lambda>c. c \<noteq> CHR ''_'') s))
                 @ '' digits; use sys.set_int_max_str_digits() to increase the limit''))
      else Inr (int (decimal_value (filter (\<lambda>c. c \<noteq> CHR ''_'') s))))"
proof -
  from assms(1) have "py_strip s = s" by (rule py_strip_no_space)
  with assms(2-4) show ?thesis by (cases s) (simp_all add: py_int_def Let_def)
qed

lemma filter_no_underscore:
  "list_all (\<lambda>c. c \<noteq> CHR ''_'') s \<Longrightarrow> filter (\<lambda>c. c \<noteq> CHR ''_'') s = s"
  by (simp add: list_all_iff)

lemma py_int_decimal:
  assumes "s \<noteq> []" and "list_all is_digit s" and "length s \<le> int_max_str_digits"
  shows "py_int s = Inr (int (decimal_value s))"
proof -
  have c: "\<not> is_digit CHR ''-''" "\<not> is_digit CHR ''+''" "\<not> is_digit CHR ''_''"
    by (simp_all add: is_digit_def)
  have nsp: "list_all (\<lambda>c. \<not> py_isspace c) s"
    using assms(2) is_digit_not_space by (simp add: list_all_iff)
  obtain x r where s: "s = x # r" using assms(1) by (cases s) auto
  with assms(2) c have hd: "hd s \<noteq> CHR ''-''" "hd s \<noteq> CHR ''+''" by auto
  from assms(2) c(3) have "list_all (\<lambda>c. c \<noteq> CHR ''_'') s" by (auto simp: list_all_iff)
  then have flt: "filter (\<lambda>c. c \<noteq> CHR ''_'') s = s" by (rule filter_no_underscore)
  show ?thesis
    using py_int_body [OF nsp assms(1) hd] digit_groups_digits [OF assms(1,2)] flt assms(3)
    by simp
qed

lemma py_int_comma:
  assumes "list_all (\<lambda>c. is_digit c \<or> c = CHR '','') s" and "CHR '','' \<in> set s"
  shows "py_int s = Inl (ValueError (''invalid literal for int() with base 10: '' @ py_repr_str s))"
proof -
  have c: "\<not> is_digit CHR '',''" "\<not> py_isspace CHR '',''" "\<not> is_digit CHR ''-''" "\<not> is_digit CHR ''+''"
    by (simp_all add: is_digit_def py_isspace_def)
  have nsp: "list_all (\<lambda>c. \<not> py_isspace c) s"
    using assms(1) c(2) is_digit_not_space by (auto simp: list_all_iff)
  obtain x r where s: "s = x # r" using assms(2) by (cases s) auto
  with assms(1) have "is_digit x \<or> x = CHR '',''" by simp
  with c have hd: "hd s \<noteq> CHR ''-''" "hd s \<noteq> CHR ''+''" by (auto simp: s)
  have "\<not> digit_groups s"
  proof
    assume "digit_groups s"
    then have "list_all (\<lambda>c. is_digit c \<or> c = CHR ''_'') s" by (rule digit_groups_chars)
    with assms(2) have "is_digit CHR '','' \<or> CHR '','' = CHR ''_''" by (auto simp: list_all_iff)
    with c(1) show False by simp
  qed
  then show ?thesis using py_int_body [OF nsp _ hd] s by simp
qed

end
