(* ===== verification/Markup.thy ===== *)
theory Markup
  imports Py_Builtins
begin

text \<open>
  The parsed page as BeautifulSoup presents it to the scraper, and the four queries the
  code makes of it (\<^verbatim>\<open>select_one\<close>/\<^verbatim>\<open>find_all\<close>, \<^verbatim>\<open>get\<close>, \<^verbatim>\<open>.text\<close>). A node is
  an element with its tag name, its class list (bs4's multi-valued \<^verbatim>\<open>class\<close>
  attribute), its other attributes and its children; a text node; or a comment.
  A \<open>fragment\<close> is an element together with its ancestors, innermost first, as a bs4
  \<^verbatim>\<open>Tag\<close> knows its parents: the CSS descendant combinator (\<^verbatim>\<open>h3 a\<close>) may look at
  ancestors above the element a query starts from. An ancestor is recorded by its tag name
  and class list, which is all that the type and class selectors of the code read of it.
  \<open>select_all P f\<close> lists the descendants of \<open>f\<close> (not \<open>f\<close> itself) that satisfy
  \<open>P\<close>, in document order, each with its ancestors; \<open>select_one\<close> is its first
  element. A selector is a predicate on (ancestors, element).
  This is library behaviour, not code of the repository: the selectors the code passes
  are defined in the components that use them.
\<close>

datatype node =
    Tag string "string list" "(string \<times> string) list" "node list"
  | NavStr string
  | CommentStr string

type_synonym ancestor = "string \<times> string list"

type_synonym fragment = "ancestor list \<times> node"

type_synonym selector = "ancestor list \<Rightarrow> node \<Rightarrow> bool"

fun tag_name :: "node \<Rightarrow> string" where
  "tag_name (Tag n _ _ _) = n"
| "tag_name _ = []"

fun node_classes :: "node \<Rightarrow> string list" where
  "node_classes (Tag _ cs _ _) = cs"
| "node_classes _ = []"

definition has_class :: "string \<Rightarrow> node \<Rightarrow> bool" where
  "has_class c x = (c \<in> set (node_classes x))"

text \<open>\<^verbatim>\<open>tag.get(k)\<close> for an attribute other than \<^verbatim>\<open>class\<close>: \<open>None\<close> when absent.\<close>

fun get_attr :: "node \<Rightarrow> string \<Rightarrow> string option" where
  "get_attr (Tag _ _ at _) k = map_of at k"
| "get_attr _ k = None"

text \<open>\<^verbatim>\<open>.text\<close>: all descendant strings concatenated in document order; comments are
  not part of it.\<close>

fun get_text :: "node \<Rightarrow> string" where
  "get_text (Tag _ _ _ ch) = concat (map get_text ch)"
| "get_text (NavStr s) = s"
| "get_text (CommentStr _) = []"

fun select_all :: "selector \<Rightarrow> ancestor list \<Rightarrow> node \<Rightarrow> fragment list" where
  "select_all P anc (Tag n cs at ch) =
     concat (map (\<lambda>x. (if P ((n, cs) # anc) x then [((n, cs) # anc, x)] else [])
                      @ select_all P ((n, cs) # anc) x) ch)"
| "select_all P anc (NavStr s) = []"
| "select_all P anc (CommentStr s) = []"

definition select_one :: "selector \<Rightarrow> fragment \<Rightarrow> fragment option" where
  "select_one P f = (case select_all P (fst f) (snd f) of [] \<Rightarrow> None | y # _ \<Rightarrow> Some y)"

subsection \<open>Lemmas\<close>

lemma select_all_match:
  "(a, x) \<in> set (select_all P anc t) \<Longrightarrow> P a x"
  by (induction P anc t rule: select_all.induct) (auto split: if_splits)

lemma select_one_Some_match:
  "select_one P f = Some (a, x) \<Longrightarrow> P a x"
proof -
  assume "select_one P f = Some (a, x)"
  then have "(a, x) \<in> set (select_all P (fst f) (snd f))"
    by (auto simp: select_one_def split: list.splits)
  then show "P a x" by (rule select_all_match)
qed

lemma select_one_None_iff:
  "select_one P f = None \<longleftrightarrow> select_all P (fst f) (snd f) = []"
  by (simp add: select_one_def split: list.split)

end
