(* ===== verification/Availability.thy ===== *)
theory Availability
  imports Markup
begin

text \<open>
  The availability classifier, \<^verbatim>\<open>gauge_availability\<close> of \<^verbatim>\<open>src/scraper.py\<close>
  (lines 55--73). It selects the first \<^verbatim>\<open>p.availability\<close> element of the product
  fragment, raises \<^verbatim>\<open>FuckedUpMarkupError\<close> when there is none, raises
  \<^verbatim>\<open>InvalidAvailabilityClassError\<close> (with the class list in the message) when no class
  of the element is a key of the \<^verbatim>\<open>states\<close> dictionary, and otherwise returns the
  value of the first class, in class-list order, that is a key. The loop's trailing
  \<^verbatim>\<open>return False\<close> is modelled (\<open>first_state []\<close>) and shown unreachable.
  The specification \<open>classify_spec\<close> states the contract on the class list alone;
  \<open>gauge_availability_refines\<close> shows the code implements it.
\<close>

definition sel_availability :: selector where
  "sel_availability anc x = (tag_name x = ''p'' \<and> has_class ''availability'' x)"

definition availability_states :: "string \<rightharpoonup> bool" where
  "availability_states = map_of [(''instock'', True), (''outofstock'', False)]"

fun first_state :: "string list \<Rightarrow> bool" where
  "first_state [] = False"
| "first_state (c # cs) = (case availability_states c of Some b \<Rightarrow> b | None \<Rightarrow> first_state cs)"

definition invalid_class_message :: "string list \<Rightarrow> string" where
  "invalid_class_message cls =
     ''Unexpected availability class in element: '' @ py_repr_list cls
     @ ''. Expected 'instock' or 'outofstock'' @ [CHR 0x27]"

definition gauge_availability :: "fragment \<Rightarrow> exc + bool" where
  "gauge_availability f =
     (case select_one sel_availability f of
        None \<Rightarrow> Inl (FuckedUpMarkupError ''Missing the root .availability element in the provided document'')
      | Some (_, avail) \<Rightarrow>
          (let has_class = map (\<lambda>c. c \<in> dom availability_states) (node_classes avail) in
           if \<not> list_ex id has_class
           then Inl (InvalidAvailabilityClassError (invalid_class_message (node_classes avail)))
           else Inr (first_state (node_classes avail))))"

subsection \<open>Specification\<close>

text \<open>The contract on a class list: the first recognised class decides, and a list with
  none is an error that reproduces the list.\<close>

definition recognised :: "string \<Rightarrow> bool" where
  "recognised c = (c = ''instock'' \<or> c = ''outofstock'')"

definition classify_spec :: "string list \<Rightarrow> exc + bool" where
  "classify_spec cls =
     (case find recognised cls of
        None \<Rightarrow> Inl (InvalidAvailabilityClassError (invalid_class_message cls))
      | Some c \<Rightarrow> Inr (c = ''instock''))"

subsection \<open>Lemmas\<close>

lemma dom_availability_states: "c \<in> dom availability_states \<longleftrightarrow> recognised c"
  by (auto simp: availability_states_def recognised_def)

lemma list_ex_has_class_iff:
  "list_ex id (map (\<lambda>c. c \<in> dom availability_states) cls) \<longleftrightarrow> find recognised cls \<noteq> None"
  by (induction cls) (auto simp: dom_availability_states)

lemma first_state_find:
  "find recognised cls = Some c \<Longrightarrow> first_state cls = (c = ''instock'')"
  by (induction cls) (auto simp: availability_states_def recognised_def split: if_splits)

lemma gauge_availability_marker:
  "select_one sel_availability f = Some (a, avail) \<Longrightarrow>
   gauge_availability f = classify_spec (node_classes avail)"
  by (auto simp: gauge_availability_def classify_spec_def list_ex_has_class_iff first_state_find
           split: option.split)

lemma gauge_availability_no_marker:
  "select_one sel_availability f = None \<Longrightarrow>
   gauge_availability f = Inl (FuckedUpMarkupError ''Missing the root .availability element in the provided document'')"
  by (simp add: gauge_availability_def)

subsection \<open>Properties\<close>

text \<open>C9. The classifier implements its contract: without a \<^verbatim>\<open>p.availability\<close>
  element it raises \<^verbatim>\<open>FuckedUpMarkupError\<close>; with one, its result is
  \<open>classify_spec\<close> of the element's class list (first recognised class decides; none
  recognised is \<^verbatim>\<open>InvalidAvailabilityClassError\<close>). The loop's final
  \<^verbatim>\<open>return False\<close> never decides a result.\<close>

theorem gauge_availability_refines:
  "gauge_availability f =
     (case select_one sel_availability f of
        None \<Rightarrow> Inl (FuckedUpMarkupError ''Missing the root .availability element in the provided document'')
      | Some (_, avail) \<Rightarrow> classify_spec (node_classes avail))"
  by (cases "select_one sel_availability f")
     (auto simp: gauge_availability_marker gauge_availability_no_marker)

text \<open>C10. With the root marker present the classifier never reports a structural error:
  it returns the value of the first recognised class, or, when no class is recognised,
  raises \<^verbatim>\<open>InvalidAvailabilityClassError\<close> with the class list, as Python prints
  it, inside the message.\<close>

theorem gauge_availability_with_marker:
  assumes "select_one sel_availability f = Some (a, avail)"
  shows "(\<exists>c. find recognised (node_classes avail) = Some c
              \<and> gauge_availability f = Inr (c = ''instock''))
         \<or> (list_all (\<lambda>c. \<not> recognised c) (node_classes avail)
              \<and> (\<exists>pre suf. gauge_availability f =
                   Inl (InvalidAvailabilityClassError (pre @ py_repr_list (node_classes avail) @ suf))))"
proof (cases "find recognised (node_classes avail)")
  case None
  then have "list_all (\<lambda>c. \<not> recognised c) (node_classes avail)"
    by (simp add: find_None_list_all)
  moreover from None assms have "gauge_availability f =
      Inl (InvalidAvailabilityClassError (invalid_class_message (node_classes avail)))"
    by (simp add: gauge_availability_marker classify_spec_def)
  ultimately show ?thesis unfolding invalid_class_message_def by blast
next
  case (Some c)
  with assms show ?thesis by (simp add: gauge_availability_marker classify_spec_def)
qed

end
