(* ===== verification/Extractor.thy ===== *)
theory Extractor
  imports Availability
begin

text \<open>
  The record extractor, \<^verbatim>\<open>parse_book\<close> of \<^verbatim>\<open>src/scraper.py\<close> (lines 20--52), and
  the record it builds, \<^verbatim>\<open>entities.Book\<close> (the module is not part of the sources; its
  three fields are those the constructor call and the tests use). The checks run in the
  source's order and the first failure is the result:
  \<^enum> the first \<^verbatim>\<open>h3 a\<close> element, else \<^verbatim>\<open>MissingTitleError\<close>;
  \<^enum> its \<^verbatim>\<open>title\<close> attribute, absent or empty, else \<^verbatim>\<open>MissingTitleError\<close>;
  \<^enum> \<open>gauge_availability\<close>: a \<^verbatim>\<open>FuckedUpMarkupError\<close> is re-raised as
    \<^verbatim>\<open>MissingAvailabilityError\<close> naming the title; any other exception passes through
    unchanged (the \<^verbatim>\<open>except\<close> clause names only \<^verbatim>\<open>FuckedUpMarkupError\<close>);
  \<^enum> the first \<^verbatim>\<open>.price_color\<close> element, else \<^verbatim>\<open>MissingPriceError\<close>;
  \<^enum> its text, stripped, non-empty, else \<^verbatim>\<open>InvalidPriceError\<close>;
  and the record holds the stripped title, the stripped price text and the availability.
\<close>

record book =
  title :: string
  price :: string
  available :: bool

definition sel_title :: selector where
  "sel_title anc x = (tag_name x = ''a'' \<and> list_ex (\<lambda>y. fst y = ''h3'') anc)"

definition sel_price :: selector where
  "sel_price anc x = has_class ''price_color'' x"

definition missing_title_element_msg :: string where
  "missing_title_element_msg = ''Missing 'h3 a' element for title in the provided document''"

definition missing_title_attribute_msg :: string where
  "missing_title_attribute_msg = ''Missing 'title' attribute in 'h3 a' element for book title''"

definition missing_price_msg :: string where
  "missing_price_msg = ''Missing '.price_color' element for price in the provided document''"

definition invalid_price_msg :: string where
  "invalid_price_msg = ''Empty or invalid price text found in '.price_color' element''"

definition availability_context_msg :: "string \<Rightarrow> exc \<Rightarrow> string" where
  "availability_context_msg title_str e =
     ''Error determining availability for book: '' @ title_str @ ''. Details: '' @ exc_message e"

definition parse_book :: "fragment \<Rightarrow> exc + book" where
  "parse_book f =
     (case select_one sel_title f of
        None \<Rightarrow> Inl (MissingTitleError missing_title_element_msg)
      | Some (_, t) \<Rightarrow>
          (case get_attr t ''title'' of
             None \<Rightarrow> Inl (MissingTitleError missing_title_attribute_msg)
           | Some title_str \<Rightarrow>
               if title_str = [] then Inl (MissingTitleError missing_title_attribute_msg)
               else
                 (case gauge_availability f of
                    Inl e \<Rightarrow>
                      if is_fucked_up_markup e
                      then Inl (MissingAvailabilityError (availability_context_msg title_str e))
                      else Inl e
                  | Inr avail \<Rightarrow>
                      (case select_one sel_price f of
                         None \<Rightarrow> Inl (MissingPriceError missing_price_msg)
                       | Some (_, p) \<Rightarrow>
                           (let price_text = py_strip (get_text p) in
                            if price_text = [] then Inl (InvalidPriceError invalid_price_msg)
                            else Inr \<lparr>title = py_strip title_str, price = price_text,
                                      available = avail\<rparr>)))))"

text \<open>What the data model promises of every record: a non-empty price and both text
  fields free of surrounding whitespace.\<close>

definition valid_book :: "book \<Rightarrow> bool" where
  "valid_book b = (price b \<noteq> [] \<and> py_strip (price b) = price b \<and> py_strip (title b) = title b)"

text \<open>The successful path spelled out: which elements were found and what was read.\<close>

definition extracted_from :: "fragment \<Rightarrow> book \<Rightarrow> bool" where
  "extracted_from f b =
     (\<exists>a t title_str ap p.
        select_one sel_title f = Some (a, t) \<and> get_attr t ''title'' = Some title_str
        \<and> title_str \<noteq> [] \<and> title b = py_strip title_str
        \<and> gauge_availability f = Inr (available b)
        \<and> select_one sel_price f = Some (ap, p) \<and> price b = py_strip (get_text p)
        \<and> price b \<noteq> [])"

subsection \<open>Lemmas\<close>

lemma parse_book_Inr_cases:
  assumes "parse_book f = Inr b"
  obtains a t title_str ap p where
    "select_one sel_title f = Some (a, t)" "get_attr t ''title'' = Some title_str"
    "title_str \<noteq> []" "gauge_availability f = Inr (available b)"
    "select_one sel_price f = Some (ap, p)" "py_strip (get_text p) \<noteq> []"
    "b = \<lparr>title = py_strip title_str, price = py_strip (get_text p), available = available b\<rparr>"
  using assms
  by (auto simp: parse_book_def Let_def
           split: option.splits sum.splits if_splits prod.splits)

lemma parse_book_title_ok:
  assumes "select_one sel_title f = Some (a, t)" and "get_attr t ''title'' = Some title_str"
    and "title_str \<noteq> []"
  shows "parse_book f =
     (case gauge_availability f of
        Inl e \<Rightarrow>
          if is_fucked_up_markup e
          then Inl (MissingAvailabilityError (availability_context_msg title_str e))
          else Inl e
      | Inr avail \<Rightarrow>
          (case select_one sel_price f of
             None \<Rightarrow> Inl (MissingPriceError missing_price_msg)
           | Some (_, p) \<Rightarrow>
               (let price_text = py_strip (get_text p) in
                if price_text = [] then Inl (InvalidPriceError invalid_price_msg)
                else Inr \<lparr>title = py_strip title_str, price = price_text, available = avail\<rparr>)))"
  using assms by (simp add: parse_book_def)

lemma parse_book_valid: "parse_book f = Inr b \<Longrightarrow> valid_book b"
proof -
  assume "parse_book f = Inr b"
  then obtain a t title_str ap p where
    pr: "py_strip (get_text p) \<noteq> []" and
    b: "b = \<lparr>title = py_strip title_str, price = py_strip (get_text p), available = available b\<rparr>"
    by (rule parse_book_Inr_cases)
  show "valid_book b"
    unfolding valid_book_def using pr b by (metis book.select_convs(1,2) py_strip_idem)
qed

subsection \<open>Properties\<close>

text \<open>C2. No partially valid record: every record \<open>parse_book\<close> returns was built after
  all three fields passed their checks (an \<^verbatim>\<open>h3 a\<close> element with a non-empty
  \<^verbatim>\<open>title\<close>, a classified availability, a \<^verbatim>\<open>.price_color\<close> element with
  non-blank text), and it satisfies the data model's shape: a non-empty price and both
  text fields stripped.\<close>

theorem parse_book_sound:
  assumes "parse_book f = Inr b"
  shows "extracted_from f b \<and> valid_book b"
proof -
  from assms obtain a t title_str ap p where
    t: "select_one sel_title f = Some (a, t)" "get_attr t ''title'' = Some title_str"
       "title_str \<noteq> []" and g: "gauge_availability f = Inr (available b)" and
    pr: "select_one sel_price f = Some (ap, p)" "py_strip (get_text p) \<noteq> []" and
    b: "b = \<lparr>title = py_strip title_str, price = py_strip (get_text p), available = available b\<rparr>"
    by (rule parse_book_Inr_cases)
  have "extracted_from f b"
    unfolding extracted_from_def using t g pr b by (metis book.select_convs(1,2))
  moreover have "valid_book b" using assms by (rule parse_book_valid)
  ultimately show ?thesis ..
qed

text \<open>C3. Validation step 1: a fragment without an \<^verbatim>\<open>h3 a\<close> element fails with
  \<^verbatim>\<open>MissingTitleError\<close> and the element message, whatever else it holds.\<close>

theorem parse_book_missing_title_element:
  assumes "select_one sel_title f = None"
  shows "parse_book f = Inl (MissingTitleError missing_title_element_msg)"
  using assms by (simp add: parse_book_def)

text \<open>C4. Validation step 1, the attribute: an \<^verbatim>\<open>h3 a\<close> element whose
  \<^verbatim>\<open>title\<close> attribute is absent or empty fails with \<^verbatim>\<open>MissingTitleError\<close> and
  the attribute message.\<close>

theorem parse_book_missing_title_attribute:
  assumes "select_one sel_title f = Some (a, t)"
    and "get_attr t ''title'' = None \<or> get_attr t ''title'' = Some []"
  shows "parse_book f = Inl (MissingTitleError missing_title_attribute_msg)"
  using assms by (auto simp: parse_book_def)

text \<open>C5. Validation step 2: when the title is present but the fragment has no
  \<^verbatim>\<open>p.availability\<close> element, the classifier's structural error is re-raised as
  \<^verbatim>\<open>MissingAvailabilityError\<close> whose message names the (unstripped) title and carries
  the original message.\<close>

theorem parse_book_missing_availability:
  assumes "select_one sel_title f = Some (a, t)" and "get_attr t ''title'' = Some title_str"
    and "title_str \<noteq> []" and "select_one sel_availability f = None"
  shows "parse_book f = Inl (MissingAvailabilityError
           (''Error determining availability for book: '' @ title_str
            @ ''. Details: Missing the root .availability element in the provided document''))"
  using parse_book_title_ok [OF assms(1-3)] assms(4)
  by (simp add: gauge_availability_no_marker availability_context_msg_def)

text \<open>C6. Validation step 2, unrecognised classes: the classifier's
  \<^verbatim>\<open>InvalidAvailabilityClassError\<close> is not a \<^verbatim>\<open>FuckedUpMarkupError\<close>, so
  \<open>parse_book\<close> does not wrap it: it leaves the extractor unchanged, not as
  \<^verbatim>\<open>MissingAvailabilityError\<close>.\<close>

theorem parse_book_invalid_class_unwrapped:
  assumes "select_one sel_title f = Some (a, t)" and "get_attr t ''title'' = Some title_str"
    and "title_str \<noteq> []" and "select_one sel_availability f = Some (aa, avail)"
    and "list_all (\<lambda>c. \<not> recognised c) (node_classes avail)"
  shows "parse_book f = Inl (InvalidAvailabilityClassError (invalid_class_message (node_classes avail)))"
proof -
  from assms(5) have "find recognised (node_classes avail) = None"
    by (simp add: find_None_list_all)
  with assms(4) have "gauge_availability f =
      Inl (InvalidAvailabilityClassError (invalid_class_message (node_classes avail)))"
    by (simp add: gauge_availability_marker classify_spec_def)
  with parse_book_title_ok [OF assms(1-3)] show ?thesis by simp
qed

text \<open>C7. Validation step 3: with title and availability settled, a fragment without a
  \<^verbatim>\<open>.price_color\<close> element fails with \<^verbatim>\<open>MissingPriceError\<close>.\<close>

theorem parse_book_missing_price:
  assumes "select_one sel_title f = Some (a, t)" and "get_attr t ''title'' = Some title_str"
    and "title_str \<noteq> []" and "gauge_availability f = Inr avail"
    and "select_one sel_price f = None"
  shows "parse_book f = Inl (MissingPriceError missing_price_msg)"
  using parse_book_title_ok [OF assms(1-3)] assms(4,5) by simp

text \<open>C8. Validation step 3, the text: a \<^verbatim>\<open>.price_color\<close> element whose whole
  text (all descendant strings) is whitespace fails with \<^verbatim>\<open>InvalidPriceError\<close>.\<close>

theorem parse_book_invalid_price:
  assumes "select_one sel_title f = Some (a, t)" and "get_attr t ''title'' = Some title_str"
    and "title_str \<noteq> []" and "gauge_availability f = Inr avail"
    and "select_one sel_price f = Some (ap, p)" and "list_all py_isspace (get_text p)"
  shows "parse_book f = Inl (InvalidPriceError invalid_price_msg)"
proof -
  from assms(6) have "py_strip (get_text p) = []" by (simp add: py_strip_Nil_iff)
  with parse_book_title_ok [OF assms(1-3)] assms(4,5) show ?thesis by simp
qed

end
