(* ===== verification/Page_Parser.thy ===== *)
theory Page_Parser
  imports Extractor
begin

text \<open>
  The page parser, \<^verbatim>\<open>parse_page\<close> of \<^verbatim>\<open>src/scraper.py\<close> (lines 86--103). Its
  argument is a \<^verbatim>\<open>str\<close>, a \<^verbatim>\<open>Tag\<close> or a \<^verbatim>\<open>NavigableString\<close> (\<open>layout\<close>). The line
  \<^verbatim>\<open>soup = layout is str and BeautifulSoup(layout, ...) or layout\<close> compares the
  argument with the class \<^verbatim>\<open>str\<close> by identity, which is never true of a string value,
  so \<open>soup\<close> is always the argument itself; \<^verbatim>\<open>find_all\<close> then exists only on a
  \<^verbatim>\<open>Tag\<close>, and any other argument raises \<^verbatim>\<open>AttributeError\<close>.
  The loop over the \<^verbatim>\<open>article.product_pod\<close> elements (\<open>parse_products\<close>) appends each
  record \<open>parse_book\<close> returns; an exception of the \<^verbatim>\<open>except\<close> tuple
  (\<^verbatim>\<open>MissingTitleError\<close>, \<^verbatim>\<open>MissingAvailabilityError\<close> twice,
  \<^verbatim>\<open>MissingPriceError\<close>) is logged at error level and skipped, a
  \<^verbatim>\<open>MissingCriticalElementError\<close> is logged at critical level and skipped, and any other
  exception leaves the function, losing the records collected so far.
  \<open>page_spec\<close> states the same behaviour without the loop: the fragments up to the first
  one whose exception escapes are parsed, their records kept in document order and their
  skips logged; the escaping exception, if any, is the result.
\<close>

datatype layout = LayoutStr string | LayoutNode node

definition sel_product :: selector where
  "sel_product anc x = (tag_name x = ''article'' \<and> has_class ''product_pod'' x)"

fun is_skipped_error :: "exc \<Rightarrow> bool" where
  "is_skipped_error (MissingTitleError _) = True"
| "is_skipped_error (MissingAvailabilityError _) = True"
| "is_skipped_error (MissingPriceError _) = True"
| "is_skipped_error _ = False"

fun parse_products :: "fragment list \<Rightarrow> book list \<Rightarrow> book list py" where
  "parse_products [] out = (Inr out, [])"
| "parse_products (p # ps) out =
     (case parse_book p of
        Inr b \<Rightarrow> parse_products ps (out @ [b])
      | Inl e \<Rightarrow>
          if is_skipped_error e then eff_log (LogError e) (parse_products ps out)
          else if is_missing_critical e then eff_log (LogCritical e) (parse_products ps out)
          else (Inl e, []))"

fun py_type_name :: "node \<Rightarrow> string" where
  "py_type_name (Tag _ _ _ _) = ''Tag''"
| "py_type_name (NavStr _) = ''NavigableString''"
| "py_type_name (CommentStr _) = ''Comment''"

definition no_find_all_msg :: "string \<Rightarrow> string" where
  "no_find_all_msg cls = [CHR 0x27] @ cls @ '' object has no attribute 'find_all'' @ [CHR 0x27]"

definition parse_page :: "layout \<Rightarrow> book list py" where
  "parse_page layout =
     (case layout of
        LayoutStr s \<Rightarrow> (Inl (AttributeError (no_find_all_msg ''str'')), [])
      | LayoutNode soup \<Rightarrow>
          (case soup of
             Tag _ _ _ _ \<Rightarrow> parse_products (select_all sel_product [] soup) []
           | _ \<Rightarrow> (Inl (AttributeError (no_find_all_msg (py_type_name soup))), [])))"

subsection \<open>Specification\<close>

definition escapes :: "exc + book \<Rightarrow> bool" where
  "escapes r = (case r of Inl e \<Rightarrow> \<not> is_skipped_error e \<and> \<not> is_missing_critical e | Inr _ \<Rightarrow> False)"

fun book_of :: "exc + book \<Rightarrow> book list" where
  "book_of (Inr b) = [b]"
| "book_of (Inl e) = []"

fun skip_event :: "exc + book \<Rightarrow> log_event list" where
  "skip_event (Inl e) = (if is_missing_critical e then [LogCritical e] else [LogError e])"
| "skip_event (Inr b) = []"

definition page_spec :: "fragment list \<Rightarrow> book list py" where
  "page_spec ps =
     (let rs = map parse_book ps;
          kept = takeWhile (\<lambda>r. \<not> escapes r) rs
      in ((case dropWhile (\<lambda>r. \<not> escapes r) rs of
             [] \<Rightarrow> Inr (concat (map book_of kept))
           | r # _ \<Rightarrow> (case r of Inl e \<Rightarrow> Inl e | Inr b \<Rightarrow> Inr [])),
          concat (map skip_event kept)))"

subsection \<open>Lemmas\<close>

lemma escapes_simps [simp]:
  "escapes (Inl e) \<longleftrightarrow> \<not> is_skipped_error e \<and> \<not> is_missing_critical e"
  "\<not> escapes (Inr b)"
  by (simp_all add: escapes_def)

lemma skipped_not_critical: "is_skipped_error e \<Longrightarrow> \<not> is_missing_critical e"
  by (cases e) auto

lemma parse_products_spec:
  "parse_products ps out =
     (let rs = map parse_book ps;
          kept = takeWhile (\<lambda>r. \<not> escapes r) rs
      in ((case dropWhile (\<lambda>r. \<not> escapes r) rs of
             [] \<Rightarrow> Inr (out @ concat (map book_of kept))
           | r # _ \<Rightarrow> (case r of Inl e \<Rightarrow> Inl e | Inr b \<Rightarrow> Inr [])),
          concat (map skip_event kept)))"
proof (induction ps arbitrary: out)
  case Nil
  then show ?case by simp
next
  case (Cons p ps)
  show ?case
  proof (cases "parse_book p")
    case (Inl e)
    then show ?thesis
      using Cons.IH [of out] skipped_not_critical [of e]
      by (cases "is_skipped_error e") (simp_all add: eff_log_def Let_def cong: list.case_cong)
  next
    case (Inr b)
    then show ?thesis
      using Cons.IH [of "out @ [b]"] by (simp add: Let_def cong: list.case_cong)
  qed
qed

lemma book_of_skip_event_length:
  "\<not> escapes r \<Longrightarrow> length (book_of r) + length (skip_event r) = 1"
  by (cases r) simp_all

lemma concat_book_skip_length:
  "list_all (\<lambda>r. \<not> escapes r) rs \<Longrightarrow>
   length (concat (map book_of rs)) + length (concat (map skip_event rs)) = length rs"
proof (induction rs)
  case Nil
  then show ?case by simp
next
  case (Cons r rs)
  then have "length (book_of r) + length (skip_event r) = 1"
    by (simp add: book_of_skip_event_length)
  with Cons show ?case by simp
qed

lemma dropWhile_escapes_Cons:
  "dropWhile (\<lambda>r. \<not> escapes r) rs = r # rest \<Longrightarrow> \<exists>e. r = Inl e"
  using hd_dropWhile_not [of "\<lambda>r. \<not> escapes r" rs r rest] by (cases r) auto

lemma page_spec_accounts:
  assumes "fst (page_spec fs) = Inr bs"
  shows "length bs + length (snd (page_spec fs)) = length fs"
proof -
  let ?rs = "map parse_book fs"
  let ?P = "\<lambda>r. \<not> escapes r"
  have dw: "dropWhile ?P ?rs = []"
  proof (cases "dropWhile ?P ?rs")
    case (Cons r rest)
    then obtain e where "r = Inl e" using dropWhile_escapes_Cons by blast
    with Cons assms show ?thesis by (simp add: page_spec_def Let_def)
  qed
  then have all: "list_all ?P ?rs" and tw: "takeWhile ?P ?rs = ?rs"
    by (simp_all add: dropWhile_eq_Nil_conv_list_all list_all_iff)
  from assms dw have "bs = concat (map book_of ?rs)"
    by (simp add: page_spec_def Let_def tw)
  moreover have "snd (page_spec fs) = concat (map skip_event ?rs)"
    by (simp add: page_spec_def Let_def tw)
  ultimately show ?thesis using concat_book_skip_length [OF all] by simp
qed

lemma parse_page_Tag:
  "parse_page (LayoutNode (Tag n cs at ch)) = page_spec (select_all sel_product [] (Tag n cs at ch))"
  by (simp add: parse_page_def page_spec_def parse_products_spec cong: list.case_cong)

lemma parse_products_valid:
  "list_all valid_book out \<Longrightarrow> fst (parse_products ps out) = Inr bs \<Longrightarrow> list_all valid_book bs"
proof (induction ps out rule: parse_products.induct)
  case (1 out)
  then show ?case by simp
next
  case (2 p ps out)
  show ?case
  proof (cases "parse_book p")
    case (Inl e)
    then show ?thesis using "2" by (auto simp: eff_log_def split: if_splits)
  next
    case (Inr b)
    then have "list_all valid_book (out @ [b])" using "2.prems"(1) parse_book_valid by simp
    then show ?thesis using "2" Inr by simp
  qed
qed

lemma parse_page_Inr_products:
  "fst (parse_page layout) = Inr bs \<Longrightarrow> \<exists>ps. fst (parse_products ps []) = Inr bs"
  by (auto simp: parse_page_def simp del: select_all.simps split: layout.splits node.splits)

subsection \<open>Properties\<close>

text \<open>C1. The page parser implements its loop-free specification: on a parsed document it
  returns the records of the \<^verbatim>\<open>article.product_pod\<close> fragments in document order,
  skipping (and logging, in the same order) each fragment whose exception is in the
  \<^verbatim>\<open>except\<close> clauses, up to the first fragment whose exception is not: that
  exception is then the result and the records are lost.\<close>

theorem parse_page_refines:
  "parse_page (LayoutNode (Tag n cs at ch)) =
     (let rs = map parse_book (select_all sel_product [] (Tag n cs at ch));
          kept = takeWhile (\<lambda>r. \<not> escapes r) rs
      in ((case dropWhile (\<lambda>r. \<not> escapes r) rs of
             [] \<Rightarrow> Inr (concat (map book_of kept))
           | r # _ \<Rightarrow> (case r of Inl e \<Rightarrow> Inl e | Inr b \<Rightarrow> Inr [])),
          concat (map skip_event kept)))"
  by (simp only: parse_page_Tag page_spec_def)

text \<open>C11. One bad price aborts the page: when a product fragment raises an exception
  outside the \<^verbatim>\<open>except\<close> clauses (such as \<^verbatim>\<open>InvalidPriceError\<close> or
  \<^verbatim>\<open>InvalidAvailabilityClassError\<close>), \<open>parse_page\<close> raises it and returns none of
  the records parsed before it; only the skip events of the earlier fragments were
  logged.\<close>

theorem parse_page_escape_aborts:
  assumes "select_all sel_product [] (Tag n cs at ch) = pre @ p # post"
    and "list_all (\<lambda>q. \<not> escapes (parse_book q)) pre"
    and "parse_book p = Inl e" and "\<not> is_skipped_error e" and "\<not> is_missing_critical e"
  shows "parse_page (LayoutNode (Tag n cs at ch)) = (Inl e, concat (map (skip_event \<circ> parse_book) pre))"
proof -
  let ?P = "\<lambda>r. \<not> escapes r"
  have pre: "\<And>x. x \<in> set (map parse_book pre) \<Longrightarrow> ?P x"
    using assms(2) by (auto simp: list_all_iff)
  have esc: "escapes (parse_book p)" using assms(3-5) by simp
  have "takeWhile ?P (map parse_book (pre @ p # post)) = map parse_book pre"
    using esc by (simp only: map_append list.map takeWhile_append2 [OF pre]) simp
  moreover have "dropWhile ?P (map parse_book (pre @ p # post)) = parse_book p # map parse_book post"
    using esc by (simp only: map_append list.map dropWhile_append2 [OF pre]) simp
  ultimately show ?thesis
    using assms(1,3) by (simp add: parse_page_Tag page_spec_def)
qed

text \<open>C12. Every product fragment is accounted for: when the page parses, each fragment
  produced exactly one record or exactly one logged skip event.\<close>

theorem parse_page_accounts_fragments:
  assumes "fst (parse_page (LayoutNode soup)) = Inr bs"
  shows "length bs + length (snd (parse_page (LayoutNode soup))) = length (select_all sel_product [] soup)"
proof (cases soup)
  case (Tag n cs at ch)
  then have "parse_page (LayoutNode soup) = page_spec (select_all sel_product [] soup)"
    by (simp only: parse_page_Tag)
  with assms show ?thesis by (simp add: page_spec_accounts)
next
  case (NavStr s)
  with assms show ?thesis by (simp add: parse_page_def)
next
  case (CommentStr s)
  with assms show ?thesis by (simp add: parse_page_def)
qed

text \<open>C18. The records the page parser returns are well-formed books: each has a non-empty
  price, and both its title and its price are free of surrounding whitespace, as the data model
  of \<^verbatim>\<open>entities.Book\<close> requires.\<close>

theorem parse_page_valid_records:
  assumes "fst (parse_page layout) = Inr bs"
  shows "list_all valid_book bs"
  using parse_page_Inr_products [OF assms] parse_products_valid [of "[]"] by auto

end
