(* ===== verification/Scraper_Tests.thy ===== *)
theory Scraper_Tests
  imports Page_Parser
begin

text \<open>
  The fixtures of \<^verbatim>\<open>src/scraper_test.py\<close> as parsed markup trees (whitespace-only text
  nodes between elements left out where no query reads them), the assertions of those tests
  as theorems, and the closed instances of the extractor's and page parser's properties.
  A document is the \<^verbatim>\<open>[document]\<close> root bs4 creates; \<^verbatim>\<open>soup.find("article", ...)\<close>
  is the article with the root as its only ancestor.
\<close>

definition doc :: "node list \<Rightarrow> node" where
  "doc ch = Tag ''[document]'' [] [] ch"

definition avail_div :: "string list \<Rightarrow> node" where
  "avail_div cls = Tag ''div'' [] [] [Tag ''p'' cls [] [NavStr ''In stock'']]"

definition title_h3 :: "(string \<times> string) list \<Rightarrow> node" where
  "title_h3 attrs =
     Tag ''h3'' [] [] [Tag ''a'' [] ((''href'', ''the-invention-of-wings_448/index.html'') # attrs)
                         [NavStr ''The Invention of Wings'']]"

definition wings_title :: "(string \<times> string) list \<Rightarrow> node list" where
  "wings_title attrs = [title_h3 attrs]"

definition price_p :: "node list \<Rightarrow> node list" where
  "price_p ch = [Tag ''p'' [''price_color''] [] ch]"

definition pound :: char where
  "pound = CHR 0xA3"

definition stock_p :: "string list \<Rightarrow> node list" where
  "stock_p cls = [Tag ''p'' cls [] [NavStr ''\<newline>    '', Tag ''i'' [''icon-ok''] [] [],
                                    NavStr ''\<newline>        In stock\<newline>'']]"

definition article :: "node list \<Rightarrow> node list \<Rightarrow> node list \<Rightarrow> node" where
  "article title_part price_part stock_part =
     Tag ''article'' [''product_pod''] []
       ([Tag ''div'' [''image_container''] []
           [Tag ''a'' [] [(''href'', ''the-invention-of-wings_448/index.html'')]
              [Tag ''img'' [''thumbnail''] [(''alt'', ''The Invention of Wings'')] []]],
         Tag ''p'' [''star-rating'', ''One''] [] [Tag ''i'' [''icon-star''] [] []]]
        @ title_part
        @ [Tag ''div'' [''product_price''] []
             (price_part @ stock_part
              @ [Tag ''form'' [] [] [Tag ''button'' [''btn'', ''btn-primary''] [(''type'', ''submit'')]
                                       [NavStr ''Add to basket'']]])])"

definition wings :: node where
  "wings = article (wings_title [(''title'', ''The Invention of Wings'')])
                   (price_p [NavStr (pound # ''37.34'')]) (stock_p [''instock'', ''availability''])"

definition fragment_of :: "node \<Rightarrow> fragment" where
  "fragment_of a = ([(''[document]'', [])], a)"

definition attic :: node where
  "attic = article [title_h3 [(''title'', ''A Light in the Attic'')]]
                   (price_p [NavStr (pound # ''51.77'')]) (stock_p [''instock'', ''availability''])"

definition no_price :: node where
  "no_price = article (wings_title [(''title'', ''The Invention of Wings'')]) []
                      (stock_p [''instock'', ''availability''])"

definition blank_price :: node where
  "blank_price = article (wings_title [(''title'', ''The Invention of Wings'')])
                         (price_p [NavStr ''  '', Tag ''br'' [] [] []]) (stock_p [''instock'', ''availability''])"

definition product_list :: "node list \<Rightarrow> node" where
  "product_list items = doc [Tag ''ol'' [''row''] [] items]"

definition list_ancestors :: "ancestor list" where
  "list_ancestors = [(''ol'', [''row'']), (''[document]'', [])]"

definition wings_book :: book where
  "wings_book = \<lparr>title = ''The Invention of Wings'', price = pound # ''37.34'', available = True\<rparr>"

definition attic_book :: book where
  "attic_book = \<lparr>title = ''A Light in the Attic'', price = pound # ''51.77'', available = True\<rparr>"

subsection \<open>The assertions of \<^verbatim>\<open>scraper_test.py\<close>\<close>

text \<open>\<^verbatim>\<open>test_gauge_availability_instock\<close>, \<^verbatim>\<open>_outofstock\<close>,
  \<^verbatim>\<open>_unexpected_state\<close>, \<^verbatim>\<open>_missing_state\<close>, \<^verbatim>\<open>_no_availability_class\<close>,
  \<^verbatim>\<open>_no_classes\<close> and \<^verbatim>\<open>_empty_container\<close>.\<close>

lemma test_gauge_availability:
  "gauge_availability ([], doc [avail_div [''availability'', ''instock'']]) = Inr True"
  "gauge_availability ([], doc [avail_div [''availability'', ''outofstock'']]) = Inr False"
  "gauge_availability ([], doc [avail_div [''availability'', ''unknown'']]) =
     Inl (InvalidAvailabilityClassError
       (''Unexpected availability class in element: ['' @ [CHR 0x27] @ ''availability'' @ [CHR 0x27]
        @ '', '' @ [CHR 0x27] @ ''unknown'' @ [CHR 0x27] @ '']. Expected 'instock' or 'outofstock'' @ [CHR 0x27]))"
  "gauge_availability ([], doc [avail_div [''instock'']]) =
     Inl (FuckedUpMarkupError ''Missing the root .availability element in the provided document'')"
  "gauge_availability ([], doc [avail_div []]) =
     Inl (FuckedUpMarkupError ''Missing the root .availability element in the provided document'')"
  "gauge_availability ([], doc [Tag ''div'' [] [] []]) =
     Inl (FuckedUpMarkupError ''Missing the root .availability element in the provided document'')"
  by code_simp+

text \<open>\<^verbatim>\<open>test_parse_book\<close>, \<^verbatim>\<open>test_parse_book_bratty_price_element\<close> (the price
  text interrupted by a \<^verbatim>\<open><br/>\<close>) and \<^verbatim>\<open>test_parse_book_outofstock\<close>.\<close>

lemma test_parse_book:
  "parse_book (fragment_of wings) = Inr wings_book"
  "parse_book (fragment_of (article (wings_title [(''title'', ''The Invention of Wings'')])
       (price_p [NavStr (pound # ''37.''), Tag ''br'' [] [] [], NavStr ''34''])
       (stock_p [''instock'', ''availability'']))) = Inr wings_book"
  "parse_book (fragment_of (article (wings_title [(''title'', ''The Invention of Wings'')])
       (price_p [NavStr (pound # ''37.34'')]) (stock_p [''outofstock'', ''availability'']))) =
     Inr (wings_book\<lparr>available := False\<rparr>)"
  by code_simp+

subsection \<open>Closed instances of the extractor's properties\<close>

theorem parse_book_sound_witness:
  "parse_book (fragment_of wings) = Inr wings_book
   \<and> extracted_from (fragment_of wings) wings_book \<and> valid_book wings_book"
proof -
  have h: "parse_book (fragment_of wings) = Inr wings_book" by code_simp
  from parse_book_sound [OF h] h show ?thesis by simp
qed

text \<open>\<^verbatim>\<open>test_parse_book_missing_title\<close>.\<close>

theorem parse_book_missing_title_element_witness:
  "select_one sel_title (fragment_of (article [] (price_p [NavStr (pound # ''37.34'')])
                                        (stock_p [''instock'', ''availability'']))) = None
   \<and> parse_book (fragment_of (article [] (price_p [NavStr (pound # ''37.34'')])
                                        (stock_p [''instock'', ''availability'']))) =
       Inl (MissingTitleError missing_title_element_msg)"
proof -
  have h: "select_one sel_title (fragment_of (article [] (price_p [NavStr (pound # ''37.34'')])
                                               (stock_p [''instock'', ''availability'']))) = None"
    by code_simp
  from parse_book_missing_title_element [OF h] h show ?thesis by simp
qed

lemma select_one_SomeE:
  assumes "select_one P f \<noteq> None"
  obtains a x where "select_one P f = Some (a, x)" and "x = snd (the (select_one P f))"
  using assms by (cases "select_one P f") auto

text \<open>\<^verbatim>\<open>test_parse_book_missing_title_attribute\<close>.\<close>

theorem parse_book_missing_title_attribute_witness:
  "\<exists>a t. select_one sel_title (fragment_of (article (wings_title []) (price_p [NavStr (pound # ''37.34'')])
                                               (stock_p [''instock'', ''availability'']))) = Some (a, t)
         \<and> get_attr t ''title'' = None
         \<and> parse_book (fragment_of (article (wings_title []) (price_p [NavStr (pound # ''37.34'')])
                                            (stock_p [''instock'', ''availability'']))) =
             Inl (MissingTitleError missing_title_attribute_msg)"
proof -
  let ?f = "fragment_of (article (wings_title []) (price_p [NavStr (pound # ''37.34'')])
                                 (stock_p [''instock'', ''availability'']))"
  have "select_one sel_title ?f \<noteq> None" by code_simp
  then obtain a t where h: "select_one sel_title ?f = Some (a, t)"
    and t: "t = snd (the (select_one sel_title ?f))" by (rule select_one_SomeE)
  have "get_attr (snd (the (select_one sel_title ?f))) ''title'' = None" by code_simp
  with t have g: "get_attr t ''title'' = None" by simp
  from parse_book_missing_title_attribute [of ?f a t] h g show ?thesis by blast
qed

theorem parse_book_missing_availability_witness:
  "\<exists>a t. select_one sel_title (fragment_of (article (wings_title [(''title'', ''The Invention of Wings'')])
                                               (price_p [NavStr (pound # ''37.34'')]) [])) = Some (a, t)
         \<and> get_attr t ''title'' = Some ''The Invention of Wings''
         \<and> select_one sel_availability (fragment_of (article (wings_title [(''title'', ''The Invention of Wings'')])
                                               (price_p [NavStr (pound # ''37.34'')]) [])) = None
         \<and> parse_book (fragment_of (article (wings_title [(''title'', ''The Invention of Wings'')])
                                            (price_p [NavStr (pound # ''37.34'')]) [])) =
             Inl (MissingAvailabilityError (''Error determining availability for book: The Invention of Wings''
                  @ ''. Details: Missing the root .availability element in the provided document''))"
proof -
  let ?f = "fragment_of (article (wings_title [(''title'', ''The Invention of Wings'')])
                                 (price_p [NavStr (pound # ''37.34'')]) [])"
  have "select_one sel_title ?f \<noteq> None" by code_simp
  then obtain a t where h: "select_one sel_title ?f = Some (a, t)"
    and t: "t = snd (the (select_one sel_title ?f))" by (rule select_one_SomeE)
  have "get_attr (snd (the (select_one sel_title ?f))) ''title'' = Some ''The Invention of Wings''"
    by code_simp
  with t have g: "get_attr t ''title'' = Some ''The Invention of Wings''" by simp
  have n: "select_one sel_availability ?f = None" by code_simp
  from parse_book_missing_availability [OF h g _ n] h g n show ?thesis by auto
qed

theorem parse_book_invalid_class_unwrapped_witness:
  "\<exists>a t aa avail.
     select_one sel_title (fragment_of (article (wings_title [(''title'', ''The Invention of Wings'')])
                           (price_p [NavStr (pound # ''37.34'')]) (stock_p [''availability'', ''unknown'']))) = Some (a, t)
     \<and> get_attr t ''title'' = Some ''The Invention of Wings''
     \<and> select_one sel_availability (fragment_of (article (wings_title [(''title'', ''The Invention of Wings'')])
                           (price_p [NavStr (pound # ''37.34'')]) (stock_p [''availability'', ''unknown'']))) = Some (aa, avail)
     \<and> list_all (\<lambda>c. \<not> recognised c) (node_classes avail)
     \<and> parse_book (fragment_of (article (wings_title [(''title'', ''The Invention of Wings'')])
                           (price_p [NavStr (pound # ''37.34'')]) (stock_p [''availability'', ''unknown'']))) =
         Inl (InvalidAvailabilityClassError (invalid_class_message [''availability'', ''unknown'']))"
proof -
  let ?f = "fragment_of (article (wings_title [(''title'', ''The Invention of Wings'')])
              (price_p [NavStr (pound # ''37.34'')]) (stock_p [''availability'', ''unknown'']))"
  have "select_one sel_title ?f \<noteq> None" by code_simp
  then obtain a t where h: "select_one sel_title ?f = Some (a, t)"
    and t: "t = snd (the (select_one sel_title ?f))" by (rule select_one_SomeE)
  have "get_attr (snd (the (select_one sel_title ?f))) ''title'' = Some ''The Invention of Wings''"
    by code_simp
  with t have g: "get_attr t ''title'' = Some ''The Invention of Wings''" by simp
  have "select_one sel_availability ?f \<noteq> None" by code_simp
  then obtain aa avail where v: "select_one sel_availability ?f = Some (aa, avail)"
    and av: "avail = snd (the (select_one sel_availability ?f))" by (rule select_one_SomeE)
  have "node_classes (snd (the (select_one sel_availability ?f))) = [''availability'', ''unknown'']"
    by code_simp
  with av have cls: "node_classes avail = [''availability'', ''unknown'']" by simp
  then have c: "list_all (\<lambda>c. \<not> recognised c) (node_classes avail)"
    by (simp add: recognised_def)
  from parse_book_invalid_class_unwrapped [OF h g _ v c] h g v c cls show ?thesis by auto
qed

theorem parse_book_missing_price_witness:
  "\<exists>a t. select_one sel_title (fragment_of no_price) = Some (a, t)
         \<and> get_attr t ''title'' = Some ''The Invention of Wings''
         \<and> gauge_availability (fragment_of no_price) = Inr True
         \<and> select_one sel_price (fragment_of no_price) = None
         \<and> parse_book (fragment_of no_price) = Inl (MissingPriceError missing_price_msg)"
proof -
  have "select_one sel_title (fragment_of no_price) \<noteq> None" by code_simp
  then obtain a t where h: "select_one sel_title (fragment_of no_price) = Some (a, t)"
    and t: "t = snd (the (select_one sel_title (fragment_of no_price)))" by (rule select_one_SomeE)
  have "get_attr (snd (the (select_one sel_title (fragment_of no_price)))) ''title'' = Some ''The Invention of Wings''"
    by code_simp
  with t have g: "get_attr t ''title'' = Some ''The Invention of Wings''" by simp
  have v: "gauge_availability (fragment_of no_price) = Inr True" by code_simp
  have n: "select_one sel_price (fragment_of no_price) = None" by code_simp
  from parse_book_missing_price [OF h g _ v n] h g v n show ?thesis by auto
qed

theorem parse_book_invalid_price_witness:
  "\<exists>a t ap p. select_one sel_title (fragment_of blank_price) = Some (a, t)
         \<and> get_attr t ''title'' = Some ''The Invention of Wings''
         \<and> gauge_availability (fragment_of blank_price) = Inr True
         \<and> select_one sel_price (fragment_of blank_price) = Some (ap, p)
         \<and> list_all py_isspace (get_text p)
         \<and> parse_book (fragment_of blank_price) = Inl (InvalidPriceError invalid_price_msg)"
proof -
  have "select_one sel_title (fragment_of blank_price) \<noteq> None" by code_simp
  then obtain a t where h: "select_one sel_title (fragment_of blank_price) = Some (a, t)"
    and t: "t = snd (the (select_one sel_title (fragment_of blank_price)))" by (rule select_one_SomeE)
  have "get_attr (snd (the (select_one sel_title (fragment_of blank_price)))) ''title'' = Some ''The Invention of Wings''"
    by code_simp
  with t have g: "get_attr t ''title'' = Some ''The Invention of Wings''" by simp
  have v: "gauge_availability (fragment_of blank_price) = Inr True" by code_simp
  have "select_one sel_price (fragment_of blank_price) \<noteq> None" by code_simp
  then obtain ap p where n: "select_one sel_price (fragment_of blank_price) = Some (ap, p)"
    and pp: "p = snd (the (select_one sel_price (fragment_of blank_price)))" by (rule select_one_SomeE)
  have "list_all py_isspace (get_text (snd (the (select_one sel_price (fragment_of blank_price)))))"
    by code_simp
  with pp have sp: "list_all py_isspace (get_text p)" by simp
  from parse_book_invalid_price [OF h g _ v n sp] h g v n sp show ?thesis by auto
qed

subsection \<open>Pages\<close>

theorem parse_page_escape_aborts_witness:
  "select_all sel_product [] (product_list [wings, blank_price, attic]) =
     [(list_ancestors, wings)]
     @ (list_ancestors, blank_price)
     # [(list_ancestors, attic)]
   \<and> list_all (\<lambda>q. \<not> escapes (parse_book q)) [(list_ancestors, wings)]
   \<and> parse_book (list_ancestors, blank_price) = Inl (InvalidPriceError invalid_price_msg)
   \<and> parse_page (LayoutNode (product_list [wings, blank_price, attic])) = (Inl (InvalidPriceError invalid_price_msg), [])"
proof -
  let ?a = "list_ancestors"
  let ?ol = "Tag ''ol'' [''row''] [] [wings, blank_price, attic]"
  have s: "select_all sel_product [] (Tag ''[document]'' [] [] [?ol]) =
             [(?a, wings)] @ (?a, blank_price) # [(?a, attic)]"
    by code_simp
  have w: "list_all (\<lambda>q. \<not> escapes (parse_book q)) [(?a, wings)]" by code_simp
  have b: "parse_book (?a, blank_price) = Inl (InvalidPriceError invalid_price_msg)" by code_simp
  have e: "concat (map (skip_event \<circ> parse_book) [(?a, wings)]) = []" by code_simp
  have d: "product_list [wings, blank_price, attic] = Tag ''[document]'' [] [] [?ol]"
    by (simp add: product_list_def doc_def)
  from parse_page_escape_aborts [OF s w b] e d s w b show ?thesis by simp
qed

theorem parse_page_accounts_fragments_witness:
  "fst (parse_page (LayoutNode (product_list [wings, no_price, attic]))) = Inr [wings_book, attic_book]
   \<and> length [wings_book, attic_book] + length (snd (parse_page (LayoutNode (product_list [wings, no_price, attic]))))
       = length (select_all sel_product [] (product_list [wings, no_price, attic]))"
proof -
  have h: "fst (parse_page (LayoutNode (product_list [wings, no_price, attic]))) = Inr [wings_book, attic_book]"
    by code_simp
  from parse_page_accounts_fragments [OF h] h show ?thesis by simp
qed

theorem gauge_availability_with_marker_witness:
  "\<exists>a avail. select_one sel_availability ([], doc [avail_div [''availability'', ''unknown'']]) = Some (a, avail)
     \<and> ((\<exists>c. find recognised (node_classes avail) = Some c
               \<and> gauge_availability ([], doc [avail_div [''availability'', ''unknown'']]) = Inr (c = ''instock''))
         \<or> (list_all (\<lambda>c. \<not> recognised c) (node_classes avail)
            \<and> (\<exists>pre suf. gauge_availability ([], doc [avail_div [''availability'', ''unknown'']]) =
                 Inl (InvalidAvailabilityClassError (pre @ py_repr_list (node_classes avail) @ suf)))))"
proof -
  have "select_one sel_availability ([], doc [avail_div [''availability'', ''unknown'']]) \<noteq> None"
    by code_simp
  then obtain a avail where h:
    "select_one sel_availability ([], doc [avail_div [''availability'', ''unknown'']]) = Some (a, avail)"
    by (rule select_one_SomeE)
  from gauge_availability_with_marker [OF h] h show ?thesis by blast
qed

theorem parse_page_valid_records_witness:
  "fst (parse_page (LayoutNode (product_list [wings, attic]))) = Inr [wings_book, attic_book]
   \<and> list_all valid_book [wings_book, attic_book]"
proof -
  have h: "fst (parse_page (LayoutNode (product_list [wings, attic]))) = Inr [wings_book, attic_book]"
    by code_simp
  then show ?thesis using parse_page_valid_records [OF h] by blast
qed

end
