(* ===== verification/Pager.thy ===== *)
theory Pager
  imports Py_Builtins
begin

text \<open>
  The pagination resolver, \<^verbatim>\<open>parse_pages_count\<close> of \<^verbatim>\<open>src/scraper.py\<close>
  (lines 76--83): strip the pager text, reject the empty result, match it against
  \<^verbatim>\<open>^Page\s+[0-9,]+\s+of\s+([0-9,]+)\s*\+?$\<close> with \<^verbatim>\<open>re.match\<close>, and convert the
  group with \<^verbatim>\<open>int()\<close>. \<open>pager_match\<close> is the matcher written as the greedy scan the
  regular expression admits (the character classes of neighbouring tokens are disjoint, so
  backtracking never finds another match); \<open>pager_lang\<close> is the language of the
  expression, with Python's \<^verbatim>\<open>$\<close> matching at the end or before a final newline, and
  \<open>pager_match_iff_regex\<close> shows the two agree.
\<close>

definition is_pager_digit :: "char \<Rightarrow> bool" where
  "is_pager_digit c = (is_digit c \<or> c = CHR '','')"

fun drop_prefix :: "string \<Rightarrow> string \<Rightarrow> string option" where
  "drop_prefix [] s = Some s"
| "drop_prefix (c # cs) [] = None"
| "drop_prefix (c # cs) (d # ds) = (if c = d then drop_prefix cs ds else None)"

text \<open>\<open>span1 P s\<close>: the longest non-empty prefix of characters in \<open>P\<close>, as a greedy
  \<^verbatim>\<open>P+\<close> consumes it, and the rest.\<close>

definition span1 :: "(char \<Rightarrow> bool) \<Rightarrow> string \<Rightarrow> (string \<times> string) option" where
  "span1 P s = (if takeWhile P s = [] then None else Some (takeWhile P s, dropWhile P s))"

definition newline :: string where
  "newline = [CHR 0x0A]"

definition pager_tails :: "string list" where
  "pager_tails = [[], newline, ''+'', ''+'' @ newline]"

definition pager_match :: "string \<Rightarrow> string option" where
  "pager_match s =
     (case drop_prefix ''Page'' s of None \<Rightarrow> None | Some r1 \<Rightarrow>
      case span1 py_isspace r1 of None \<Rightarrow> None | Some (_, r2) \<Rightarrow>
      case span1 is_pager_digit r2 of None \<Rightarrow> None | Some (_, r3) \<Rightarrow>
      case span1 py_isspace r3 of None \<Rightarrow> None | Some (_, r4) \<Rightarrow>
      case drop_prefix ''of'' r4 of None \<Rightarrow> None | Some r5 \<Rightarrow>
      case span1 py_isspace r5 of None \<Rightarrow> None | Some (_, r6) \<Rightarrow>
      case span1 is_pager_digit r6 of None \<Rightarrow> None | Some (g, r7) \<Rightarrow>
      if dropWhile py_isspace r7 \<in> set pager_tails then Some g else None)"

definition empty_pager_msg :: string where
  "empty_pager_msg = ''Empty string provided''"

definition no_count_msg :: "string \<Rightarrow> string" where
  "no_count_msg txt = ''Could not extract pages count from string: '' @ txt"

definition parse_pages_count :: "string \<Rightarrow> exc + int" where
  "parse_pages_count src =
     (let txt = py_strip src in
      if txt = [] then Inl (InvalidPagerTextError empty_pager_msg)
      else (case pager_match txt of
              None \<Rightarrow> Inl (InvalidPagerTextError (no_count_msg txt))
            | Some g \<Rightarrow> py_int g))"

subsection \<open>The language of the regular expression\<close>

definition spaces1 :: "string \<Rightarrow> bool" where
  "spaces1 w = (w \<noteq> [] \<and> list_all py_isspace w)"

definition digits1 :: "string \<Rightarrow> bool" where
  "digits1 w = (w \<noteq> [] \<and> list_all is_pager_digit w)"

definition pager_lang :: "string \<Rightarrow> string \<Rightarrow> bool" where
  "pager_lang s g =
     (\<exists>w1 d1 w2 w3 w4 t.
        s = ''Page'' @ w1 @ d1 @ w2 @ ''of'' @ w3 @ g @ w4 @ t
        \<and> spaces1 w1 \<and> digits1 d1 \<and> spaces1 w2 \<and> spaces1 w3 \<and> digits1 g
        \<and> list_all py_isspace w4 \<and> t \<in> set pager_tails)"

subsection \<open>Lemmas\<close>

lemma drop_prefix_append [simp]: "drop_prefix p (p @ s) = Some s"
  by (induction p) auto

lemma drop_prefix_SomeD: "drop_prefix p s = Some r \<Longrightarrow> s = p @ r"
  by (induction p s rule: drop_prefix.induct) (auto split: if_splits)

lemma span1_SomeD:
  "span1 P s = Some (w, r) \<Longrightarrow> s = w @ r \<and> w \<noteq> [] \<and> list_all P w \<and> (r = [] \<or> \<not> P (hd r))"
  by (auto simp: span1_def list_all_iff dest: set_takeWhileD hd_dropWhile split: if_splits)

lemma span1_append:
  assumes "w \<noteq> []" and "list_all P w" and "r = [] \<or> \<not> P (hd r)"
  shows "span1 P (w @ r) = Some (w, r)"
proof -
  have w: "\<And>x. x \<in> set w \<Longrightarrow> P x" using assms(2) by (simp add: list_all_iff)
  have "takeWhile P r = []" and "dropWhile P r = r" using assms(3) by (cases r; auto)+
  then show ?thesis using assms(1) by (simp add: span1_def takeWhile_append2 [OF w] dropWhile_append2 [OF w])
qed

lemma pager_digit_not_space: "is_pager_digit c \<Longrightarrow> \<not> py_isspace c"
  by (auto simp: is_pager_digit_def is_digit_def py_isspace_def Let_def)

lemma tails_not_digit: "t \<in> set pager_tails \<Longrightarrow> t = [] \<or> \<not> is_pager_digit (hd t)"
  by (auto simp: pager_tails_def newline_def is_pager_digit_def is_digit_def)

lemma dropWhile_space_tails: "t \<in> set pager_tails \<Longrightarrow> dropWhile py_isspace t \<in> set pager_tails"
  by (auto simp: pager_tails_def newline_def py_isspace_def)

lemma hd_append_nonempty: "w \<noteq> [] \<Longrightarrow> hd (w @ r) = hd w"
  by (cases w) auto

lemma pager_match_sound:
  assumes "pager_match s = Some g"
  shows "pager_lang s g"
proof -
  from assms obtain r1 w1 r2 d1 r3 w2 r4 r5 w3 r6 r7 where
    a: "drop_prefix ''Page'' s = Some r1" "span1 py_isspace r1 = Some (w1, r2)"
       "span1 is_pager_digit r2 = Some (d1, r3)" "span1 py_isspace r3 = Some (w2, r4)"
       "drop_prefix ''of'' r4 = Some r5" "span1 py_isspace r5 = Some (w3, r6)"
       "span1 is_pager_digit r6 = Some (g, r7)" "dropWhile py_isspace r7 \<in> set pager_tails"
    by (auto simp: pager_match_def split: option.splits if_splits)
  have r7: "r7 = takeWhile py_isspace r7 @ dropWhile py_isspace r7" by simp
  have w4: "list_all py_isspace (takeWhile py_isspace r7)"
    by (auto simp: list_all_iff dest: set_takeWhileD)
  from a(1) have s1: "s = ''Page'' @ r1" by (rule drop_prefix_SomeD)
  from a(5) have s2: "r4 = ''of'' @ r5" by (rule drop_prefix_SomeD)
  from span1_SomeD [OF a(2)] have b1: "r1 = w1 @ r2" "spaces1 w1" by (simp_all add: spaces1_def)
  from span1_SomeD [OF a(3)] have b2: "r2 = d1 @ r3" "digits1 d1" by (simp_all add: digits1_def)
  from span1_SomeD [OF a(4)] have b3: "r3 = w2 @ r4" "spaces1 w2" by (simp_all add: spaces1_def)
  from span1_SomeD [OF a(6)] have b4: "r5 = w3 @ r6" "spaces1 w3" by (simp_all add: spaces1_def)
  from span1_SomeD [OF a(7)] have b5: "r6 = g @ r7" "digits1 g" by (simp_all add: digits1_def)
  have "s = ''Page'' @ w1 @ d1 @ w2 @ ''of'' @ w3 @ g @ takeWhile py_isspace r7 @ dropWhile py_isspace r7"
    using s1 s2 b1(1) b2(1) b3(1) b4(1) b5(1) by simp
  with b1(2) b2(2) b3(2) b4(2) b5(2) w4 a(8) show ?thesis
    unfolding pager_lang_def by blast
qed

lemma pager_match_complete:
  assumes "pager_lang s g"
  shows "pager_match s = Some g"
proof -
  from assms obtain w1 d1 w2 w3 w4 t where
    s: "s = ''Page'' @ w1 @ d1 @ w2 @ ''of'' @ w3 @ g @ w4 @ t" and
    c: "spaces1 w1" "digits1 d1" "spaces1 w2" "spaces1 w3" "digits1 g"
       "list_all py_isspace w4" "t \<in> set pager_tails"
    unfolding pager_lang_def by blast
  have ne: "w1 \<noteq> []" "d1 \<noteq> []" "w2 \<noteq> []" "w3 \<noteq> []" "g \<noteq> []"
    using c by (simp_all add: spaces1_def digits1_def)
  have hd_digit: "\<And>w. digits1 w \<Longrightarrow> is_pager_digit (hd w)"
    by (auto simp: digits1_def list_all_iff)
  have hd_space: "\<And>w. spaces1 w \<Longrightarrow> py_isspace (hd w)"
    by (auto simp: spaces1_def list_all_iff)
  have e2: "span1 py_isspace (w1 @ d1 @ w2 @ ''of'' @ w3 @ g @ w4 @ t) = Some (w1, d1 @ w2 @ ''of'' @ w3 @ g @ w4 @ t)"
    using c(1,2) ne pager_digit_not_space hd_digit
    by (intro span1_append) (auto simp: spaces1_def hd_append_nonempty)
  have e3: "span1 is_pager_digit (d1 @ w2 @ ''of'' @ w3 @ g @ w4 @ t) = Some (d1, w2 @ ''of'' @ w3 @ g @ w4 @ t)"
    using c(2,3) ne pager_digit_not_space hd_space
    by (intro span1_append) (auto simp: digits1_def hd_append_nonempty)
  have e4: "span1 py_isspace (w2 @ ''of'' @ w3 @ g @ w4 @ t) = Some (w2, ''of'' @ w3 @ g @ w4 @ t)"
    using c(3) ne by (intro span1_append) (auto simp: spaces1_def py_isspace_def)
  have e6: "span1 py_isspace (w3 @ g @ w4 @ t) = Some (w3, g @ w4 @ t)"
    using c(4,5) ne pager_digit_not_space hd_digit
    by (intro span1_append) (auto simp: spaces1_def hd_append_nonempty)
  have "w4 @ t = [] \<or> \<not> is_pager_digit (hd (w4 @ t))"
  proof (cases w4)
    case Nil
    with c(7) show ?thesis by (simp add: tails_not_digit)
  next
    case (Cons x xs)
    with c(6) pager_digit_not_space show ?thesis by auto
  qed
  then have e7: "span1 is_pager_digit (g @ w4 @ t) = Some (g, w4 @ t)"
    using c(5) ne by (intro span1_append) (auto simp: digits1_def)
  have e8: "dropWhile py_isspace (w4 @ t) \<in> set pager_tails"
    using c(6,7) by (simp add: dropWhile_space_tails)
  have e1: "drop_prefix ''Page'' s = Some (w1 @ d1 @ w2 @ ''of'' @ w3 @ g @ w4 @ t)"
    using s by (simp only: drop_prefix_append)
  have e5: "drop_prefix ''of'' (''of'' @ w3 @ g @ w4 @ t) = Some (w3 @ g @ w4 @ t)"
    by (simp only: drop_prefix_append)
  show ?thesis
    unfolding pager_match_def by (simp only: e1 e2 e3 e4 e5 e6 e7 e8 option.case prod.case if_True)
qed

lemma digits1_no_space: "digits1 g \<Longrightarrow> list_all (\<lambda>c. \<not> py_isspace c) g"
  by (auto simp: digits1_def list_all_iff pager_digit_not_space)

lemma digits1_hd: "digits1 g \<Longrightarrow> g \<noteq> [] \<and> hd g \<noteq> CHR ''-'' \<and> hd g \<noteq> CHR ''+''"
  by (cases g) (auto simp: digits1_def is_pager_digit_def is_digit_def)

lemma digits1_dec_str: "digits1 (dec_str n)"
  using dec_str_digits [of n] by (auto simp: digits1_def is_pager_digit_def list_all_iff)

lemma parse_pages_count_matched:
  assumes "py_strip s \<noteq> []" and "pager_lang (py_strip s) g"
  shows "parse_pages_count s = py_int g"
  using assms pager_match_complete by (simp add: parse_pages_count_def Let_def)

lemma pager_lang_intro:
  assumes "spaces1 w1" and "digits1 d1" and "spaces1 w2" and "spaces1 w3" and "digits1 g"
    and "list_all py_isspace w4" and "t \<in> set pager_tails"
  shows "pager_lang (''Page'' @ w1 @ d1 @ w2 @ ''of'' @ w3 @ g @ w4 @ t) g"
  unfolding pager_lang_def
  by (rule exI [of _ w1], rule exI [of _ d1], rule exI [of _ w2], rule exI [of _ w3],
      rule exI [of _ w4], rule exI [of _ t]) (intro conjI refl assms)

lemma parse_pages_count_value_error: "parse_pages_count s = Inl e \<Longrightarrow> is_value_error e"
  by (auto simp: parse_pages_count_def py_int_def Let_def split: if_splits option.splits prod.splits)

lemma py_strip_between:
  assumes "list_all py_isspace a" and "list_all py_isspace c" and "b \<noteq> []"
    and "\<not> py_isspace (hd b)" and "\<not> py_isspace (last b)"
  shows "py_strip (a @ b @ c) = b"
  using assms by (simp add: py_strip_pad py_strip_self)

subsection \<open>Properties\<close>

text \<open>C13. The matcher implements the regular expression: \<open>pager_match\<close> returns a group exactly when the text is in the language of \<^verbatim>\<open>^Page\s+[0-9,]+\s+of\s+([0-9,]+)\s*\+?$\<close> with that group as the second number; greedy scanning loses no match.\<close>

theorem pager_match_iff_regex: "pager_match s = Some g \<longleftrightarrow> pager_lang s g"
  using pager_match_sound pager_match_complete by blast

text \<open>C14. Printing a total and reading it back: any pager text of the shape "Page X of N" with arbitrary runs of whitespace (newlines included) between the tokens and around the text, an optional trailing plus sign, and the total printed in decimal, resolves to N.\<close>

theorem parse_pages_count_roundtrip:
  assumes "list_all py_isspace ws0" and "list_all py_isspace ws5"
    and "spaces1 w1" and "digits1 d1" and "spaces1 w2" and "spaces1 w3"
    and "list_all py_isspace w4" and "pl = [] \<or> pl = ''+''"
    and "length (dec_str n) \<le> int_max_str_digits"
  shows "parse_pages_count (ws0 @ ''Page'' @ w1 @ d1 @ w2 @ ''of'' @ w3 @ dec_str n @ w4 @ pl @ ws5)
         = Inr (int n)"
proof -
  let ?core = "''Page'' @ w1 @ d1 @ w2 @ ''of'' @ w3 @ dec_str n"
  have dn: "dec_str n \<noteq> []" "list_all is_digit (dec_str n)" using dec_str_digits [of n] by simp_all
  have last_core: "\<not> py_isspace (last ?core)" using dn is_digit_not_space by (simp add: list_all_iff)
  have lang: "pager_lang (py_strip (ws0 @ ?core @ w4 @ pl @ ws5)) (dec_str n)"
  proof (cases "pl = []")
    case True
    have "py_strip (ws0 @ ?core @ (w4 @ ws5)) = ?core"
      using assms(1,2,7) last_core by (intro py_strip_between) (simp_all add: py_isspace_def)
    moreover have "pager_lang (''Page'' @ w1 @ d1 @ w2 @ ''of'' @ w3 @ dec_str n @ [] @ []) (dec_str n)"
      using assms(3-6) digits1_dec_str by (intro pager_lang_intro) (simp_all add: pager_tails_def)
    ultimately show ?thesis using True by simp
  next
    case False
    with assms(8) have p: "pl = ''+''" by simp
    have "py_strip (ws0 @ (?core @ w4 @ pl) @ ws5) = ?core @ w4 @ pl"
      using assms(1,2) p by (intro py_strip_between) (simp_all add: py_isspace_def)
    moreover have "pager_lang (''Page'' @ w1 @ d1 @ w2 @ ''of'' @ w3 @ dec_str n @ w4 @ pl) (dec_str n)"
      using assms(3-7) digits1_dec_str p by (intro pager_lang_intro) (simp_all add: pager_tails_def)
    ultimately show ?thesis by simp
  qed
  then have "parse_pages_count (ws0 @ ?core @ w4 @ pl @ ws5) = py_int (dec_str n)"
    by (intro parse_pages_count_matched) (auto simp: pager_lang_def)
  also have "\<dots> = Inr (int n)"
    using py_int_decimal [OF dn assms(9)] by (simp add: decimal_value_dec_str)
  finally show ?thesis by simp
qed

text \<open>C15. An empty or all-whitespace pager text fails with \<^verbatim>\<open>InvalidPagerTextError\<close> and the empty-string message, not the no-match message.\<close>

theorem parse_pages_count_blank:
  assumes "list_all py_isspace s"
  shows "parse_pages_count s = Inl (InvalidPagerTextError empty_pager_msg)"
  using assms by (simp add: parse_pages_count_def py_strip_Nil_iff)

text \<open>C16. A non-blank pager text outside the language of the expression fails with \<^verbatim>\<open>InvalidPagerTextError\<close> whose message ends with the stripped text verbatim.\<close>

theorem parse_pages_count_no_match:
  assumes "py_strip s \<noteq> []" and "\<forall>g. \<not> pager_lang (py_strip s) g"
  shows "parse_pages_count s = Inl (InvalidPagerTextError (no_count_msg (py_strip s)))"
proof -
  have "pager_match (py_strip s) = None"
    using assms(2) pager_match_sound by (cases "pager_match (py_strip s)") auto
  with assms(1) show ?thesis by (simp add: parse_pages_count_def)
qed

text \<open>C17. A total grouped with commas, which the expression accepts, is passed to \<^verbatim>\<open>int()\<close> unchanged and raises \<^verbatim>\<open>ValueError\<close>: the commas are never stripped.\<close>

theorem parse_pages_count_commas:
  assumes "py_strip s \<noteq> []" and "pager_lang (py_strip s) g" and "CHR '','' \<in> set g"
  shows "parse_pages_count s = Inl (ValueError (''invalid literal for int() with base 10: '' @ py_repr_str g))"
proof -
  from assms(2) have "digits1 g" unfolding pager_lang_def by blast
  then have "list_all (\<lambda>c. is_digit c \<or> c = CHR '','') g"
    by (auto simp: digits1_def is_pager_digit_def list_all_iff)
  with assms show ?thesis by (simp add: parse_pages_count_matched py_int_comma)
qed

text \<open>A resolved page count is never negative (the group has no sign); it can be zero.\<close>

theorem parse_pages_count_nonneg:
  assumes "parse_pages_count s = Inr n"
  shows "0 \<le> n"
proof -
  from assms obtain g where m: "pager_match (py_strip s) = Some g" and i: "py_int g = Inr n"
    by (auto simp: parse_pages_count_def Let_def split: if_splits option.splits)
  from pager_match_sound [OF m] have "digits1 g" unfolding pager_lang_def by blast
  with py_int_body [of g] digits1_no_space [of g] digits1_hd [of g] i show ?thesis
    by (auto split: if_splits)
qed

text \<open>C19. Adding whitespace before or after the pager text changes nothing, result or message.\<close>

theorem parse_pages_count_pad:
  assumes "list_all py_isspace ws" and "list_all py_isspace ws'"
  shows "parse_pages_count (ws @ s @ ws') = parse_pages_count s"
  using assms by (simp add: parse_pages_count_def py_strip_pad)

end
