(* ===== verification/Pager_Tests.thy ===== *)
theory Pager_Tests
  imports Pager
begin

text \<open>
  Concrete pager texts, as the catalogue renders them (\<^verbatim>\<open>Page 1 of 50\<close>, with the
  newlines and indentation the markup leaves around the tokens), and the closed instances of
  the resolver's properties.
\<close>

definition nl :: string where
  "nl = [CHR 0x0A]"

definition catalogue_pager :: string where
  "catalogue_pager = nl @ ''        '' @ ''Page 1 of 50'' @ nl @ ''    ''"

subsection \<open>Evaluation\<close>

lemma catalogue_pager_count: "parse_pages_count catalogue_pager = Inr 50"
  by code_simp

lemma short_text_no_match: "pager_match ''3 of 4'' = None"
  by code_simp

subsection \<open>Witnesses\<close>

theorem pager_match_iff_regex_witness:
  "pager_match ''Page 1 of 3+'' = Some ''3'' \<and> pager_lang ''Page 1 of 3+'' ''3''"
proof -
  have m: "pager_match ''Page 1 of 3+'' = Some ''3''" by code_simp
  then show ?thesis using pager_match_iff_regex [of "''Page 1 of 3+''" "''3''"] by blast
qed

theorem parse_pages_count_roundtrip_witness:
  "list_all py_isspace ''  '' \<and> list_all py_isspace nl \<and> spaces1 '' '' \<and> digits1 ''5''
   \<and> spaces1 (nl @ '' '') \<and> spaces1 '' '' \<and> list_all py_isspace ([] :: string)
   \<and> (''+'' = [] \<or> ''+'' = ''+'') \<and> length (dec_str 20) \<le> int_max_str_digits
   \<and> parse_pages_count (''  '' @ ''Page'' @ '' '' @ ''5'' @ (nl @ '' '') @ ''of'' @ '' ''
        @ dec_str 20 @ [] @ ''+'' @ nl) = Inr (int 20)"
proof -
  have h: "list_all py_isspace ''  '' \<and> list_all py_isspace nl \<and> spaces1 '' '' \<and> digits1 ''5''
   \<and> spaces1 (nl @ '' '') \<and> spaces1 '' '' \<and> list_all py_isspace ([] :: string)
   \<and> (''+'' = [] \<or> ''+'' = ''+'') \<and> length (dec_str 20) \<le> int_max_str_digits"
    by code_simp
  then show ?thesis
    using parse_pages_count_roundtrip [of "''  ''" nl "'' ''" "''5''" "nl @ '' ''" "'' ''" "[]"
      "''+''" 20] by blast
qed

theorem parse_pages_count_blank_witness:
  "list_all py_isspace (nl @ ''  '')
   \<and> parse_pages_count (nl @ ''  '') = Inl (InvalidPagerTextError empty_pager_msg)"
proof -
  have h: "list_all py_isspace (nl @ ''  '')" by code_simp
  then show ?thesis using parse_pages_count_blank [of "nl @ ''  ''"] by blast
qed

theorem parse_pages_count_no_match_witness:
  "py_strip ''3 of 4'' \<noteq> [] \<and> (\<forall>g. \<not> pager_lang (py_strip ''3 of 4'') g)
   \<and> parse_pages_count ''3 of 4'' = Inl (InvalidPagerTextError (no_count_msg ''3 of 4''))"
proof -
  have s: "py_strip ''3 of 4'' = ''3 of 4''" by code_simp
  have n: "\<forall>g. \<not> pager_lang ''3 of 4'' g"
    using short_text_no_match pager_match_complete by fastforce
  show ?thesis using parse_pages_count_no_match [of "''3 of 4''"] s n by simp
qed

theorem parse_pages_count_commas_witness:
  "py_strip ''Page 1 of 1,000'' \<noteq> [] \<and> pager_lang (py_strip ''Page 1 of 1,000'') ''1,000''
   \<and> CHR '','' \<in> set ''1,000''
   \<and> parse_pages_count ''Page 1 of 1,000''
     = Inl (ValueError (''invalid literal for int() with base 10: '' @ py_repr_str ''1,000''))"
proof -
  have s: "py_strip ''Page 1 of 1,000'' = ''Page 1 of 1,000''" by code_simp
  have m: "pager_match ''Page 1 of 1,000'' = Some ''1,000''" by code_simp
  have l: "pager_lang ''Page 1 of 1,000'' ''1,000''" using m by (rule pager_match_sound)
  show ?thesis using parse_pages_count_commas [of "''Page 1 of 1,000''" "''1,000''"] s l by simp
qed

theorem parse_pages_count_nonneg_witness:
  "parse_pages_count ''Page 1 of 0'' = Inr 0 \<and> (0 :: int) \<le> 0"
proof -
  have r: "parse_pages_count ''Page 1 of 0'' = Inr 0" by code_simp
  then show ?thesis using parse_pages_count_nonneg [of "''Page 1 of 0''" 0] by blast
qed

theorem parse_pages_count_pad_witness:
  "list_all py_isspace '' '' \<and> list_all py_isspace nl
   \<and> parse_pages_count ('' '' @ ''Page 2 of 9'' @ nl) = parse_pages_count ''Page 2 of 9''"
proof -
  have h: "list_all py_isspace '' '' \<and> list_all py_isspace nl" by code_simp
  then show ?thesis using parse_pages_count_pad [of "'' ''" nl "''Page 2 of 9''"] by blast
qed

end
