(* ===== verification/Transport.thy ===== *)
theory Transport
  imports Py_Builtins
begin

text \<open>
  The fetcher, \<^verbatim>\<open>get_page\<close> of \<^verbatim>\<open>src/transport.py\<close>, under its decorator
  \<^verbatim>\<open>@stamina.retry(on=httpx.HTTPError, attempts=3)\<close>.
  The network is an oracle \<open>network\<close>: the outcome of the \<open>k\<close>-th request (from 0) to a
  URL, either a response (status code and body text) or a transport failure (connection
  error, timeout), which \<^verbatim>\<open>client.get\<close> raises as an \<^verbatim>\<open>httpx.TransportError\<close>.
  One attempt, \<open>get_page_attempt\<close>, is the function body: the debug event once a response
  has arrived, \<^verbatim>\<open>NotFoundError\<close> on 404, \<^verbatim>\<open>raise_for_status\<close> on any other
  status outside 2xx (the client does not follow redirects, so 3xx raises too), the body
  otherwise. \<open>stamina_retry\<close> is the decorator: an attempt that raises an exception the
  predicate accepts is repeated while the budget lasts, the exception of the last attempt
  propagates, and the result records how many requests were made. stamina's wait between
  attempts and its 45-second overall timeout are time, which the model does not have: the
  model is the behaviour when the timeout is not reached.
\<close>

datatype http_outcome = Response int string | NetFailure string

type_synonym network = "string \<Rightarrow> nat \<Rightarrow> http_outcome"

definition page_url :: "int \<Rightarrow> string" where
  "page_url page = ''https://books.toscrape.com/catalogue/page-'' @ py_str_int page @ ''.html''"

definition not_found_msg :: string where
  "not_found_msg = ''The server have responded with 404 error''"

text \<open>\<^verbatim>\<open>Response.is_success\<close> and \<^verbatim>\<open>Response.raise_for_status\<close> of httpx; the
  exception carries the status and the URL of the request.\<close>

definition is_success :: "int \<Rightarrow> bool" where
  "is_success st = (200 \<le> st \<and> st < 300)"

definition raise_for_status :: "string \<Rightarrow> int \<Rightarrow> exc + unit" where
  "raise_for_status url st = (if is_success st then Inr () else Inl (HTTPStatusError st url))"

definition get_page_attempt :: "string \<Rightarrow> http_outcome \<Rightarrow> string py" where
  "get_page_attempt url out =
     (case out of
        NetFailure m \<Rightarrow> eff_raise (HTTPTransportError m)
      | Response st body \<Rightarrow>
          eff_log (LogDebug url st)
            (if st = 404 then eff_raise (NotFoundError not_found_msg)
             else (case raise_for_status url st of
                     Inl e \<Rightarrow> eff_raise e
                   | Inr _ \<Rightarrow> eff_return body)))"

text \<open>\<open>stamina_retry on r act k\<close>: run attempt \<open>k\<close>; if it raised an exception
  satisfying \<open>on\<close> and \<open>r\<close> further attempts remain, run attempt \<open>k + 1\<close> with one
  fewer. The second component is the index after the last attempt made, so from \<open>k = 0\<close>
  the number of requests.\<close>

fun stamina_retry :: "(exc \<Rightarrow> bool) \<Rightarrow> nat \<Rightarrow> (nat \<Rightarrow> 'a py) \<Rightarrow> nat \<Rightarrow> 'a py \<times> nat" where
  "stamina_retry on 0 act k = (act k, Suc k)"
| "stamina_retry on (Suc r) act k =
     (case act k of
        (Inl e, l) \<Rightarrow>
          if on e then (case stamina_retry on r act (Suc k) of (m, n) \<Rightarrow> ((fst m, l @ snd m), n))
          else ((Inl e, l), Suc k)
      | (Inr v, l) \<Rightarrow> ((Inr v, l), Suc k))"

definition stamina_attempts :: nat where
  "stamina_attempts = 3"

definition get_page :: "network \<Rightarrow> int \<Rightarrow> string py \<times> nat" where
  "get_page net page =
     (let url = page_url page in
      stamina_retry is_http_error (stamina_attempts - 1) (\<lambda>k. get_page_attempt url (net url k)) 0)"

text \<open>The attempt at which a retry run ends: the first attempt from \<open>k\<close> on whose result
  is final (a value, or an exception \<open>on\<close> rejects), or the last of the budget.\<close>

definition retry_final :: "(exc \<Rightarrow> bool) \<Rightarrow> 'a py \<Rightarrow> bool" where
  "retry_final on m = (case fst m of Inl e \<Rightarrow> \<not> on e | Inr _ \<Rightarrow> True)"

definition last_attempt :: "(exc \<Rightarrow> bool) \<Rightarrow> nat \<Rightarrow> (nat \<Rightarrow> 'a py) \<Rightarrow> nat \<Rightarrow> nat" where
  "last_attempt on r act k =
     (case find (\<lambda>j. retry_final on (act j)) [k..<k + r] of Some j \<Rightarrow> j | None \<Rightarrow> k + r)"

subsection \<open>The contract\<close>

text \<open>What the fetcher promises, in terms of the responses alone: a 404 is terminal, any
  other non-2xx status and any transport failure are transient; the first of three attempts
  that is not transient decides, and if all three are, the last one's failure propagates.\<close>

definition transient :: "http_outcome \<Rightarrow> bool" where
  "transient out = (case out of NetFailure _ \<Rightarrow> True | Response st _ \<Rightarrow> st \<noteq> 404 \<and> \<not> is_success st)"

definition outcome_result :: "string \<Rightarrow> http_outcome \<Rightarrow> exc + string" where
  "outcome_result url out =
     (case out of
        NetFailure m \<Rightarrow> Inl (HTTPTransportError m)
      | Response st body \<Rightarrow>
          if st = 404 then Inl (NotFoundError not_found_msg)
          else if is_success st then Inr body else Inl (HTTPStatusError st url))"

definition response_events :: "string \<Rightarrow> http_outcome \<Rightarrow> log_event list" where
  "response_events url out = (case out of NetFailure _ \<Rightarrow> [] | Response st _ \<Rightarrow> [LogDebug url st])"

definition deciding_request :: "(nat \<Rightarrow> http_outcome) \<Rightarrow> nat" where
  "deciding_request outs =
     (case find (\<lambda>i. \<not> transient (outs i)) [0..<stamina_attempts - 1] of
        Some i \<Rightarrow> i | None \<Rightarrow> stamina_attempts - 1)"

definition fetch_spec :: "network \<Rightarrow> string \<Rightarrow> (exc + string) \<times> nat" where
  "fetch_spec net url = (let i = deciding_request (net url) in (outcome_result url (net url i), Suc i))"

subsection \<open>Lemmas\<close>

lemma last_attempt_0 [simp]: "last_attempt on 0 act k = k"
  by (simp add: last_attempt_def)

lemma upt_add_Suc: "[k..<k + Suc r] = k # [Suc k..<Suc k + r]"
  using upt_conv_Cons [of k "k + Suc r"] by (simp del: upt_Suc)

lemma last_attempt_final:
  "retry_final on (act k) \<Longrightarrow> last_attempt on (Suc r) act k = k"
  unfolding last_attempt_def upt_add_Suc by simp

lemma last_attempt_retry:
  "\<not> retry_final on (act k) \<Longrightarrow> last_attempt on (Suc r) act k = last_attempt on r act (Suc k)"
  unfolding last_attempt_def upt_add_Suc add_Suc_shift by (simp del: upt_Suc)

lemma last_attempt_range: "k \<le> last_attempt on r act k \<and> last_attempt on r act k \<le> k + r"
  by (auto simp: last_attempt_def split: option.split dest!: find_Some_first)

lemma concat_map_upt_Cons:
  "k < Suc i \<Longrightarrow> concat (map f [k..<Suc i]) = f k @ concat (map f [Suc k..<Suc i])"
  by (simp add: upt_conv_Cons del: upt_Suc)

lemma stamina_retry_eq:
  "stamina_retry on r act k =
     (let i = last_attempt on r act k in ((fst (act i), concat (map (\<lambda>j. snd (act j)) [k..<Suc i])), Suc i))"
proof (induction r arbitrary: k)
  case 0
  then show ?case by simp
next
  case (Suc r)
  obtain res l where a: "act k = (res, l)" by (cases "act k")
  show ?case
  proof (cases "retry_final on (act k)")
    case True
    then show ?thesis using a
      by (auto simp: last_attempt_final retry_final_def split: sum.splits)
  next
    case False
    then obtain e where e: "res = Inl e" "on e" using a by (auto simp: retry_final_def split: sum.splits)
    let ?i = "last_attempt on r act (Suc k)"
    have "Suc k \<le> ?i" using last_attempt_range by blast
    then have "concat (map (\<lambda>j. snd (act j)) [k..<Suc ?i]) = l @ concat (map (\<lambda>j. snd (act j)) [Suc k..<Suc ?i])"
      using a by (simp add: concat_map_upt_Cons del: upt_Suc)
    then show ?thesis using False a e Suc.IH [of "Suc k"] by (simp add: last_attempt_retry Let_def)
  qed
qed

lemma get_page_attempt_result: "fst (get_page_attempt url out) = outcome_result url out"
  by (simp add: get_page_attempt_def outcome_result_def raise_for_status_def eff_raise_def
      eff_return_def split: http_outcome.split)

lemma get_page_attempt_events: "snd (get_page_attempt url out) = response_events url out"
  by (simp add: get_page_attempt_def response_events_def raise_for_status_def eff_raise_def
      eff_return_def split: http_outcome.split)

lemma get_page_attempt_final:
  "retry_final is_http_error (get_page_attempt url out) \<longleftrightarrow> \<not> transient out"
  by (simp add: retry_final_def get_page_attempt_result outcome_result_def transient_def
      split: http_outcome.split)

lemma get_page_last_attempt:
  "last_attempt is_http_error (stamina_attempts - 1) (\<lambda>k. get_page_attempt url (net url k)) 0
   = deciding_request (net url)"
  by (simp add: last_attempt_def deciding_request_def get_page_attempt_final cong: option.case_cong)

lemma get_page_eq:
  "get_page net page =
     (let url = page_url page; i = deciding_request (net url) in
      ((outcome_result url (net url i), concat (map (\<lambda>j. response_events url (net url j)) [0..<Suc i])),
       Suc i))"
  using get_page_last_attempt [of "page_url page" net]
  by (simp add: get_page_def stamina_retry_eq get_page_attempt_result
      get_page_attempt_events Let_def del: upt_Suc)

lemma deciding_request_bound: "deciding_request outs < stamina_attempts"
  by (auto simp: deciding_request_def stamina_attempts_def split: option.split dest!: find_Some_first)

lemma deciding_request_first: "\<not> transient (outs 0) \<Longrightarrow> deciding_request outs = 0"
  by (simp add: deciding_request_def stamina_attempts_def upt_conv_Cons del: upt_Suc)

lemma deciding_request_all:
  "\<forall>i<stamina_attempts. transient (outs i) \<Longrightarrow> deciding_request outs = stamina_attempts - 1"
proof -
  assume a: "\<forall>i<stamina_attempts. transient (outs i)"
  have "find (\<lambda>i. \<not> transient (outs i)) [0..<stamina_attempts - 1] = None"
    using a by (simp add: find_None_list_all list_all_iff stamina_attempts_def)
  then show ?thesis by (simp add: deciding_request_def)
qed

lemma deciding_request_decides:
  "deciding_request outs = i \<Longrightarrow> i < stamina_attempts - 1 \<Longrightarrow> \<not> transient (outs i)"
  by (auto simp: deciding_request_def stamina_attempts_def split: option.splits dest!: find_Some_first)

subsection \<open>Properties\<close>

text \<open>C20. The fetcher implements its contract: the exception or text \<open>get_page\<close> produces and the number of requests it makes are those of \<open>fetch_spec\<close>, where the first of three responses that is not transient (a 2xx, or a 404) decides, and otherwise the third failure propagates.\<close>

theorem get_page_refines:
  "(fst (fst (get_page net page)), snd (get_page net page)) = fetch_spec net (page_url page)"
  by (simp add: get_page_eq fetch_spec_def Let_def)

text \<open>Retries are bounded: a fetch makes at least one and at most three requests (the attempt budget), whatever the network does.\<close>

theorem get_page_requests_bound:
  "1 \<le> snd (get_page net page) \<and> snd (get_page net page) \<le> stamina_attempts"
  using deciding_request_bound [of "net (page_url page)"] by (simp add: get_page_eq Let_def)

text \<open>C21. A 404 is terminal: when the first request answers 404, the fetch raises \<^verbatim>\<open>NotFoundError\<close> after that single request, having logged one debug event for it.\<close>

theorem get_page_not_found:
  assumes "net (page_url page) 0 = Response 404 body"
  shows "get_page net page =
           ((Inl (NotFoundError not_found_msg), [LogDebug (page_url page) 404]), 1)"
proof -
  have "deciding_request (net (page_url page)) = 0"
    using assms by (simp add: deciding_request_first transient_def)
  then show ?thesis using assms by (simp add: get_page_eq outcome_result_def response_events_def)
qed

text \<open>C22. On success the page text is the body of the last response, unmodified, and that response had a 2xx status.\<close>

theorem get_page_body:
  assumes "fst (fst (get_page net page)) = Inr t"
  shows "\<exists>st. net (page_url page) (snd (get_page net page) - 1) = Response st t \<and> is_success st"
  using assms
  by (auto simp: get_page_eq Let_def outcome_result_def split: http_outcome.splits if_splits)

text \<open>C23. Three transient failures in a row exhaust the budget: the fetch makes three requests and propagates the third failure, an \<^verbatim>\<open>httpx.HTTPError\<close> (status or transport error).\<close>

theorem get_page_exhausted:
  assumes "\<forall>i<stamina_attempts. transient (net (page_url page) i)"
  shows "fst (fst (get_page net page)) = outcome_result (page_url page) (net (page_url page) 2)
         \<and> snd (get_page net page) = 3
         \<and> (\<exists>e. outcome_result (page_url page) (net (page_url page) 2) = Inl e \<and> is_http_error e)"
proof -
  have d: "deciding_request (net (page_url page)) = 2"
    using deciding_request_all [OF assms] by (simp add: stamina_attempts_def)
  have "transient (net (page_url page) 2)" using assms by (simp add: stamina_attempts_def)
  then have "\<exists>e. outcome_result (page_url page) (net (page_url page) 2) = Inl e \<and> is_http_error e"
    by (auto simp: transient_def outcome_result_def split: http_outcome.splits)
  with d show ?thesis by (simp add: get_page_eq Let_def)
qed

text \<open>C24. The fetcher logs one debug event (URL and status) per request that received a response, in request order; a transport failure logs nothing.\<close>

theorem get_page_logs:
  "snd (fst (get_page net page)) =
     concat (map (\<lambda>j. response_events (page_url page) (net (page_url page) j))
                 [0..<snd (get_page net page)])"
  by (simp add: get_page_eq Let_def del: upt_Suc)

text \<open>Distinct page numbers are fetched from distinct URLs: the URL template is injective in the page number.\<close>

theorem page_url_inj: "page_url p = page_url q \<longleftrightarrow> p = q"
  by (simp add: page_url_def py_str_int_inj)

end
