(* ===== verification/Transport_Tests.thy ===== *)
theory Transport_Tests
  imports Transport
begin

text \<open>
  Networks for the fetcher: a server that times out twice and then answers, one past the last
  page, and one that is down; with the closed instances of the fetcher's properties.
\<close>

definition flaky :: network where
  "flaky u k = (if k < 2 then NetFailure ''ReadTimeout'' else Response 200 ''<html></html>'')"

definition past_end :: network where
  "past_end u k = Response 404 ''<h1>Not Found</h1>''"

definition down :: network where
  "down u k = (if k = 0 then Response 503 [] else NetFailure ''ConnectError'')"

subsection \<open>Evaluation\<close>

lemma flaky_run:
  "get_page flaky 7 =
     ((Inr ''<html></html>'', [LogDebug ''https://books.toscrape.com/catalogue/page-7.html'' 200]), 3)"
  by code_simp

lemma down_run:
  "get_page down 2 =
     ((Inl (HTTPTransportError ''ConnectError''),
       [LogDebug ''https://books.toscrape.com/catalogue/page-2.html'' 503]), 3)"
  by code_simp

subsection \<open>Witnesses\<close>

theorem get_page_not_found_witness:
  "past_end (page_url 51) 0 = Response 404 ''<h1>Not Found</h1>''
   \<and> get_page past_end 51 = ((Inl (NotFoundError not_found_msg), [LogDebug (page_url 51) 404]), 1)"
proof -
  have h: "past_end (page_url 51) 0 = Response 404 ''<h1>Not Found</h1>''" by (simp add: past_end_def)
  then show ?thesis using get_page_not_found [of past_end 51] by blast
qed

theorem get_page_body_witness:
  "fst (fst (get_page flaky 7)) = Inr ''<html></html>''
   \<and> (\<exists>st. flaky (page_url 7) (snd (get_page flaky 7) - 1) = Response st ''<html></html>''
          \<and> is_success st)"
proof -
  have h: "fst (fst (get_page flaky 7)) = Inr ''<html></html>''" using flaky_run by simp
  then show ?thesis using get_page_body [of flaky 7] by blast
qed

theorem get_page_exhausted_witness:
  "transient (down (page_url 2) 0) \<and> transient (down (page_url 2) 1) \<and> transient (down (page_url 2) 2)
   \<and> fst (fst (get_page down 2)) = outcome_result (page_url 2) (down (page_url 2) 2)
   \<and> snd (get_page down 2) = 3
   \<and> (\<exists>e. outcome_result (page_url 2) (down (page_url 2) 2) = Inl e \<and> is_http_error e)"
proof -
  have h: "\<forall>i<stamina_attempts. transient (down (page_url 2) i)"
    by (simp add: stamina_attempts_def down_def transient_def is_success_def)
  have t: "transient (down (page_url 2) 0) \<and> transient (down (page_url 2) 1) \<and> transient (down (page_url 2) 2)"
    by (simp add: down_def transient_def is_success_def)
  show ?thesis using get_page_exhausted [of down 2, OF h] t by blast
qed

end
