(* ===== verification/Sink.thy ===== *)
theory Sink
  imports Extractor
begin

text \<open>
  The sink, \<^verbatim>\<open>src/mongo.py\<close>: the document class \<^verbatim>\<open>BookModel\<close> as the record
  \<open>book_model\<close> (its fields carry the prefix \<open>bm_\<close> where the names clash with the
  fields of \<open>book\<close>), \<^verbatim>\<open>book_to_model\<close>, and \<^verbatim>\<open>insert_books\<close>. The collection
  \<^verbatim>\<open>books\<close> is a multiset of documents: \<^verbatim>\<open>insert_many(..., ordered=False)\<close> keeps
  no order, and the two \<^verbatim>\<open>Indexed()\<close> fields are plain, non-unique indexes, so every
  document of a batch is stored. \<^verbatim>\<open>datetime.now()\<close> is the clock reading the caller
  passes in, a time stamp of type \<open>datetime\<close>. Beanie hands the list to pymongo's
  \<^verbatim>\<open>Collection.insert_many\<close>, which raises \<^verbatim>\<open>TypeError\<close> on an empty list before
  it contacts the server; that check is \<open>insert_many\<close>.
\<close>

type_synonym datetime = nat

record book_model =
  bm_title :: string
  bm_price :: string
  in_stock :: bool
  parse_date :: datetime

type_synonym collection = "book_model multiset"

definition book_to_model :: "book \<Rightarrow> datetime \<Rightarrow> book_model" where
  "book_to_model b date =
     \<lparr>bm_title = title b, bm_price = price b, in_stock = available b, parse_date = date\<rparr>"

definition empty_documents_msg :: string where
  "empty_documents_msg = ''documents must be a non-empty list''"

definition insert_many :: "book_model list \<Rightarrow> collection \<Rightarrow> exc + collection" where
  "insert_many docs coll =
     (if docs = [] then Inl (TypeError empty_documents_msg) else Inr (coll + mset docs))"

definition inserted_msg :: "nat \<Rightarrow> string" where
  "inserted_msg n = ''Inserted '' @ py_str_int (int n) @ '' books''"

definition insert_books :: "datetime \<Rightarrow> book list \<Rightarrow> collection \<Rightarrow> unit py \<times> collection" where
  "insert_books date books coll =
     (let entities = map (\<lambda>b. book_to_model b date) books in
      case insert_many entities coll of
        Inl e \<Rightarrow> ((Inl e, []), coll)
      | Inr coll' \<Rightarrow> ((Inr (), [LogInfo (inserted_msg (length entities))]), coll'))"

text \<open>Reading a stored document back as the entity it was made from.\<close>

definition model_to_book :: "book_model \<Rightarrow> book" where
  "model_to_book m = \<lparr>title = bm_title m, price = bm_price m, available = in_stock m\<rparr>"

subsection \<open>Lemmas\<close>

lemma model_to_book_to_model [simp]: "model_to_book (book_to_model b d) = b"
  by (simp add: model_to_book_def book_to_model_def)

lemma parse_date_book_to_model [simp]: "parse_date (book_to_model b d) = d"
  by (simp add: book_to_model_def)

lemma insert_books_nonempty:
  "books \<noteq> [] \<Longrightarrow> insert_books d books c =
     ((Inr (), [LogInfo (inserted_msg (length books))]), c + mset (map (\<lambda>b. book_to_model b d) books))"
  by (simp add: insert_books_def insert_many_def)

lemma insert_books_Nil: "insert_books d [] c = ((Inl (TypeError empty_documents_msg), []), c)"
  by (simp add: insert_books_def insert_many_def)

lemma insert_books_added:
  "\<exists>M. snd (insert_books d books c) = c + M \<and> M = (if books = [] then {#} else mset (map (\<lambda>b. book_to_model b d) books))"
  by (cases "books = []") (simp_all add: insert_books_Nil insert_books_nonempty)

lemma insert_books_cases:
  assumes "insert_books d books c = ((r, ev), c')"
  shows "(books = [] \<and> r = Inl (TypeError empty_documents_msg) \<and> c' = c)
         \<or> (books \<noteq> [] \<and> r = Inr () \<and> c' = c + mset (map (\<lambda>b. book_to_model b d) books))"
  using assms by (cases "books = []") (simp_all add: insert_books_Nil insert_books_nonempty)

lemma image_model_to_book_batch:
  "image_mset model_to_book (mset (map (\<lambda>b. book_to_model b d) books)) = mset books"
  by (simp add: multiset.map_comp comp_def)

subsection \<open>Properties\<close>

text \<open>C27. A batch is stored whole and faithfully: the collection only grows, the documents
  added read back as exactly the batch's records (as a multiset, since the insert is
  unordered), and all of them carry the one time stamp taken for the call.\<close>

theorem insert_books_records:
  "c \<subseteq># snd (insert_books d books c)
   \<and> image_mset model_to_book (snd (insert_books d books c) - c) = mset books
   \<and> (\<forall>m \<in># snd (insert_books d books c) - c. parse_date m = d)"
  using insert_books_added [of d books c] by (auto simp: multiset.map_comp comp_def)

text \<open>An empty batch is not accepted: \<^verbatim>\<open>insert_books([])\<close> raises pymongo's
  \<^verbatim>\<open>TypeError\<close>, logs nothing and leaves the collection unchanged, whereas a non-empty batch
  succeeds and logs its size.\<close>

theorem insert_books_empty_batch:
  "insert_books d books c =
     (if books = [] then ((Inl (TypeError empty_documents_msg), []), c)
      else ((Inr (), [LogInfo (inserted_msg (length books))]),
            c + mset (map (\<lambda>b. book_to_model b d) books)))"
  by (simp add: insert_books_Nil insert_books_nonempty)

end
