(* ===== verification/Crawl.thy ===== *)
theory Crawl
  imports Page_Parser Pager Transport Sink
begin

text \<open>
  The crawl orchestrator, \<^verbatim>\<open>main\<close> and \<^verbatim>\<open>scrape_page\<close> of \<^verbatim>\<open>src/main.py\<close>.
  The HTML parser is a parameter \<open>html\<close> (\<^verbatim>\<open>BeautifulSoup(txt, "html.parser")\<close>, a
  library), the network the oracle of \<open>Transport\<close>, and the clock the time stamps the
  rules choose. Phase 1, \<open>main_seed\<close>, is sequential: fetch page 1, parse it, store its
  records, read \<^verbatim>\<open>.pager li.current\<close> and resolve the page count, with the
  \<^verbatim>\<open>try\<close>/\<^verbatim>\<open>except MissingCriticalElementError\<close> of the source.
  Phase 2 is \<^verbatim>\<open>asyncio.gather\<close> over one \<^verbatim>\<open>scrape_page\<close> task per page, as the
  step relation \<open>gather_step\<close> on the tasks' statuses, the collection, the log and the
  exception gather propagates. A task runs in two atomic steps, split at its one await on
  shared state: \<open>scrape_front\<close> (log, fetch with retries, parse) and the store
  (\<open>insert_books\<close>). The fetch is one step although its retries await: each task
  requests its own URL (\<open>scrape_front_local\<close>) and the network answers per URL, so interleaving
  changes only the order of log events. gather without \<^verbatim>\<open>return_exceptions\<close> raises the
  first exception as soon as a task raises it; the other tasks may still run while
  \<^verbatim>\<open>main\<close> unwinds, and \<^verbatim>\<open>asyncio.run\<close> then cancels those still pending, which the
  rule \<open>cancel\<close> allows once an exception has been raised. \<open>main_run\<close> relates a start
  to every outcome of \<^verbatim>\<open>main\<close> that some schedule produces.
\<close>

definition sel_pager :: selector where
  "sel_pager anc x =
     (tag_name x = ''li'' \<and> has_class ''current'' x \<and> list_ex (\<lambda>a. ''pager'' \<in> set (snd a)) anc)"

definition no_pager_msg :: string where
  "no_pager_msg = ''can't find li.current''"

text \<open>\<^verbatim>\<open>range(a, b)\<close> on integers.\<close>

definition py_range :: "int \<Rightarrow> int \<Rightarrow> int list" where
  "py_range a b = [a..b - 1]"

text \<open>\<^verbatim>\<open>scrape_page\<close> up to its store: the log event, the fetch and the parse.\<close>

definition scrape_front :: "network \<Rightarrow> (string \<Rightarrow> node) \<Rightarrow> int \<Rightarrow> book list py" where
  "scrape_front net html page =
     eff_log (LogInfoPage ''Scraping page'' page)
       (eff_bind (fst (get_page net (page + 1))) (\<lambda>txt. parse_page (LayoutNode (html txt))))"

subsection \<open>Phase 1\<close>

datatype seed_result = SeedRaised exc | SeedCaught | SeedCount int

definition start_events :: "log_event list" where
  "start_events = [LogInfo ''Connecting to database'', LogInfo ''Starting the parsing process'']"

text \<open>The \<^verbatim>\<open>try\<close> block after the first page is stored: an exception it raises is
  logged and swallowed when it is a \<^verbatim>\<open>MissingCriticalElementError\<close>, and propagates
  otherwise.\<close>

definition seed_except :: "exc \<Rightarrow> log_event list \<Rightarrow> collection \<Rightarrow> seed_result \<times> log_event list \<times> collection" where
  "seed_except e ev c =
     (if is_missing_critical e then (SeedCaught, ev @ [LogCritical e], c) else (SeedRaised e, ev, c))"

definition seed_pager :: "node \<Rightarrow> log_event list \<Rightarrow> collection \<Rightarrow> seed_result \<times> log_event list \<times> collection" where
  "seed_pager soup ev c =
     (case select_one sel_pager ([], soup) of
        None \<Rightarrow> seed_except (MissingCriticalElementError no_pager_msg) ev c
      | Some (_, cur) \<Rightarrow>
          (case parse_pages_count (py_strip (get_text cur)) of
             Inl e \<Rightarrow> seed_except e ev c
           | Inr cunt \<Rightarrow> (SeedCount cunt, ev, c)))"

definition main_seed :: "network \<Rightarrow> (string \<Rightarrow> node) \<Rightarrow> datetime \<Rightarrow> collection
                         \<Rightarrow> seed_result \<times> log_event list \<times> collection" where
  "main_seed net html date c0 =
     (case fst (get_page net 1) of
        (Inl e, ev1) \<Rightarrow> (SeedRaised e, start_events @ ev1, c0)
      | (Inr txt, ev1) \<Rightarrow>
          (case parse_page (LayoutNode (html txt)) of
             (Inl e, ev2) \<Rightarrow> (SeedRaised e, start_events @ ev1 @ ev2, c0)
           | (Inr books, ev2) \<Rightarrow>
               (case insert_books date books c0 of
                  ((Inl e, ev3), c1) \<Rightarrow> (SeedRaised e, start_events @ ev1 @ ev2 @ ev3, c1)
                | ((Inr _, ev3), c1) \<Rightarrow> seed_pager (html txt) (start_events @ ev1 @ ev2 @ ev3) c1)))"

subsection \<open>Phase 2\<close>

datatype task_status = Ready | Parsed "book list" | Stored "book list" | Raised exc | Cancelled

record gather_state =
  statuses :: "task_status list"
  coll :: collection
  events :: "log_event list"
  failure :: "exc option"

text \<open>The exception gather propagates is the first one raised.\<close>

definition note_failure :: "exc option \<Rightarrow> exc + 'a \<Rightarrow> exc option" where
  "note_failure f r = (case (f, r) of (None, Inl e) \<Rightarrow> Some e | _ \<Rightarrow> f)"

fun after_fetch :: "exc + book list \<Rightarrow> task_status" where
  "after_fetch (Inl e) = Raised e"
| "after_fetch (Inr books) = Parsed books"

fun after_store :: "book list \<Rightarrow> exc + unit \<Rightarrow> task_status" where
  "after_store books (Inl e) = Raised e"
| "after_store books (Inr _) = Stored books"

fun pending :: "task_status \<Rightarrow> bool" where
  "pending Ready = True"
| "pending (Parsed _) = True"
| "pending _ = False"

inductive gather_step :: "network \<Rightarrow> (string \<Rightarrow> node) \<Rightarrow> int list \<Rightarrow> gather_state \<Rightarrow> gather_state \<Rightarrow> bool"
  for net html pages where
  fetch: "\<lbrakk>i < length (statuses s); statuses s ! i = Ready;
           scrape_front net html (pages ! i) = (r, ev)\<rbrakk>
          \<Longrightarrow> gather_step net html pages s
                (s\<lparr>statuses := (statuses s)[i := after_fetch r], events := events s @ ev,
                   failure := note_failure (failure s) r\<rparr>)"
| store: "\<lbrakk>i < length (statuses s); statuses s ! i = Parsed books;
           insert_books date books (coll s) = ((r, ev), c')\<rbrakk>
          \<Longrightarrow> gather_step net html pages s
                (s\<lparr>statuses := (statuses s)[i := after_store books r], coll := c',
                   events := events s @ ev, failure := note_failure (failure s) r\<rparr>)"
| cancel: "\<lbrakk>failure s \<noteq> None; i < length (statuses s); pending (statuses s ! i)\<rbrakk>
          \<Longrightarrow> gather_step net html pages s (s\<lparr>statuses := (statuses s)[i := Cancelled]\<rparr>)"

definition gather_init :: "int list \<Rightarrow> collection \<Rightarrow> log_event list \<Rightarrow> gather_state" where
  "gather_init pages c ev = \<lparr>statuses = replicate (length pages) Ready, coll = c, events = ev, failure = None\<rparr>"

definition gather_final :: "gather_state \<Rightarrow> bool" where
  "gather_final s = list_all (\<lambda>t. \<not> pending t) (statuses s)"

text \<open>The end of \<^verbatim>\<open>main\<close> after gather: the \<^verbatim>\<open>except\<close> clause around it.\<close>

definition gather_exit :: "gather_state \<Rightarrow> (exc + unit) \<times> log_event list" where
  "gather_exit s =
     (case failure s of
        None \<Rightarrow> (Inr (), events s)
      | Some e \<Rightarrow> if is_missing_critical e then (Inr (), events s @ [LogCritical e]) else (Inl e, events s))"

inductive main_run :: "network \<Rightarrow> (string \<Rightarrow> node) \<Rightarrow> collection \<Rightarrow> exc + unit \<Rightarrow> log_event list
                       \<Rightarrow> collection \<Rightarrow> bool" for net html c0 where
  raised: "main_seed net html date c0 = (SeedRaised e, ev, c) \<Longrightarrow> main_run net html c0 (Inl e) ev c"
| caught: "main_seed net html date c0 = (SeedCaught, ev, c) \<Longrightarrow> main_run net html c0 (Inr ()) ev c"
| fanout: "\<lbrakk>main_seed net html date c0 = (SeedCount cunt, ev, c);
            (gather_step net html (py_range 1 cunt))\<^sup>*\<^sup>* (gather_init (py_range 1 cunt) c ev) s;
            gather_final s\<rbrakk>
           \<Longrightarrow> main_run net html c0 (fst (gather_exit s)) (snd (gather_exit s)) (coll s)"

subsection \<open>Bookkeeping for the proofs\<close>

text \<open>The records the task of a page stores when it gets that far.\<close>

definition page_books :: "network \<Rightarrow> (string \<Rightarrow> node) \<Rightarrow> int \<Rightarrow> book list" where
  "page_books net html p = (case fst (scrape_front net html p) of Inr bs \<Rightarrow> bs | Inl _ \<Rightarrow> [])"

fun stored_books :: "task_status \<Rightarrow> book multiset" where
  "stored_books (Stored bs) = mset bs"
| "stored_books _ = {#}"

fun task_consistent :: "network \<Rightarrow> (string \<Rightarrow> node) \<Rightarrow> int \<Rightarrow> task_status \<Rightarrow> bool" where
  "task_consistent net html p (Parsed bs) = (fst (scrape_front net html p) = Inr bs)"
| "task_consistent net html p (Stored bs) = (fst (scrape_front net html p) = Inr bs \<and> bs \<noteq> [])"
| "task_consistent net html p (Raised e) = True"
| "task_consistent net html p Ready = True"
| "task_consistent net html p Cancelled = True"

definition gather_inv :: "network \<Rightarrow> (string \<Rightarrow> node) \<Rightarrow> int list \<Rightarrow> collection \<Rightarrow> gather_state \<Rightarrow> bool" where
  "gather_inv net html pages c0 s =
     (length (statuses s) = length pages \<and> c0 \<subseteq># coll s
      \<and> image_mset model_to_book (coll s - c0) = sum_list (map stored_books (statuses s))
      \<and> (\<forall>i<length pages. task_consistent net html (pages ! i) (statuses s ! i)))"

fun task_weight :: "task_status \<Rightarrow> nat" where
  "task_weight Ready = 2"
| "task_weight (Parsed _) = 1"
| "task_weight _ = 0"

definition gather_weight :: "gather_state \<Rightarrow> nat" where
  "gather_weight s = sum_list (map task_weight (statuses s))"

fun healthy :: "task_status \<Rightarrow> bool" where
  "healthy (Raised _) = False"
| "healthy Cancelled = False"
| "healthy _ = True"

text \<open>The exception gather has noted is one a task raised, and it is noted as soon as a
  task raises or is cancelled.\<close>

definition failure_consistent :: "task_status list \<Rightarrow> exc option \<Rightarrow> bool" where
  "failure_consistent ts f =
     ((f = None \<longleftrightarrow> list_all healthy ts) \<and> (case f of None \<Rightarrow> True | Some e \<Rightarrow> Raised e \<in> set ts))"

definition cancel_prefix :: "nat \<Rightarrow> task_status list \<Rightarrow> task_status list" where
  "cancel_prefix k ts = map (\<lambda>i. if i < k \<and> pending (ts ! i) then Cancelled else ts ! i) [0..<length ts]"

subsection \<open>Lemmas\<close>

lemma after_fetch_weight: "task_weight (after_fetch r) \<le> 1"
  by (cases r) simp_all

lemma after_store_weight: "task_weight (after_store bs r) = 0"
  by (cases r) simp_all

lemma pending_weight: "pending t \<Longrightarrow> 0 < task_weight t"
  by (cases t) simp_all

lemma gather_step_weight:
  assumes "gather_step net html pages s t"
  shows "gather_weight t < gather_weight s"
  using assms
proof cases
  case (fetch i r ev)
  then show ?thesis
    using sum_list_map_update [of i "statuses s" task_weight "after_fetch r"] after_fetch_weight [of r]
    by (simp add: gather_weight_def)
next
  case (store i books date r ev c')
  then show ?thesis
    using sum_list_map_update [of i "statuses s" task_weight "after_store books r"]
    by (simp add: gather_weight_def after_store_weight)
next
  case (cancel i)
  then show ?thesis
    using sum_list_map_update [of i "statuses s" task_weight Cancelled] pending_weight [of "statuses s ! i"]
    by (simp add: gather_weight_def)
qed

lemma gather_step_wf: "wf {(t, s). gather_step net html pages s t}"
  by (rule wf_subset [OF wf_measure [of gather_weight]]) (auto dest: gather_step_weight)

lemma not_final_pending:
  "\<not> gather_final s \<Longrightarrow> \<exists>i<length (statuses s). pending (statuses s ! i)"
  by (auto simp: gather_final_def list_all_length)

lemma pending_step:
  assumes "i < length (statuses s)" and "pending (statuses s ! i)"
  shows "\<exists>t. gather_step net html pages s t"
proof (cases "statuses s ! i")
  case Ready
  obtain r ev where "scrape_front net html (pages ! i) = (r, ev)" by (cases "scrape_front net html (pages ! i)")
  with Ready assms(1) show ?thesis by (blast intro: gather_step.fetch)
next
  case (Parsed books)
  obtain r ev c' where "insert_books 0 books (coll s) = ((r, ev), c')"
    by (metis prod.collapse)
  with Parsed assms(1) show ?thesis by (blast intro: gather_step.store)
qed (use assms(2) in simp_all)

lemma gather_inv_init: "gather_inv net html pages c0 (gather_init pages c0 ev)"
proof -
  have "sum_list (map stored_books (replicate n Ready)) = {#}" for n by (induction n) simp_all
  moreover have "\<forall>i<length pages. task_consistent net html (pages ! i) (replicate (length pages) Ready ! i)"
    by simp
  ultimately show ?thesis by (simp add: gather_inv_def gather_init_def)
qed

lemma gather_inv_update:
  assumes "gather_inv net html pages c0 s" and "i < length (statuses s)"
    and "task_consistent net html (pages ! i) y" and "c0 \<subseteq># c'"
    and "image_mset model_to_book (c' - c0) + stored_books (statuses s ! i)
         = image_mset model_to_book (coll s - c0) + stored_books y"
  shows "gather_inv net html pages c0 (s\<lparr>statuses := (statuses s)[i := y], coll := c', events := ev, failure := f\<rparr>)"
proof -
  have inv: "length (statuses s) = length pages"
    "image_mset model_to_book (coll s - c0) = sum_list (map stored_books (statuses s))"
    "\<forall>i<length pages. task_consistent net html (pages ! i) (statuses s ! i)"
    using assms(1) unfolding gather_inv_def by blast+
  have sum: "sum_list (map stored_books ((statuses s)[i := y])) + stored_books (statuses s ! i)
             = sum_list (map stored_books (statuses s)) + stored_books y"
    using assms(2) by (rule sum_list_map_update)
  have "image_mset model_to_book (c' - c0) = sum_list (map stored_books ((statuses s)[i := y]))"
    using assms(5) sum inv(2) by (metis add_right_imp_eq)
  moreover have "\<forall>j<length pages. task_consistent net html (pages ! j) (((statuses s)[i := y]) ! j)"
  proof (intro allI impI)
    fix j assume "j < length pages"
    then show "task_consistent net html (pages ! j) (((statuses s)[i := y]) ! j)"
      using inv(3) assms(2,3) by (cases "i = j") simp_all
  qed
  ultimately show ?thesis using inv(1) assms(4) by (simp add: gather_inv_def)
qed

lemma gather_inv_store:
  assumes "gather_inv net html pages c0 s" and "i < length (statuses s)"
    and "statuses s ! i = Parsed books" and "insert_books date books (coll s) = ((r, ev), c')"
  shows "gather_inv net html pages c0 (s\<lparr>statuses := (statuses s)[i := after_store books r],
           coll := c', events := events s @ ev, failure := note_failure (failure s) r\<rparr>)"
proof -
  from assms(4) have ins: "(books = [] \<and> r = Inl (TypeError empty_documents_msg) \<and> c' = coll s)
      \<or> (books \<noteq> [] \<and> r = Inr () \<and> c' = coll s + mset (map (\<lambda>b. book_to_model b date) books))"
    by (rule insert_books_cases)
  have l: "length (statuses s) = length pages" and sub0: "c0 \<subseteq># coll s"
    and tc: "\<forall>i<length pages. task_consistent net html (pages ! i) (statuses s ! i)"
    using assms(1) unfolding gather_inv_def by blast+
  from tc assms(2) have "task_consistent net html (pages ! i) (statuses s ! i)" unfolding l by blast
  then have fr: "fst (scrape_front net html (pages ! i)) = Inr books"
    unfolding assms(3) task_consistent.simps .
  show ?thesis
    using ins
  proof
    assume a: "books = [] \<and> r = Inl (TypeError empty_documents_msg) \<and> c' = coll s"
    show ?thesis
    proof (rule gather_inv_update [OF assms(1,2)])
      show "task_consistent net html (pages ! i) (after_store books r)" using a by simp
      show "c0 \<subseteq># c'" using a sub0 by simp
      show "image_mset model_to_book (c' - c0) + stored_books (statuses s ! i)
            = image_mset model_to_book (coll s - c0) + stored_books (after_store books r)"
        using a assms(3) by simp
    qed
  next
    assume a: "books \<noteq> [] \<and> r = Inr () \<and> c' = coll s + mset (map (\<lambda>b. book_to_model b date) books)"
    show ?thesis
    proof (rule gather_inv_update [OF assms(1,2)])
      have r: "r = Inr ()" and c'eq: "c' = coll s + mset (map (\<lambda>b. book_to_model b date) books)"
        using a by blast+
      show "task_consistent net html (pages ! i) (after_store books r)"
        using fr a by simp
      show "c0 \<subseteq># c'" unfolding c'eq by (rule mset_le_add_right [OF sub0])
      have "c' - c0 = (coll s - c0) + mset (map (\<lambda>b. book_to_model b date) books)"
        unfolding c'eq by (rule mset_diff_add_right [OF sub0])
      then show "image_mset model_to_book (c' - c0) + stored_books (statuses s ! i)
            = image_mset model_to_book (coll s - c0) + stored_books (after_store books r)"
        by (simp only: image_mset_union image_model_to_book_batch assms(3) r after_store.simps
            stored_books.simps add_0_right)
    qed
  qed
qed

lemma gather_inv_fetch:
  assumes "gather_inv net html pages c0 s" and "i < length (statuses s)" and "statuses s ! i = Ready"
    and "scrape_front net html (pages ! i) = (r, ev)"
  shows "gather_inv net html pages c0 (s\<lparr>statuses := (statuses s)[i := after_fetch r],
           events := events s @ ev, failure := note_failure (failure s) r\<rparr>)"
proof -
  have e: "stored_books (after_fetch r) = {#}" by (cases r) simp_all
  have c: "task_consistent net html (pages ! i) (after_fetch r)" using assms(4) by (cases r) simp_all
  have sub: "c0 \<subseteq># coll s" using assms(1) by (simp add: gather_inv_def)
  have "gather_inv net html pages c0 (s\<lparr>statuses := (statuses s)[i := after_fetch r],
      coll := coll s, events := events s @ ev, failure := note_failure (failure s) r\<rparr>)"
    by (rule gather_inv_update [OF assms(1,2) c sub]) (simp add: e assms(3))
  then show ?thesis by simp
qed

lemma gather_inv_cancel:
  assumes "gather_inv net html pages c0 s" and "i < length (statuses s)" and "pending (statuses s ! i)"
  shows "gather_inv net html pages c0 (s\<lparr>statuses := (statuses s)[i := Cancelled]\<rparr>)"
proof -
  have e: "stored_books (statuses s ! i) = {#}" using assms(3) by (cases "statuses s ! i") simp_all
  have sub: "c0 \<subseteq># coll s" using assms(1) by (simp add: gather_inv_def)
  have "gather_inv net html pages c0 (s\<lparr>statuses := (statuses s)[i := Cancelled],
      coll := coll s, events := events s, failure := failure s\<rparr>)"
    by (rule gather_inv_update [OF assms(1,2) _ sub]) (simp_all add: e)
  then show ?thesis by simp
qed

lemma gather_step_inv:
  assumes "gather_step net html pages s t" and "gather_inv net html pages c0 s"
  shows "gather_inv net html pages c0 t"
  using assms(1)
proof cases
  case (fetch i r ev)
  then show ?thesis using gather_inv_fetch [OF assms(2)] by simp
next
  case (store i books date r ev c')
  then show ?thesis using gather_inv_store [OF assms(2)] by simp
next
  case (cancel i)
  then show ?thesis using gather_inv_cancel [OF assms(2)] by simp
qed

lemma gather_reach_inv:
  assumes "(gather_step net html pages)\<^sup>*\<^sup>* (gather_init pages c0 ev) s"
  shows "gather_inv net html pages c0 s"
  using assms
proof (induction rule: rtranclp_induct)
  case base
  then show ?case by (rule gather_inv_init)
next
  case (step s t)
  then show ?case by (blast intro: gather_step_inv)
qed

lemma gather_inv_consistent:
  assumes "gather_inv net html pages c0 s" and "i < length (statuses s)"
  shows "task_consistent net html (pages ! i) (statuses s ! i)"
  using assms unfolding gather_inv_def by auto

lemma gather_healthy:
  assumes ok: "\<forall>p\<in>set pages. \<exists>bs. bs \<noteq> [] \<and> fst (scrape_front net html p) = Inr bs"
    and reach: "(gather_step net html pages)\<^sup>*\<^sup>* (gather_init pages c0 ev) s"
  shows "failure s = None \<and> list_all healthy (statuses s)"
  using reach
proof (induction rule: rtranclp_induct)
  case base
  then show ?case by (simp add: gather_init_def list_all_iff)
next
  case (step s t)
  have inv: "gather_inv net html pages c0 s" using step.hyps(1) by (rule gather_reach_inv)
  have len: "length (statuses s) = length pages" using inv by (simp add: gather_inv_def)
  from step.hyps(2) show ?case
  proof cases
    case (fetch i r ev')
    have "pages ! i \<in> set pages" using fetch(2) len by simp
    then obtain bs where "fst (scrape_front net html (pages ! i)) = Inr bs" using ok by blast
    then have r: "r = Inr bs" using fetch(4) by simp
    show ?thesis using step.IH fetch(1) r
      by (simp add: note_failure_def list_all_update)
  next
    case (store i books date r ev' c')
    have "task_consistent net html (pages ! i) (statuses s ! i)"
      using inv store(2) by (rule gather_inv_consistent)
    then have fr: "fst (scrape_front net html (pages ! i)) = Inr books" using store(3) by simp
    have "pages ! i \<in> set pages" using store(2) len by simp
    then have "books \<noteq> []" using ok fr by fastforce
    then have r: "r = Inr ()" using store(4) by (simp add: insert_books_nonempty)
    show ?thesis using step.IH store(1) r
      by (simp add: note_failure_def list_all_update)
  next
    case (cancel i)
    then show ?thesis using step.IH by simp
  qed
qed

lemma final_healthy_stored:
  "\<not> pending t \<Longrightarrow> healthy t \<Longrightarrow> \<exists>bs. t = Stored bs"
  by (cases t) simp_all

lemma cancel_prefix_0: "cancel_prefix 0 ts = ts"
  by (simp add: cancel_prefix_def map_nth)

lemma cancel_prefix_length [simp]: "length (cancel_prefix k ts) = length ts"
  by (simp add: cancel_prefix_def)

lemma cancel_prefix_nth:
  "i < length ts \<Longrightarrow> cancel_prefix k ts ! i = (if i < k \<and> pending (ts ! i) then Cancelled else ts ! i)"
  by (simp add: cancel_prefix_def)

lemma cancel_prefix_Suc:
  assumes "k < length ts"
  shows "cancel_prefix (Suc k) ts
         = (if pending (ts ! k) then (cancel_prefix k ts)[k := Cancelled] else cancel_prefix k ts)"
  by (rule nth_equalityI) (auto simp: cancel_prefix_nth nth_list_update)

lemma cancel_upto:
  assumes "failure s \<noteq> None" and "k \<le> length (statuses s)"
  shows "(gather_step net html pages)\<^sup>*\<^sup>* s (s\<lparr>statuses := cancel_prefix k (statuses s)\<rparr>)"
  using assms(2)
proof (induction k)
  case 0
  then show ?case by (simp add: cancel_prefix_0)
next
  case (Suc k)
  let ?sk = "s\<lparr>statuses := cancel_prefix k (statuses s)\<rparr>"
  have k: "k < length (statuses s)" using Suc.prems by simp
  have reach: "(gather_step net html pages)\<^sup>*\<^sup>* s ?sk" using Suc by simp
  show ?case
  proof (cases "pending (statuses s ! k)")
    case True
    have "statuses ?sk ! k = statuses s ! k" using k by (simp add: cancel_prefix_nth)
    then have "gather_step net html pages ?sk (?sk\<lparr>statuses := (statuses ?sk)[k := Cancelled]\<rparr>)"
      using assms(1) k True by (intro gather_step.cancel) simp_all
    then show ?thesis using reach True k by (simp add: cancel_prefix_Suc)
  next
    case False
    then show ?thesis using reach k by (simp add: cancel_prefix_Suc)
  qed
qed

lemma scrape_front_Inr:
  assumes "fst (scrape_front net html p) = Inr bs"
  shows "list_all valid_book bs"
proof -
  obtain t where "fst (parse_page (LayoutNode (html t))) = Inr bs"
    using assms by (auto simp: scrape_front_def eff_bind_def eff_log_def split: prod.splits sum.splits) (metis fst_conv)
  then obtain ps where "fst (parse_products ps []) = Inr bs" by (blast dest: parse_page_Inr_products)
  then show ?thesis using parse_products_valid [of "[]"] by auto
qed

lemma stored_books_mem: "x \<in># stored_books t \<Longrightarrow> \<exists>bs. t = Stored bs \<and> x \<in> set bs"
  by (cases t) simp_all

lemma gather_final_stored:
  assumes ok: "\<forall>p\<in>set pages. \<exists>bs. bs \<noteq> [] \<and> fst (scrape_front net html p) = Inr bs"
    and reach: "(gather_step net html pages)\<^sup>*\<^sup>* (gather_init pages c0 ev) s"
    and fin: "gather_final s"
  shows "failure s = None
         \<and> image_mset model_to_book (coll s - c0) = sum_list (map (\<lambda>p. mset (page_books net html p)) pages)"
proof -
  have h: "failure s = None" "list_all healthy (statuses s)"
    using gather_healthy [OF ok reach] by simp_all
  have inv: "gather_inv net html pages c0 s" using reach by (rule gather_reach_inv)
  have len: "length (statuses s) = length pages" using inv by (simp add: gather_inv_def)
  have "map stored_books (statuses s) = map (\<lambda>p. mset (page_books net html p)) pages"
  proof (rule nth_equalityI)
    show "length (map stored_books (statuses s)) = length (map (\<lambda>p. mset (page_books net html p)) pages)"
      using len by simp
  next
    fix i assume "i < length (map stored_books (statuses s))"
    then have i: "i < length (statuses s)" by simp
    obtain bs where st: "statuses s ! i = Stored bs"
      using final_healthy_stored fin h(2) i by (fastforce simp: gather_final_def list_all_length)
    have "task_consistent net html (pages ! i) (statuses s ! i)"
      using inv i by (rule gather_inv_consistent)
    then have "page_books net html (pages ! i) = bs" using st by (simp add: page_books_def)
    then show "map stored_books (statuses s) ! i = map (\<lambda>p. mset (page_books net html p)) pages ! i"
      using i len st by simp
  qed
  then show ?thesis using inv h(1) by (simp add: gather_inv_def)
qed

lemma gather_reaches_final: "\<exists>t. (gather_step net html pages)\<^sup>*\<^sup>* s t \<and> gather_final t"
proof (induction s rule: wf_induct [OF gather_step_wf [of net html pages]])
  case (1 s)
  show ?case
  proof (cases "gather_final s")
    case True
    then show ?thesis by blast
  next
    case False
    then obtain i where "i < length (statuses s)" "pending (statuses s ! i)"
      using not_final_pending by blast
    then obtain t where st: "gather_step net html pages s t" using pending_step by blast
    with "1" obtain u where "(gather_step net html pages)\<^sup>*\<^sup>* t u" "gather_final u" by blast
    with st show ?thesis by (meson converse_rtranclp_into_rtranclp)
  qed
qed

lemma note_failure_Inr [simp]: "note_failure f (Inr x) = f"
  by (cases f) (simp_all add: note_failure_def)

lemma failure_consistent_init: "failure_consistent (replicate n Ready) None"
  by (simp add: failure_consistent_def list_all_iff)

lemma failure_consistent_healthy:
  assumes "failure_consistent ts f" and "i < length ts" and "healthy (ts ! i)" and "healthy y"
  shows "failure_consistent (ts[i := y]) f"
proof -
  have "ts ! i \<noteq> Raised e" for e using assms(3) by auto
  then show ?thesis using assms
    by (auto simp: failure_consistent_def list_all_update_iff set_update_keep split: option.splits)
qed

lemma failure_consistent_raise:
  assumes "failure_consistent ts f" and "i < length ts" and "healthy (ts ! i)"
  shows "failure_consistent (ts[i := Raised e]) (note_failure f (Inl e :: exc + 'a))"
proof -
  have r: "Raised e \<in> set (ts[i := Raised e])" using assms(2) by (rule set_update_memI)
  then have u: "\<not> list_all healthy (ts[i := Raised e])"
    unfolding list_all_iff using healthy.simps(1) by blast
  have "ts ! i \<noteq> Raised e'" for e' using assms(3) by auto
  then show ?thesis using assms(1) r u
    by (cases f) (auto simp: failure_consistent_def note_failure_def set_update_keep)
qed

lemma failure_consistent_cancel:
  assumes "failure_consistent ts f" and "f \<noteq> None" and "i < length ts" and "pending (ts ! i)"
  shows "failure_consistent (ts[i := Cancelled]) f"
proof -
  have c: "\<not> list_all healthy (ts[i := Cancelled])"
    unfolding list_all_iff using set_update_memI [OF assms(3), of Cancelled] healthy.simps(2) by blast
  have "ts ! i \<noteq> Raised e" for e using assms(4) by auto
  then show ?thesis using assms(1,2) c
    by (auto simp: failure_consistent_def set_update_keep split: option.splits)
qed

lemma gather_step_failure_consistent:
  assumes "gather_step net html pages s t" and "failure_consistent (statuses s) (failure s)"
  shows "failure_consistent (statuses t) (failure t)"
  using assms(1)
proof cases
  case (fetch i r ev)
  then show ?thesis using assms(2)
    by (cases r) (simp_all add: failure_consistent_healthy failure_consistent_raise)
next
  case (store i books date r ev c')
  then show ?thesis using assms(2)
    by (cases r) (simp_all add: failure_consistent_healthy failure_consistent_raise)
next
  case (cancel i)
  then show ?thesis using assms(2) by (simp add: failure_consistent_cancel)
qed

lemma gather_reach_failure_consistent:
  assumes "(gather_step net html pages)\<^sup>*\<^sup>* (gather_init pages c0 ev) s"
  shows "failure_consistent (statuses s) (failure s)"
  using assms
proof (induction rule: rtranclp_induct)
  case base
  then show ?case by (simp add: gather_init_def failure_consistent_init)
next
  case (step s t)
  then show ?case by (blast intro: gather_step_failure_consistent)
qed

lemma gather_cancel_schedule:
  assumes "j < length pages" and "fst (scrape_front net html (pages ! j)) = Inl e"
  shows "\<exists>s. (gather_step net html pages)\<^sup>*\<^sup>* (gather_init pages c0 ev) s \<and> gather_final s
             \<and> failure s = Some e \<and> coll s = c0
             \<and> (\<forall>i<length pages. i \<noteq> j \<longrightarrow> statuses s ! i = Cancelled)"
proof -
  let ?s0 = "gather_init pages c0 ev"
  obtain ev' where fr: "scrape_front net html (pages ! j) = (Inl e, ev')"
    using assms(2) by (metis prod.collapse)
  let ?s1 = "?s0\<lparr>statuses := (statuses ?s0)[j := after_fetch (Inl e)], events := events ?s0 @ ev',
               failure := note_failure (failure ?s0) (Inl e :: exc + book list)\<rparr>"
  have step1: "gather_step net html pages ?s0 ?s1"
    using assms(1) fr by (intro gather_step.fetch) (simp_all add: gather_init_def)
  have f1: "failure ?s1 = Some e" by (simp add: gather_init_def note_failure_def)
  have l1: "length (statuses ?s1) = length pages" by (simp add: gather_init_def)
  let ?s2 = "?s1\<lparr>statuses := cancel_prefix (length pages) (statuses ?s1)\<rparr>"
  have "(gather_step net html pages)\<^sup>*\<^sup>* ?s1 ?s2"
    using f1 l1 by (intro cancel_upto) simp_all
  with step1 have reach: "(gather_step net html pages)\<^sup>*\<^sup>* ?s0 ?s2"
    by (rule converse_rtranclp_into_rtranclp)
  have nth2: "statuses ?s2 ! i = (if i = j then Raised e else Cancelled)" if "i < length pages" for i
    using that assms(1) by (simp add: gather_init_def cancel_prefix_nth nth_list_update)
  have "gather_final ?s2"
    unfolding gather_final_def list_all_length using nth2 l1 by simp
  moreover have "\<forall>i<length pages. i \<noteq> j \<longrightarrow> statuses ?s2 ! i = Cancelled" using nth2 by simp
  moreover have "failure ?s2 = Some e" "coll ?s2 = c0" using f1 by (simp_all add: gather_init_def)
  ultimately show ?thesis using reach by blast
qed

subsection \<open>Properties\<close>

text \<open>C29. Invariant of the concurrent phase, whatever the schedule: the collection only grows, the documents added since gather started read back as exactly the records of the tasks that have stored, each once, and a task that has stored stored exactly the records its page parses to.\<close>

theorem gather_collection_invariant:
  assumes "(gather_step net html pages)\<^sup>*\<^sup>* (gather_init pages c0 ev) s"
  shows "c0 \<subseteq># coll s
         \<and> image_mset model_to_book (coll s - c0) = sum_list (map stored_books (statuses s))
         \<and> (\<forall>i<length (statuses s). \<forall>bs. statuses s ! i = Stored bs
                 \<longrightarrow> fst (scrape_front net html (pages ! i)) = Inr bs)"
proof -
  have "gather_inv net html pages c0 s" using assms by (rule gather_reach_inv)
  then have l: "length (statuses s) = length pages" and c: "c0 \<subseteq># coll s"
    and m: "image_mset model_to_book (coll s - c0) = sum_list (map stored_books (statuses s))"
    and t: "\<forall>i<length pages. task_consistent net html (pages ! i) (statuses s ! i)"
    unfolding gather_inv_def by blast+
  have "\<forall>i<length (statuses s). \<forall>bs. statuses s ! i = Stored bs
                 \<longrightarrow> fst (scrape_front net html (pages ! i)) = Inr bs"
  proof (intro allI impI)
    fix i bs assume "i < length (statuses s)" "statuses s ! i = Stored bs"
    with t l show "fst (scrape_front net html (pages ! i)) = Inr bs" by (metis task_consistent.simps(2))
  qed
  with c m show ?thesis by blast
qed

text \<open>C31. When every page of the phase fetches and parses to a non-empty list of records, every schedule that runs to the end leaves gather returning normally and the collection holding, besides what it held before, exactly the records of all pages (as a multiset: the order of the inserts is the schedule's).\<close>

theorem gather_all_pages_stored:
  assumes ok: "\<forall>p\<in>set pages. \<exists>bs. bs \<noteq> [] \<and> fst (scrape_front net html p) = Inr bs"
    and reach: "(gather_step net html pages)\<^sup>*\<^sup>* (gather_init pages c0 ev) s"
    and fin: "gather_final s"
  shows "gather_exit s = (Inr (), events s)
         \<and> image_mset model_to_book (coll s - c0) = sum_list (map (\<lambda>p. mset (page_books net html p)) pages)"
  using gather_final_stored [OF ok reach fin] by (simp add: gather_exit_def)

text \<open>C32. One failing page can lose the others: if the task of some page raises (for example \<^verbatim>\<open>NotFoundError\<close> or an exhausted retry), there is a schedule in which gather propagates that exception and every other task is cancelled before storing anything, so no record of the phase is stored. The crawl is not best effort per page.\<close>

theorem gather_failure_cancels:
  assumes "j < length pages" and "fst (scrape_front net html (pages ! j)) = Inl e"
  shows "\<exists>s. (gather_step net html pages)\<^sup>*\<^sup>* (gather_init pages c0 ev) s \<and> gather_final s
             \<and> failure s = Some e \<and> coll s = c0
             \<and> (\<forall>i<length pages. i \<noteq> j \<longrightarrow> statuses s ! i = Cancelled)"
  using assms by (rule gather_cancel_schedule)

text \<open>C30. The exception gather propagates is consistent with the tasks, whatever the schedule:
  none is noted exactly as long as no task has raised or been cancelled, and a noted exception
  is one that some task raised (and whose status still says so).\<close>

theorem gather_failure_consistent:
  assumes "(gather_step net html pages)\<^sup>*\<^sup>* (gather_init pages c0 ev) s"
  shows "(failure s = None \<longleftrightarrow> list_all healthy (statuses s))
         \<and> (\<forall>e. failure s = Some e \<longrightarrow> Raised e \<in> set (statuses s))"
  using gather_reach_failure_consistent [OF assms]
  by (auto simp: failure_consistent_def split: option.splits)

text \<open>C33. A task page with no record makes gather fail in every schedule: its store calls
  \<^verbatim>\<open>insert_books([])\<close>, which raises pymongo's \<^verbatim>\<open>TypeError\<close>, so no complete
  schedule ends with gather returning normally and the log unchanged.\<close>

theorem gather_empty_page_fails:
  assumes j: "j < length pages" and empty: "fst (scrape_front net html (pages ! j)) = Inr []"
    and reach: "(gather_step net html pages)\<^sup>*\<^sup>* (gather_init pages c0 ev) s"
    and fin: "gather_final s"
  shows "failure s \<noteq> None \<and> gather_exit s \<noteq> (Inr (), events s)"
proof -
  have inv: "gather_inv net html pages c0 s" using reach by (rule gather_reach_inv)
  then have l: "j < length (statuses s)" using j by (simp add: gather_inv_def)
  have np: "\<not> pending (statuses s ! j)" using fin l by (simp add: gather_final_def list_all_length)
  have tc: "task_consistent net html (pages ! j) (statuses s ! j)" using inv l by (rule gather_inv_consistent)
  have "\<not> healthy (statuses s ! j)" using np tc empty by (cases "statuses s ! j") simp_all
  then have "\<not> list_all healthy (statuses s)" using l by (auto simp: list_all_length)
  then obtain e where f: "failure s = Some e"
    using gather_reach_failure_consistent [OF reach] by (auto simp: failure_consistent_def)
  then show ?thesis by (simp add: gather_exit_def)
qed

text \<open>C38. The task for \<^verbatim>\<open>page\<close> depends on the network only through the answers to
  its own URL, that of page \<^verbatim>\<open>page + 1\<close>, and two different tasks request different
  URLs. This is why a task's fetch, with its retries, can be one step of gather: no other
  task's requests can change what it reads.\<close>

theorem scrape_front_local:
  assumes "net (page_url (p + 1)) = net' (page_url (p + 1))"
  shows "scrape_front net html p = scrape_front net' html p
         \<and> (q \<noteq> p \<longrightarrow> page_url (q + 1) \<noteq> page_url (p + 1))"
  using assms by (simp add: scrape_front_def get_page_def Let_def page_url_inj)

text \<open>C28. Every document the concurrent phase adds to the collection, in every reachable
  state, reads back as a well-formed book: a non-empty stripped price and a stripped title.\<close>

theorem gather_documents_valid:
  assumes "(gather_step net html pages)\<^sup>*\<^sup>* (gather_init pages c0 ev) s"
  shows "\<forall>m \<in># coll s - c0. valid_book (model_to_book m)"
proof
  fix m assume m: "m \<in># coll s - c0"
  have inv: "gather_inv net html pages c0 s" using assms by (rule gather_reach_inv)
  then have img: "image_mset model_to_book (coll s - c0) = sum_list (map stored_books (statuses s))"
    and len: "length (statuses s) = length pages"
    by (simp_all add: gather_inv_def)
  have "model_to_book m \<in># sum_list (map stored_books (statuses s))"
    using m img by (metis image_eqI set_image_mset)
  then obtain t where t: "t \<in> set (statuses s)" and mt: "model_to_book m \<in># stored_books t"
    by (auto simp: mem_sum_list_mset)
  obtain i where i: "i < length (statuses s)" "statuses s ! i = t" using t by (auto simp: in_set_conv_nth)
  obtain bs where bs: "t = Stored bs" "model_to_book m \<in> set bs" using stored_books_mem [OF mt] by blast
  have "task_consistent net html (pages ! i) (statuses s ! i)" using inv i(1) by (rule gather_inv_consistent)
  then have "fst (scrape_front net html (pages ! i)) = Inr bs" using i(2) bs(1) by simp
  then have "list_all valid_book bs" by (rule scrape_front_Inr)
  then show "valid_book (model_to_book m)" using bs(2) by (simp add: list_all_iff)
qed


end
