(* ===== verification/Crawl_Main.thy ===== *)
theory Crawl_Main
  imports Crawl
begin

text \<open>
  The whole of \<^verbatim>\<open>main\<close> in \<^verbatim>\<open>src/main.py\<close>, as the relation \<open>main_run\<close> of
  \<open>Crawl\<close>: what phase 1 decides from page 1 (the outcomes that end the crawl before
  any task starts), and how phase 1 and the concurrent phase compose when every page
  succeeds and when one task page fails. The lemmas here compute \<open>main_seed\<close> on each branch of the source and read
  off every run of \<open>main_run\<close> that starts from it.
\<close>

subsection \<open>Lemmas\<close>

lemma main_seed_get_fails:
  "fst (get_page net 1) = (Inl e, ev1) \<Longrightarrow> main_seed net html d c0 = (SeedRaised e, start_events @ ev1, c0)"
  by (simp add: main_seed_def)

lemma main_seed_stored:
  assumes "fst (get_page net 1) = (Inr body, ev1)" and "parse_page (LayoutNode (html body)) = (Inr bs, ev2)"
    and "bs \<noteq> []"
  shows "main_seed net html d c0 =
           seed_pager (html body) (start_events @ ev1 @ ev2 @ [LogInfo (inserted_msg (length bs))])
             (c0 + mset (map (\<lambda>b. book_to_model b d) bs))"
  using assms by (simp add: main_seed_def insert_books_nonempty)

lemma main_run_seed:
  assumes "\<And>d. \<exists>c. main_seed net html d c0 = (SeedRaised e, ev0, c)"
  shows "main_run net html c0 r ev c \<longleftrightarrow> r = Inl e \<and> ev = ev0 \<and> (\<exists>d. main_seed net html d c0 = (SeedRaised e, ev0, c))"
proof
  assume "main_run net html c0 r ev c"
  then show "r = Inl e \<and> ev = ev0 \<and> (\<exists>d. main_seed net html d c0 = (SeedRaised e, ev0, c))"
  proof cases
    case (raised date)
    then show ?thesis using assms [of date] by auto
  next
    case (caught date)
    then show ?thesis using assms [of date] by auto
  next
    case (fanout date)
    then show ?thesis using assms [of date] by auto
  qed
next
  assume "r = Inl e \<and> ev = ev0 \<and> (\<exists>d. main_seed net html d c0 = (SeedRaised e, ev0, c))"
  then show "main_run net html c0 r ev c" by (auto intro: main_run.raised)
qed

lemma main_run_caught:
  assumes "\<And>d. \<exists>c. main_seed net html d c0 = (SeedCaught, ev0, c)"
  shows "main_run net html c0 r ev c \<longleftrightarrow> r = Inr () \<and> ev = ev0 \<and> (\<exists>d. main_seed net html d c0 = (SeedCaught, ev0, c))"
proof
  assume "main_run net html c0 r ev c"
  then show "r = Inr () \<and> ev = ev0 \<and> (\<exists>d. main_seed net html d c0 = (SeedCaught, ev0, c))"
  proof cases
    case (raised date)
    then show ?thesis using assms [of date] by auto
  next
    case (caught date)
    then show ?thesis using assms [of date] by auto
  next
    case (fanout date)
    then show ?thesis using assms [of date] by auto
  qed
next
  assume "r = Inr () \<and> ev = ev0 \<and> (\<exists>d. main_seed net html d c0 = (SeedCaught, ev0, c))"
  then show "main_run net html c0 r ev c" by (auto intro: main_run.caught)
qed
lemma main_seed_count:
  assumes "fst (get_page net 1) = (Inr body, ev1)" and "parse_page (LayoutNode (html body)) = (Inr bs, ev2)"
    and "bs \<noteq> []" and "select_one sel_pager ([], html body) = Some (a, cur)"
    and "parse_pages_count (py_strip (get_text cur)) = Inr cunt"
  shows "main_seed net html d c0 = (SeedCount cunt, start_events @ ev1 @ ev2 @ [LogInfo (inserted_msg (length bs))],
           c0 + mset (map (\<lambda>b. book_to_model b d) bs))"
  using main_seed_stored [where net = net and html = html and body = body, OF assms(1-3)] assms(4,5)
  by (simp add: seed_pager_def)

subsection \<open>Properties\<close>

text \<open>C34. A failed fetch of page 1 aborts the crawl: \<^verbatim>\<open>main\<close> raises the fetch's exception, has logged only the start events and the fetch's events, and stores nothing.\<close>

theorem main_first_page_fails:
  assumes "fst (get_page net 1) = (Inl e, ev1)"
  shows "main_run net html c0 r ev c \<longleftrightarrow> r = Inl e \<and> ev = start_events @ ev1 \<and> c = c0"
  using main_run_seed [of net html c0 e "start_events @ ev1" r ev c] assms
  by (auto simp: main_seed_get_fails)

text \<open>C35. A first page from which no record can be built crashes the crawl: \<^verbatim>\<open>insert_books([])\<close> raises pymongo's \<^verbatim>\<open>TypeError\<close>, which nothing catches, before the pager is read.\<close>

theorem main_empty_first_page:
  assumes "fst (get_page net 1) = (Inr body, ev1)" and "parse_page (LayoutNode (html body)) = (Inr [], ev2)"
  shows "main_run net html c0 r ev c \<longleftrightarrow>
           r = Inl (TypeError empty_documents_msg) \<and> ev = start_events @ ev1 @ ev2 \<and> c = c0"
proof -
  have "main_seed net html d c0 = (SeedRaised (TypeError empty_documents_msg), start_events @ ev1 @ ev2, c0)" for d
    using assms by (simp add: main_seed_def insert_books_Nil)
  then show ?thesis
    using main_run_seed [of net html c0 "TypeError empty_documents_msg" "start_events @ ev1 @ ev2"
        r ev c] by auto
qed

text \<open>C36. A first page without \<^verbatim>\<open>.pager li.current\<close> ends the crawl normally after its records are stored: the \<^verbatim>\<open>MissingCriticalElementError\<close> is logged as critical and no other page is fetched.\<close>

theorem main_missing_pager:
  assumes "fst (get_page net 1) = (Inr body, ev1)" and "parse_page (LayoutNode (html body)) = (Inr bs, ev2)"
    and "bs \<noteq> []" and "select_one sel_pager ([], html body) = None"
  shows "main_run net html c0 r ev c \<longleftrightarrow>
           r = Inr ()
           \<and> ev = start_events @ ev1 @ ev2 @ [LogInfo (inserted_msg (length bs)),
                                              LogCritical (MissingCriticalElementError no_pager_msg)]
           \<and> (\<exists>d. c = c0 + mset (map (\<lambda>b. book_to_model b d) bs))"
proof -
  have "main_seed net html d c0 = (SeedCaught, start_events @ ev1 @ ev2 @ [LogInfo (inserted_msg (length bs)),
           LogCritical (MissingCriticalElementError no_pager_msg)], c0 + mset (map (\<lambda>b. book_to_model b d) bs))" for d
    using main_seed_stored [where net = net and html = html and body = body, OF assms(1-3)] assms(4)
    by (simp add: seed_pager_def seed_except_def)
  then show ?thesis
    using main_run_caught [of net html c0 "start_events @ ev1 @ ev2 @ [LogInfo (inserted_msg (length bs)),
        LogCritical (MissingCriticalElementError no_pager_msg)]" r ev c] by auto
qed

text \<open>C37. A pager text that does not resolve aborts the crawl after page 1's records are stored: the resolver's error is a \<^verbatim>\<open>ValueError\<close>, which the clause \<^verbatim>\<open>except MissingCriticalElementError\<close> does not catch, so \<^verbatim>\<open>main\<close> raises it.\<close>

theorem main_bad_pager:
  assumes "fst (get_page net 1) = (Inr body, ev1)" and "parse_page (LayoutNode (html body)) = (Inr bs, ev2)"
    and "bs \<noteq> []" and "select_one sel_pager ([], html body) = Some (a, cur)"
    and "parse_pages_count (py_strip (get_text cur)) = Inl e"
  shows "main_run net html c0 r ev c \<longleftrightarrow>
           r = Inl e \<and> ev = start_events @ ev1 @ ev2 @ [LogInfo (inserted_msg (length bs))]
           \<and> (\<exists>d. c = c0 + mset (map (\<lambda>b. book_to_model b d) bs))"
proof -
  have "\<not> is_missing_critical e" using parse_pages_count_value_error [OF assms(5)] by (cases e) simp_all
  then have "main_seed net html d c0 = (SeedRaised e, start_events @ ev1 @ ev2 @ [LogInfo (inserted_msg (length bs))],
               c0 + mset (map (\<lambda>b. book_to_model b d) bs))" for d
    using main_seed_stored [where net = net and html = html and body = body, OF assms(1-3)] assms(4,5) by (simp add: seed_pager_def seed_except_def)
  then show ?thesis
    using main_run_seed [of net html c0 e "start_events @ ev1 @ ev2 @ [LogInfo (inserted_msg (length bs))]"
        r ev c] by auto
qed

text \<open>C25. End to end, when every page succeeds: if page 1 fetches, parses to a non-empty
  list of records and carries a pager that resolves to N pages, and every task page
  (\<^verbatim>\<open>range(1, N)\<close>) fetches and parses to a non-empty list, then \<^verbatim>\<open>main\<close>
  has a run, every run returns normally, and the documents it adds read back as exactly
  the records of page 1 and of every task's page, each once.\<close>

theorem main_crawl_complete:
  assumes get: "fst (get_page net 1) = (Inr body, ev1)"
    and parse: "parse_page (LayoutNode (html body)) = (Inr bs1, ev2)" and ne: "bs1 \<noteq> []"
    and pager: "select_one sel_pager ([], html body) = Some (a, cur)"
    and count: "parse_pages_count (py_strip (get_text cur)) = Inr cunt"
    and ok: "\<forall>p\<in>set (py_range 1 cunt). \<exists>bs. bs \<noteq> [] \<and> fst (scrape_front net html p) = Inr bs"
  shows "(\<exists>r ev c. main_run net html c0 r ev c)
         \<and> (\<forall>r ev c. main_run net html c0 r ev c \<longrightarrow> r = Inr ()
              \<and> image_mset model_to_book (c - c0)
                  = mset bs1 + sum_list (map (\<lambda>p. mset (page_books net html p)) (py_range 1 cunt)))"
proof -
  let ?pages = "py_range 1 cunt"
  let ?ev0 = "start_events @ ev1 @ ev2 @ [LogInfo (inserted_msg (length bs1))]"
  let ?c1 = "\<lambda>d. c0 + mset (map (\<lambda>b. book_to_model b d) bs1)"
  have seed: "main_seed net html d c0 = (SeedCount cunt, ?ev0, ?c1 d)" for d
    by (rule main_seed_count [where net = net and html = html and body = body, OF get parse ne pager count])
  obtain t where t: "(gather_step net html ?pages)\<^sup>*\<^sup>* (gather_init ?pages (?c1 0) ?ev0) t" "gather_final t"
    using gather_reaches_final by blast
  have "main_run net html c0 (fst (gather_exit t)) (snd (gather_exit t)) (coll t)"
    using seed [of 0] t by (rule main_run.fanout)
  moreover have "r = Inr () \<and> image_mset model_to_book (c - c0)
                  = mset bs1 + sum_list (map (\<lambda>p. mset (page_books net html p)) ?pages)"
    if "main_run net html c0 r ev c" for r ev c
    using that
  proof cases
    case (raised date e)
    then show ?thesis using seed [of date] by simp
  next
    case (caught date)
    then show ?thesis using seed [of date] by simp
  next
    case (fanout date cunt' ev' c' s)
    have eq: "cunt' = cunt" "ev' = ?ev0" "c' = ?c1 date" using fanout(4) seed [of date] by simp_all
    have reach: "(gather_step net html ?pages)\<^sup>*\<^sup>* (gather_init ?pages (?c1 date) ?ev0) s"
      using fanout(5) eq by simp
    have st: "failure s = None \<and> image_mset model_to_book (coll s - ?c1 date)
                = sum_list (map (\<lambda>p. mset (page_books net html p)) ?pages)"
      using ok reach fanout(6) by (rule gather_final_stored)
    have "?c1 date \<subseteq># coll s" using gather_reach_inv [OF reach] by (simp add: gather_inv_def)
    then have "coll s - c0 = (coll s - ?c1 date) + mset (map (\<lambda>b. book_to_model b date) bs1)"
      by (rule mset_diff_split)
    then show ?thesis using st fanout(1-3)
      by (simp add: gather_exit_def multiset.map_comp comp_def add.commute)
  qed
  ultimately show ?thesis by blast
qed

text \<open>C26. End to end, one failing task page can lose every later page: if phase 1 stores
  page 1's records and resolves N, and the task of some page in \<^verbatim>\<open>range(1, N)\<close>
  raises, then some run of \<^verbatim>\<open>main\<close> propagates that exception (or logs it as critical,
  for a \<^verbatim>\<open>MissingCriticalElementError\<close>) with only page 1's records stored.\<close>

theorem main_task_failure_run:
  assumes get: "fst (get_page net 1) = (Inr body, ev1)"
    and parse: "parse_page (LayoutNode (html body)) = (Inr bs1, ev2)" and ne: "bs1 \<noteq> []"
    and pager: "select_one sel_pager ([], html body) = Some (a, cur)"
    and count: "parse_pages_count (py_strip (get_text cur)) = Inr cunt"
    and p: "p \<in> set (py_range 1 cunt)" and fails: "fst (scrape_front net html p) = Inl e"
  shows "\<exists>ev c. main_run net html c0 (if is_missing_critical e then Inr () else Inl e) ev c
                \<and> image_mset model_to_book (c - c0) = mset bs1"
proof -
  let ?pages = "py_range 1 cunt"
  let ?ev0 = "start_events @ ev1 @ ev2 @ [LogInfo (inserted_msg (length bs1))]"
  let ?c1 = "c0 + mset (map (\<lambda>b. book_to_model b 0) bs1)"
  have seed: "main_seed net html 0 c0 = (SeedCount cunt, ?ev0, ?c1)"
    by (rule main_seed_count [where net = net and html = html and body = body, OF get parse ne pager count])
  obtain j where j: "j < length ?pages" "?pages ! j = p" using p by (auto simp: in_set_conv_nth)
  obtain s where s: "(gather_step net html ?pages)\<^sup>*\<^sup>* (gather_init ?pages ?c1 ?ev0) s" "gather_final s"
      "failure s = Some e" "coll s = ?c1"
    using gather_cancel_schedule [of j ?pages net html e ?c1 ?ev0] j fails by auto
  have "main_run net html c0 (fst (gather_exit s)) (snd (gather_exit s)) (coll s)"
    using seed s(1,2) by (rule main_run.fanout)
  moreover have "fst (gather_exit s) = (if is_missing_critical e then Inr () else Inl e)"
    using s(3) by (simp add: gather_exit_def)
  moreover have "image_mset model_to_book (coll s - c0) = mset bs1"
    using s(4) by (simp add: multiset.map_comp comp_def)
  ultimately show ?thesis by metis
qed

end
