(* ===== verification/Crawl_Tests.thy ===== *)
theory Crawl_Tests
  imports Crawl_Main Scraper_Tests Transport_Tests
begin

text \<open>
  A small catalogue for the orchestrator: page 1 lists one book and a pager, page 2 is gone
  (404), page 3 lists another book; the HTML parser is given as the trees it would build.
  With it, concrete runs of phase 1 and of gather, and the closed instances of the
  orchestrator's and the sink's properties.
\<close>

definition shop :: network where
  "shop u k = (if u = page_url 2 then Response 404 ''Not Found'' else Response 200 u)"

definition pager_nav :: "string \<Rightarrow> node" where
  "pager_nav t = Tag ''ul'' [''pager''] [] [Tag ''li'' [''current''] [] [NavStr t]]"

definition shop_html :: "string \<Rightarrow> node" where
  "shop_html b =
     (if b = page_url 1 then doc [Tag ''ol'' [''row''] [] [wings], pager_nav ''Page 1 of 3'']
      else if b = page_url 3 then product_list [attic] else doc [])"

definition bare_html :: "string \<Rightarrow> node" where
  "bare_html b = product_list [wings]"

definition empty_html :: "string \<Rightarrow> node" where
  "empty_html b = doc []"

definition comma_html :: "string \<Rightarrow> node" where
  "comma_html b = doc [Tag ''ol'' [''row''] [] [wings], pager_nav ''Page 1 of 1,000'']"

text \<open>A catalogue of two pages that both answer: page 1 lists one book and a pager
  \<open>Page 1 of 2\<close>, every other page lists another book.\<close>

definition open_shop :: network where
  "open_shop u k = Response 200 u"

definition two_page_html :: "string \<Rightarrow> node" where
  "two_page_html b =
     (if b = page_url 1 then doc [Tag ''ol'' [''row''] [] [wings], pager_nav ''Page 1 of 2'']
      else product_list [attic])"

text \<open>The schedule in which the task for \<^verbatim>\<open>page = 2\<close> fetches page 3 and stores it.\<close>

definition page3_fetched :: gather_state where
  "page3_fetched =
     (gather_init [2] {#} [])\<lparr>statuses := (statuses (gather_init [2] {#} []))[0 := after_fetch (Inr [attic_book])],
        events := events (gather_init [2] {#} []) @ snd (scrape_front shop shop_html 2),
        failure := note_failure (failure (gather_init [2] {#} [])) (Inr [attic_book] :: exc + book list)\<rparr>"

definition page3_stored :: gather_state where
  "page3_stored =
     page3_fetched\<lparr>statuses := (statuses page3_fetched)[0 := after_store [attic_book] (Inr ())],
        coll := {#} + mset (map (\<lambda>b. book_to_model b 7) [attic_book]),
        events := events page3_fetched @ [LogInfo (inserted_msg (length [attic_book]))],
        failure := note_failure (failure page3_fetched) (Inr () :: exc + unit)\<rparr>"

subsection \<open>Evaluation\<close>

lemma shop_page3: "fst (scrape_front shop shop_html 2) = Inr [attic_book]"
  by code_simp

lemma shop_page4: "fst (scrape_front shop shop_html 3) = Inr []"
  by code_simp

lemma shop_page2: "fst (scrape_front shop shop_html 1) = Inl (NotFoundError not_found_msg)"
  by code_simp

lemma shop_seed: "main_seed shop shop_html 5 {#} =
    (SeedCount 3, start_events @ [LogDebug (page_url 1) 200, LogInfo (inserted_msg 1)],
     {#book_to_model wings_book 5#})"
  by code_simp

lemma page3_run: "(gather_step shop shop_html [2])\<^sup>*\<^sup>* (gather_init [2] {#} []) page3_stored"
proof -
  have f: "scrape_front shop shop_html ([2] ! 0) = (Inr [attic_book], snd (scrape_front shop shop_html 2))"
    using shop_page3 by (metis nth_Cons_0 prod.collapse)
  have s1: "gather_step shop shop_html [2] (gather_init [2] {#} []) page3_fetched"
    unfolding page3_fetched_def by (rule gather_step.fetch [OF _ _ f]) (simp_all add: gather_init_def)
  have i: "insert_books 7 [attic_book] (coll page3_fetched) =
           ((Inr (), [LogInfo (inserted_msg (length [attic_book]))]),
            {#} + mset (map (\<lambda>b. book_to_model b 7) [attic_book]))"
    by (simp add: page3_fetched_def gather_init_def insert_books_nonempty)
  have s2: "gather_step shop shop_html [2] page3_fetched page3_stored"
    unfolding page3_stored_def
    by (rule gather_step.store [OF _ _ i]) (simp_all add: page3_fetched_def gather_init_def)
  from s1 s2 show ?thesis by simp
qed

lemma page3_final: "gather_final page3_stored"
  by (simp add: gather_final_def page3_stored_def page3_fetched_def gather_init_def)

subsection \<open>Witnesses\<close>

theorem gather_collection_invariant_witness:
  "(gather_step shop shop_html [2])\<^sup>*\<^sup>* (gather_init [2] {#} []) page3_stored
   \<and> {#} \<subseteq># coll page3_stored
   \<and> image_mset model_to_book (coll page3_stored - {#}) = sum_list (map stored_books (statuses page3_stored))
   \<and> statuses page3_stored ! 0 = Stored [attic_book]
   \<and> fst (scrape_front shop shop_html ([2] ! 0)) = Inr [attic_book]"
proof -
  have st: "statuses page3_stored = [Stored [attic_book]]"
    by (simp add: page3_stored_def page3_fetched_def gather_init_def)
  have inv: "{#} \<subseteq># coll page3_stored
     \<and> image_mset model_to_book (coll page3_stored - {#}) = sum_list (map stored_books (statuses page3_stored))
     \<and> (\<forall>i<length (statuses page3_stored). \<forall>bs. statuses page3_stored ! i = Stored bs
           \<longrightarrow> fst (scrape_front shop shop_html ([2] ! i)) = Inr bs)"
    by (rule gather_collection_invariant [OF page3_run])
  then show ?thesis using page3_run st by simp
qed

theorem gather_all_pages_stored_witness:
  "[attic_book] \<noteq> [] \<and> fst (scrape_front shop shop_html 2) = Inr [attic_book]
   \<and> (gather_step shop shop_html [2])\<^sup>*\<^sup>* (gather_init [2] {#} []) page3_stored
   \<and> gather_final page3_stored
   \<and> gather_exit page3_stored = (Inr (), events page3_stored)
   \<and> image_mset model_to_book (coll page3_stored - {#})
       = sum_list (map (\<lambda>p. mset (page_books shop shop_html p)) [2])"
proof -
  have ok: "\<forall>p\<in>set [2]. \<exists>bs. bs \<noteq> [] \<and> fst (scrape_front shop shop_html p) = Inr bs"
    using shop_page3 by simp
  show ?thesis using gather_all_pages_stored [OF ok page3_run page3_final] shop_page3 page3_run page3_final
    by simp
qed

theorem gather_failure_cancels_witness:
  "0 < length [1, 2 :: int] \<and> fst (scrape_front shop shop_html ([1, 2] ! 0)) = Inl (NotFoundError not_found_msg)
   \<and> (\<exists>s. (gather_step shop shop_html [1, 2])\<^sup>*\<^sup>* (gather_init [1, 2] {#} []) s \<and> gather_final s
          \<and> failure s = Some (NotFoundError not_found_msg) \<and> coll s = {#}
          \<and> statuses s ! 1 = Cancelled)"
proof -
  have h: "fst (scrape_front shop shop_html ([1, 2] ! 0)) = Inl (NotFoundError not_found_msg)"
    using shop_page2 by simp
  obtain s where "(gather_step shop shop_html [1, 2])\<^sup>*\<^sup>* (gather_init [1, 2] {#} []) s" "gather_final s"
      "failure s = Some (NotFoundError not_found_msg)" "coll s = {#}"
      "\<forall>i<length [1, 2 :: int]. i \<noteq> 0 \<longrightarrow> statuses s ! i = Cancelled"
    using gather_failure_cancels [of 0 "[1, 2]" shop shop_html "NotFoundError not_found_msg" "{#}" "[]"] h
    by auto
  then show ?thesis using h by auto
qed

theorem main_first_page_fails_witness:
  "fst (get_page down 1) = (Inl (HTTPTransportError ''ConnectError''), [LogDebug (page_url 1) 503])
   \<and> main_run down shop_html {#} (Inl (HTTPTransportError ''ConnectError''))
       (start_events @ [LogDebug (page_url 1) 503]) {#}"
proof -
  have h: "fst (get_page down 1) = (Inl (HTTPTransportError ''ConnectError''), [LogDebug (page_url 1) 503])"
    by code_simp
  show ?thesis using main_first_page_fails [OF h, of shop_html "{#}"] h by simp
qed

theorem main_empty_first_page_witness:
  "fst (get_page shop 1) = (Inr (page_url 1), [LogDebug (page_url 1) 200])
   \<and> parse_page (LayoutNode (empty_html (page_url 1))) = (Inr [], [])
   \<and> main_run shop empty_html {#} (Inl (TypeError empty_documents_msg))
       (start_events @ [LogDebug (page_url 1) 200] @ []) {#}"
proof -
  have h1: "fst (get_page shop 1) = (Inr (page_url 1), [LogDebug (page_url 1) 200])" by code_simp
  have h2: "parse_page (LayoutNode (empty_html (page_url 1))) = (Inr [], [])" by code_simp
  show ?thesis using main_empty_first_page [where net = shop and html = empty_html and body = "page_url 1", OF h1 h2, of "{#}"] h1 h2 by simp
qed

theorem main_missing_pager_witness:
  "fst (get_page shop 1) = (Inr (page_url 1), [LogDebug (page_url 1) 200])
   \<and> parse_page (LayoutNode (bare_html (page_url 1))) = (Inr [wings_book], [])
   \<and> [wings_book] \<noteq> [] \<and> select_one sel_pager ([], bare_html (page_url 1)) = None
   \<and> main_run shop bare_html {#} (Inr ())
       (start_events @ [LogDebug (page_url 1) 200] @ [] @ [LogInfo (inserted_msg (length [wings_book])),
          LogCritical (MissingCriticalElementError no_pager_msg)])
       ({#} + mset (map (\<lambda>b. book_to_model b 0) [wings_book]))"
proof -
  have h1: "fst (get_page shop 1) = (Inr (page_url 1), [LogDebug (page_url 1) 200])" by code_simp
  have h2: "parse_page (LayoutNode (bare_html (page_url 1))) = (Inr [wings_book], [])" by code_simp
  have h4: "select_one sel_pager ([], bare_html (page_url 1)) = None" by code_simp
  have "main_run shop bare_html {#} (Inr ())
       (start_events @ [LogDebug (page_url 1) 200] @ [] @ [LogInfo (inserted_msg (length [wings_book])),
          LogCritical (MissingCriticalElementError no_pager_msg)])
       ({#} + mset (map (\<lambda>b. book_to_model b 0) [wings_book]))"
    using main_missing_pager [where net = shop and html = bare_html and body = "page_url 1", OF h1 h2 _ h4, of "{#}"] by blast
  then show ?thesis using h1 h2 h4 by simp
qed

theorem main_bad_pager_witness:
  "fst (get_page shop 1) = (Inr (page_url 1), [LogDebug (page_url 1) 200])
   \<and> parse_page (LayoutNode (comma_html (page_url 1))) = (Inr [wings_book], [])
   \<and> [wings_book] \<noteq> []
   \<and> select_one sel_pager ([], comma_html (page_url 1))
       = Some ([(''ul'', [''pager'']), (''[document]'', [])], Tag ''li'' [''current''] [] [NavStr ''Page 1 of 1,000''])
   \<and> parse_pages_count (py_strip (get_text (Tag ''li'' [''current''] [] [NavStr ''Page 1 of 1,000''])))
       = Inl (ValueError (''invalid literal for int() with base 10: '' @ py_repr_str ''1,000''))
   \<and> main_run shop comma_html {#} (Inl (ValueError (''invalid literal for int() with base 10: '' @ py_repr_str ''1,000'')))
       (start_events @ [LogDebug (page_url 1) 200] @ [] @ [LogInfo (inserted_msg (length [wings_book]))])
       ({#} + mset (map (\<lambda>b. book_to_model b 0) [wings_book]))"
proof -
  have h1: "fst (get_page shop 1) = (Inr (page_url 1), [LogDebug (page_url 1) 200])" by code_simp
  have h2: "parse_page (LayoutNode (comma_html (page_url 1))) = (Inr [wings_book], [])" by code_simp
  have h4: "select_one sel_pager ([], comma_html (page_url 1))
       = Some ([(''ul'', [''pager'']), (''[document]'', [])], Tag ''li'' [''current''] [] [NavStr ''Page 1 of 1,000''])"
    by code_simp
  have h5: "parse_pages_count (py_strip (get_text (Tag ''li'' [''current''] [] [NavStr ''Page 1 of 1,000''])))
       = Inl (ValueError (''invalid literal for int() with base 10: '' @ py_repr_str ''1,000''))"
    by code_simp
  have "main_run shop comma_html {#} (Inl (ValueError (''invalid literal for int() with base 10: '' @ py_repr_str ''1,000'')))
       (start_events @ [LogDebug (page_url 1) 200] @ [] @ [LogInfo (inserted_msg (length [wings_book]))])
       ({#} + mset (map (\<lambda>b. book_to_model b 0) [wings_book]))"
    using main_bad_pager [where net = shop and html = comma_html and body = "page_url 1", OF h1 h2 _ h4 h5, of "{#}"] by blast
  then show ?thesis using h1 h2 h4 h5 by simp
qed

theorem insert_books_records_witness:
  "{#} \<subseteq># snd (insert_books 7 [wings_book, attic_book] {#})
   \<and> image_mset model_to_book (snd (insert_books 7 [wings_book, attic_book] {#}) - {#})
       = mset [wings_book, attic_book]
   \<and> image_mset parse_date (snd (insert_books 7 [wings_book, attic_book] {#}) - {#}) = {#7, 7#}"
proof -
  have "{#} \<subseteq># snd (insert_books 7 [wings_book, attic_book] {#})
   \<and> image_mset model_to_book (snd (insert_books 7 [wings_book, attic_book] {#}) - {#})
       = mset [wings_book, attic_book]
   \<and> (\<forall>m \<in># snd (insert_books 7 [wings_book, attic_book] {#}) - {#}. parse_date m = 7)"
    by (rule insert_books_records)
  moreover have "image_mset parse_date (snd (insert_books 7 [wings_book, attic_book] {#}) - {#}) = {#7, 7#}"
    by (simp add: insert_books_nonempty)
  ultimately show ?thesis by blast
qed

theorem gather_documents_valid_witness:
  "(gather_step shop shop_html [2])\<^sup>*\<^sup>* (gather_init [2] {#} []) page3_stored
   \<and> coll page3_stored - {#} = {#book_to_model attic_book 7#}
   \<and> valid_book (model_to_book (book_to_model attic_book 7))"
proof -
  have c: "coll page3_stored - {#} = {#book_to_model attic_book 7#}"
    by (simp add: page3_stored_def)
  have "\<forall>m \<in># coll page3_stored - {#}. valid_book (model_to_book m)"
    by (rule gather_documents_valid [OF page3_run])
  then show ?thesis using page3_run c by simp
qed

theorem main_crawl_complete_witness:
  "fst (get_page open_shop 1) = (Inr (page_url 1), [LogDebug (page_url 1) 200])
   \<and> parse_page (LayoutNode (two_page_html (page_url 1))) = (Inr [wings_book], [])
   \<and> [wings_book] \<noteq> []
   \<and> select_one sel_pager ([], two_page_html (page_url 1))
       = Some ([(''ul'', [''pager'']), (''[document]'', [])], Tag ''li'' [''current''] [] [NavStr ''Page 1 of 2''])
   \<and> parse_pages_count (py_strip (get_text (Tag ''li'' [''current''] [] [NavStr ''Page 1 of 2'']))) = Inr 2
   \<and> fst (scrape_front open_shop two_page_html 1) = Inr [attic_book]
   \<and> (\<exists>r ev c. main_run open_shop two_page_html {#} r ev c
          \<and> r = Inr () \<and> image_mset model_to_book (c - {#}) = {#wings_book, attic_book#})"
proof -
  have h1: "fst (get_page open_shop 1) = (Inr (page_url 1), [LogDebug (page_url 1) 200])" by code_simp
  have h2: "parse_page (LayoutNode (two_page_html (page_url 1))) = (Inr [wings_book], [])" by code_simp
  have h4: "select_one sel_pager ([], two_page_html (page_url 1))
       = Some ([(''ul'', [''pager'']), (''[document]'', [])], Tag ''li'' [''current''] [] [NavStr ''Page 1 of 2''])"
    by code_simp
  have h5: "parse_pages_count (py_strip (get_text (Tag ''li'' [''current''] [] [NavStr ''Page 1 of 2'']))) = Inr 2"
    by code_simp
  have f: "fst (scrape_front open_shop two_page_html 1) = Inr [attic_book]" by code_simp
  have r: "py_range 1 2 = [1]" by (simp add: py_range_def)
  have ok: "\<forall>p\<in>set (py_range 1 2). \<exists>bs. bs \<noteq> [] \<and> fst (scrape_front open_shop two_page_html p) = Inr bs"
    using f r by simp
  have pb: "page_books open_shop two_page_html 1 = [attic_book]" using f by (simp add: page_books_def)
  have m: "(\<exists>r ev c. main_run open_shop two_page_html {#} r ev c)
         \<and> (\<forall>r ev c. main_run open_shop two_page_html {#} r ev c \<longrightarrow> r = Inr ()
              \<and> image_mset model_to_book (c - {#})
                  = mset [wings_book] + sum_list (map (\<lambda>p. mset (page_books open_shop two_page_html p)) (py_range 1 2)))"
    by (rule main_crawl_complete [where net = open_shop and html = two_page_html and body = "page_url 1",
          OF h1 h2 _ h4 h5 ok]) simp
  then obtain r ev c where run: "main_run open_shop two_page_html {#} r ev c" by blast
  with m have "r = Inr () \<and> image_mset model_to_book (c - {#})
                  = mset [wings_book] + sum_list (map (\<lambda>p. mset (page_books open_shop two_page_html p)) (py_range 1 2))"
    by blast
  then have "r = Inr () \<and> image_mset model_to_book (c - {#}) = {#wings_book, attic_book#}"
    by (simp only: r pb list.map sum_list_simps mset.simps add_0_right) simp
  then show ?thesis using h1 h2 h4 h5 f run by blast
qed

theorem gather_failure_consistent_witness:
  "\<exists>s. (gather_step shop shop_html [1, 2])\<^sup>*\<^sup>* (gather_init [1, 2] {#} []) s
       \<and> failure s = Some (NotFoundError not_found_msg)
       \<and> \<not> list_all healthy (statuses s)
       \<and> Raised (NotFoundError not_found_msg) \<in> set (statuses s)"
proof -
  have h: "fst (scrape_front shop shop_html ([1, 2] ! 0)) = Inl (NotFoundError not_found_msg)"
    using shop_page2 by simp
  obtain s where r: "(gather_step shop shop_html [1, 2])\<^sup>*\<^sup>* (gather_init [1, 2] {#} []) s"
      and f: "failure s = Some (NotFoundError not_found_msg)"
    using gather_cancel_schedule [of 0 "[1, 2]" shop shop_html "NotFoundError not_found_msg" "{#}" "[]"] h
    by auto
  have "(failure s = None \<longleftrightarrow> list_all healthy (statuses s))
         \<and> (\<forall>e. failure s = Some e \<longrightarrow> Raised e \<in> set (statuses s))"
    using r by (rule gather_failure_consistent)
  then show ?thesis using r f by auto
qed

theorem gather_empty_page_fails_witness:
  "0 < length [3 :: int] \<and> fst (scrape_front shop shop_html ([3] ! 0)) = Inr []
   \<and> (\<exists>s. (gather_step shop shop_html [3])\<^sup>*\<^sup>* (gather_init [3] {#} []) s \<and> gather_final s
          \<and> failure s \<noteq> None \<and> gather_exit s \<noteq> (Inr (), events s))"
proof -
  have e: "fst (scrape_front shop shop_html ([3] ! 0)) = Inr []" using shop_page4 by simp
  obtain s where r: "(gather_step shop shop_html [3])\<^sup>*\<^sup>* (gather_init [3] {#} []) s" and f: "gather_final s"
    using gather_reaches_final by blast
  have "failure s \<noteq> None \<and> gather_exit s \<noteq> (Inr (), events s)"
    using gather_empty_page_fails [of 0 "[3]" shop shop_html, OF _ e r f] by simp
  then show ?thesis using e r f by auto
qed

theorem scrape_front_local_witness:
  "shop (page_url (2 + 1)) = open_shop (page_url (2 + 1))
   \<and> scrape_front shop shop_html 2 = scrape_front open_shop shop_html 2
   \<and> (1 :: int) \<noteq> 2 \<and> page_url (1 + 1) \<noteq> page_url (2 + 1)"
proof -
  have n: "shop (page_url (2 + 1)) = open_shop (page_url (2 + 1))"
    by (rule ext) (simp add: shop_def open_shop_def page_url_inj)
  show ?thesis using scrape_front_local [of shop 2 open_shop shop_html 1, OF n] n by simp
qed

theorem main_task_failure_run_witness:
  "fst (get_page shop 1) = (Inr (page_url 1), [LogDebug (page_url 1) 200])
   \<and> parse_page (LayoutNode (shop_html (page_url 1))) = (Inr [wings_book], [])
   \<and> select_one sel_pager ([], shop_html (page_url 1))
       = Some ([(''ul'', [''pager'']), (''[document]'', [])], Tag ''li'' [''current''] [] [NavStr ''Page 1 of 3''])
   \<and> parse_pages_count (py_strip (get_text (Tag ''li'' [''current''] [] [NavStr ''Page 1 of 3'']))) = Inr 3
   \<and> (1 :: int) \<in> set (py_range 1 3)
   \<and> fst (scrape_front shop shop_html 1) = Inl (NotFoundError not_found_msg)
   \<and> (\<exists>ev c. main_run shop shop_html {#} (Inl (NotFoundError not_found_msg)) ev c
             \<and> image_mset model_to_book (c - {#}) = {#wings_book#})"
proof -
  have h1: "fst (get_page shop 1) = (Inr (page_url 1), [LogDebug (page_url 1) 200])" by code_simp
  have h2: "parse_page (LayoutNode (shop_html (page_url 1))) = (Inr [wings_book], [])" by code_simp
  have h4: "select_one sel_pager ([], shop_html (page_url 1))
       = Some ([(''ul'', [''pager'']), (''[document]'', [])], Tag ''li'' [''current''] [] [NavStr ''Page 1 of 3''])"
    by code_simp
  have h5: "parse_pages_count (py_strip (get_text (Tag ''li'' [''current''] [] [NavStr ''Page 1 of 3'']))) = Inr 3"
    by code_simp
  have p: "(1 :: int) \<in> set (py_range 1 3)" by (simp add: py_range_def)
  have "\<exists>ev c. main_run shop shop_html {#}
           (if is_missing_critical (NotFoundError not_found_msg) then Inr () else Inl (NotFoundError not_found_msg)) ev c
         \<and> image_mset model_to_book (c - {#}) = mset [wings_book]"
    by (rule main_task_failure_run [where net = shop and html = shop_html and body = "page_url 1",
          OF h1 h2 _ h4 h5 p shop_page2]) simp
  then have "\<exists>ev c. main_run shop shop_html {#} (Inl (NotFoundError not_found_msg)) ev c
             \<and> image_mset model_to_book (c - {#}) = {#wings_book#}"
    by simp
  then show ?thesis using h1 h2 h4 h5 p shop_page2 by blast
qed

end
