(* ===== verification/Spec2Isabelle.thy ===== *)
theory Spec2Isabelle
  imports Scraper_Tests Pager_Tests Transport_Tests Crawl_Tests
begin

text \<open>
  \<^bold>\<open>A verification model of the soup catalogue scraper.\<close>

  The program (\<^verbatim>\<open>src/\<close>) crawls the paginated catalogue of books.toscrape.com.
  \<^verbatim>\<open>main.py\<close> fetches page 1 (\<^verbatim>\<open>transport.get_page\<close>, an httpx GET retried by
  stamina), parses it (\<^verbatim>\<open>scraper.parse_page\<close>), stores the records
  (\<^verbatim>\<open>mongo.insert_books\<close>), reads the pager text \<^verbatim>\<open>.pager li.current\<close>, turns it
  into a page count (\<^verbatim>\<open>scraper.parse_pages_count\<close>) and then fetches, parses and stores
  pages 2 to N concurrently (\<^verbatim>\<open>scrape_page\<close> under \<^verbatim>\<open>asyncio.gather\<close>).
  \<^verbatim>\<open>parse_page\<close> calls \<^verbatim>\<open>parse_book\<close> once per \<^verbatim>\<open>article.product_pod\<close> fragment,
  and \<^verbatim>\<open>parse_book\<close> calls \<^verbatim>\<open>gauge_availability\<close>. The exceptions of
  \<^verbatim>\<open>exceptions.py\<close> carry every failure between these functions.

  \<^bold>\<open>Theories.\<close>
  \<^item> \<open>Prelude\<close>: the exception-and-log effect \<open>('e, 'a, 'l) eff\<close> every component
    returns (an exception or a value, with the log events emitted), and shared list lemmas.
  \<^item> \<open>Exceptions\<close>: \<open>exc\<close>, one constructor per class of \<^verbatim>\<open>exceptions.py\<close> plus the
    library exceptions that reach the code, with the base-class predicates; \<open>log_event\<close>.
  \<^item> \<open>Py_Builtins\<close>: the Python built-ins the results depend on (\<^verbatim>\<open>str.strip\<close>,
    \<^verbatim>\<open>\s\<close>, \<^verbatim>\<open>repr\<close> of a list, \<^verbatim>\<open>int()\<close>, decimal formatting), with their lemmas.
  \<^item> \<open>Markup\<close>: the parsed document as bs4 presents it (a tree of elements, text and
    comments) and the queries \<open>select_all\<close>/\<open>select_one\<close>, \<open>get_attr\<close>,
    \<open>get_text\<close>; a selector is a predicate on an element and its ancestors.
  \<^item> \<open>Availability\<close>: \<open>gauge_availability\<close> (scraper.py 55--73) and its contract
    \<open>classify_spec\<close>.
  \<^item> \<open>Extractor\<close>: the record \<open>book\<close> and \<open>parse_book\<close> (scraper.py 20--52).
  \<^item> \<open>Page_Parser\<close>: \<open>parse_page\<close> and its loop \<open>parse_products\<close> (scraper.py
    86--103), and the loop-free specification \<open>page_spec\<close>.
  \<^item> \<open>Scraper_Tests\<close>: the fixtures of \<^verbatim>\<open>scraper_test.py\<close> as trees, its assertions
    as theorems, and the closed instances (witnesses) of the properties.
  \<^item> \<open>Pager\<close>: \<open>parse_pages_count\<close> (scraper.py 76--83); the regular expression is
    the greedy scanner \<open>pager_match\<close>, and \<open>pager_lang\<close> is its language written as a
    decomposition of the text into tokens. \<open>Pager_Tests\<close> evaluates it on pager texts.
  \<^item> \<open>Transport\<close>: \<open>get_page\<close> (transport.py 10--21) over a network oracle that answers
    the \<open>k\<close>-th request to a URL; one attempt is \<open>get_page_attempt\<close>, the decorator
    \<^verbatim>\<open>stamina.retry\<close> is \<open>stamina_retry\<close>, and \<open>fetch_spec\<close> is the contract in
    terms of responses. \<open>Transport_Tests\<close> runs it on three networks.
  \<^item> \<open>Sink\<close>: \<open>book_model\<close>, \<open>book_to_model\<close> and \<open>insert_books\<close> (mongo.py), the
    collection a multiset of documents.
  \<^item> \<open>Crawl\<close>: \<open>main\<close> and \<^verbatim>\<open>scrape_page\<close> (main.py). Phase 1 is the function
    \<open>main_seed\<close>; phase 2, \<^verbatim>\<open>asyncio.gather\<close> over the tasks, is the step relation
    \<open>gather_step\<close> on a \<open>gather_state\<close> (one status per task, the collection, the log,
    the exception gather propagates), with a step per fetch-and-parse, per store, and per
    cancellation by \<^verbatim>\<open>asyncio.run\<close> once an exception has escaped; \<open>main_run\<close>
    relates a start to every outcome some schedule produces.
  \<^item> \<open>Crawl_Main\<close>: the lemmas on the whole of \<open>main\<close>, read off \<open>main_run\<close>: each
    outcome phase 1 decides, and the composition of phase 1 with gather when every page
    succeeds and when one task page fails. \<open>Crawl_Tests\<close> runs the orchestrator on a three-page catalogue with a
    missing page and on a two-page catalogue that answers everywhere.

  \<^bold>\<open>What the lemmas show.\<close>
  The classifier implements its contract (first recognised class decides; the message of
  an unrecognised list reproduces the list as Python prints it). The extractor checks its
  fields in the source's order, each failure giving its own exception, and every record it
  returns was built from validated fields and has a non-empty, stripped price. The page
  parser is equal to a loop-free specification: records in document order, one skip event
  per skipped fragment, and the first exception outside the \<^verbatim>\<open>except\<close> clauses
  aborting the page with the records collected so far lost. The pager scanner accepts exactly
  the language of the expression (greedy scanning loses no match because neighbouring tokens
  have disjoint character classes); every well-formed comma-free pager text resolves to its
  total whatever the whitespace, blank and non-matching texts give their two messages, and a
  comma-grouped total, which the expression accepts, reaches \<^verbatim>\<open>int()\<close> with its
  commas and raises \<^verbatim>\<open>ValueError\<close>.

  The fetcher equals its contract: at most three requests, a 404 ends it at once with
  \<^verbatim>\<open>NotFoundError\<close>, a body is returned unmodified, three transient failures propagate the
  third, and only requests that received a response are logged. The sink adds a batch whole
  with one time stamp, and refuses an empty one. For the concurrent phase, rule induction
  gives the invariant that the collection holds exactly the stored tasks' records; when every
  page parses, every complete schedule stores all pages; one failing page can instead cancel
  every other page, whereas a page with no record fails gather in every schedule. A second
  invariant ties the exception gather propagates to the tasks: none is noted while no task has
  raised or been cancelled, and a noted one was raised by a task. A task reads the network
  only at the URL of its own page, and no two tasks share a URL, which is why its fetch may be
  one step. No schedule is infinite and none gets stuck (the lemmas \<open>gather_step_wf\<close> and
  \<open>gather_reaches_final\<close>, which the end-to-end results use). Across the components,
  every record the page parser returns and every document the concurrent phase stores is a
  well-formed book (non-empty price, title and price stripped). The first phase's outcomes
  (failed fetch, empty first page, missing pager, unresolvable pager) are characterised
  for every schedule. End to end, when page 1 yields records and a pager that resolves to N
  and every later page yields records, \<open>main\<close> has a run, and every run returns normally
  with the collection grown by exactly the records of pages 1 to N: phase 1's store and
  gather's invariant compose through the collection \<open>main_seed\<close> hands over. When instead
  one task page raises, some run of \<^verbatim>\<open>main\<close> propagates that exception with only page 1's
  records stored.

  \<^bold>\<open>Bounds.\<close> The retry budget is the decorator's \<open>attempts=3\<close>; \<open>stamina_retry\<close>
  recurses on the remaining budget, so it is total with no fuel. The concurrent phase is a
  relation, and its termination is proved by the measure \<open>gather_weight\<close> (two per task
  not started, one per task parsed but not stored).

  \<^bold>\<open>Not modelled, and why.\<close>
  HTML parsing itself (bs4's \<^verbatim>\<open>html.parser\<close>) is a library: the component models start
  from the parsed tree, and the orchestrator takes the parser as a parameter \<open>html\<close>.
  Logging is modelled as the list of events emitted, not as output; in phase 2 the events of
  one task's retries are appended together, although the real log may interleave them with
  other tasks' events. Time is not modelled: stamina's waits and its 45-second overall timeout
  (which can end retries before the third attempt), the clock (the time stamp of an insert is
  a parameter of the store step). \<^verbatim>\<open>init_beanie\<close>, the database and HTTP clients and
  \<^verbatim>\<open>config.MONGODB_URI\<close> are I/O set-up. \<^verbatim>\<open>entities.Book\<close> is not under
  \<^verbatim>\<open>src/\<close> and is modelled from its uses. Strings are lists of code points below 256.
\<close>

end
